theory Spec2Isabelle
  imports Complex_Main
begin

section \<open>Tensor runtime: element values\<close>

text \<open>
  The networks of \<^verbatim>\<open>networks/acnetwork_seperated.py\<close> compute on float tensors of the
  tensor runtime.  An element is modelled as a real number or one of the three special
  values of IEEE arithmetic; the two zeros are not distinguished, and a zero divisor is
  taken as positive zero.

  The result of an operation on finite values is the exact result as the runtime rounds
  it, and the runtime chooses how it sums a list of values (the order of the additions
  and the rounding of the partial sums).  Both belong to the runtime and not to the
  networks; they are parameters of the model: \<open>rounded ar x\<close> is the value that the
  arithmetic \<open>ar\<close> gives for the exact result \<open>x\<close> (an infinity when it overflows), and
  \<open>summed ar xs\<close> is the sum it computes for the list \<open>xs\<close>.
\<close>

datatype fl = Fin real | PInf | NInf | NaN

record arith =
  rounded :: "real \<Rightarrow> fl"
  summed :: "fl list \<Rightarrow> fl"

fun fmul :: "(real \<Rightarrow> fl) \<Rightarrow> fl \<Rightarrow> fl \<Rightarrow> fl" where
  "fmul rd NaN y = NaN"
| "fmul rd x NaN = NaN"
| "fmul rd (Fin a) (Fin b) = rd (a * b)"
| "fmul rd (Fin a) PInf = (if a = 0 then NaN else if 0 < a then PInf else NInf)"
| "fmul rd (Fin a) NInf = (if a = 0 then NaN else if 0 < a then NInf else PInf)"
| "fmul rd PInf (Fin b) = (if b = 0 then NaN else if 0 < b then PInf else NInf)"
| "fmul rd NInf (Fin b) = (if b = 0 then NaN else if 0 < b then NInf else PInf)"
| "fmul rd PInf PInf = PInf"
| "fmul rd PInf NInf = NInf"
| "fmul rd NInf PInf = NInf"
| "fmul rd NInf NInf = PInf"

fun fadd :: "(real \<Rightarrow> fl) \<Rightarrow> fl \<Rightarrow> fl \<Rightarrow> fl" where
  "fadd rd NaN y = NaN"
| "fadd rd x NaN = NaN"
| "fadd rd (Fin a) (Fin b) = rd (a + b)"
| "fadd rd (Fin a) PInf = PInf"
| "fadd rd (Fin a) NInf = NInf"
| "fadd rd PInf (Fin b) = PInf"
| "fadd rd NInf (Fin b) = NInf"
| "fadd rd PInf PInf = PInf"
| "fadd rd PInf NInf = NaN"
| "fadd rd NInf PInf = NaN"
| "fadd rd NInf NInf = NInf"

fun fdiv :: "(real \<Rightarrow> fl) \<Rightarrow> fl \<Rightarrow> fl \<Rightarrow> fl" where
  "fdiv rd NaN y = NaN"
| "fdiv rd x NaN = NaN"
| "fdiv rd (Fin a) (Fin b) =
     (if b = 0 then (if a = 0 then NaN else if 0 < a then PInf else NInf)
      else rd (a / b))"
| "fdiv rd (Fin a) PInf = Fin 0"
| "fdiv rd (Fin a) NInf = Fin 0"
| "fdiv rd PInf (Fin b) = (if 0 \<le> b then PInf else NInf)"
| "fdiv rd NInf (Fin b) = (if 0 \<le> b then NInf else PInf)"
| "fdiv rd PInf PInf = NaN"
| "fdiv rd PInf NInf = NaN"
| "fdiv rd NInf PInf = NaN"
| "fdiv rd NInf NInf = NaN"

fun frelu :: "fl \<Rightarrow> fl" where
  "frelu (Fin a) = Fin (max 0 a)"
| "frelu PInf = PInf"
| "frelu NInf = Fin 0"
| "frelu NaN = NaN"

text \<open>The sum of a list from its last element to its first, every partial sum rounded.\<close>

definition seq_sum :: "(real \<Rightarrow> fl) \<Rightarrow> fl list \<Rightarrow> fl" where
  "seq_sum rd xs = foldr (fadd rd) xs (Fin 0)"

text \<open>
  Two arithmetics to run the model on.  The arithmetic \<open>exact\<close> does not round.  The
  arithmetic \<open>eighths\<close> is a fixed-point arithmetic with three binary digits after the
  point: it rounds to the nearest multiple of \<open>1/8\<close>, so that quotients such as \<open>1/3\<close> are
  not values of it.  Both sum a list with \<open>seq_sum\<close>.
\<close>

definition exact :: arith where
  "exact = \<lparr>rounded = Fin, summed = seq_sum Fin\<rparr>"

definition round_eighths :: "real \<Rightarrow> fl" where
  "round_eighths x = Fin (of_int \<lfloor>x * 8 + 1 / 2\<rfloor> / 8)"

definition eighths :: arith where
  "eighths = \<lparr>rounded = round_eighths, summed = seq_sum round_eighths\<rparr>"

fun is_fin :: "fl \<Rightarrow> bool" where
  "is_fin (Fin a) = True"
| "is_fin x = False"

text \<open>
  Properties that an arithmetic may have.  In an arithmetic without overflow, the
  rounding of a real number is finite and so is the sum of finite values.  In an
  arithmetic with zero, zero is a value and a sum of zeros is zero.  A finite element is
  a value of the arithmetic when rounding leaves it as it is.
\<close>

definition finite_arith :: "arith \<Rightarrow> bool" where
  "finite_arith ar =
     ((\<forall>x. is_fin (rounded ar x)) \<and> (\<forall>xs. list_all is_fin xs \<longrightarrow> is_fin (summed ar xs)))"

definition zero_arith :: "arith \<Rightarrow> bool" where
  "zero_arith ar =
     (rounded ar 0 = Fin 0 \<and> (\<forall>xs. (\<forall>x \<in> set xs. x = Fin 0) \<longrightarrow> summed ar xs = Fin 0))"

fun value_of :: "arith \<Rightarrow> fl \<Rightarrow> bool" where
  "value_of ar (Fin x) = (rounded ar x = Fin x)"
| "value_of ar x = True"

section \<open>Tensors\<close>

text \<open>
  A tensor is a nested list, batch dimension first.  The architecture uses ranks 1
  (bias vectors, the validity mask), 2 (batch of vectors) and 4 (batch of stacks of
  grids).  Tensors of the runtime are rectangular; \<open>is_shape2\<close> and \<open>is_shape4\<close>
  say so for a nested list.  A nested list without elements does not tell its other
  dimensions, so tensors with a dimension of size 0 (a batch of no examples) are
  outside this model.
\<close>

type_synonym t1 = "fl list"
type_synonym t2 = "fl list list"
type_synonym t3 = "fl list list list"
type_synonym t4 = "fl list list list list"

datatype tensor = T1 t1 | T2 t2 | T4 t4

fun tensor_finite :: "tensor \<Rightarrow> bool" where
  "tensor_finite (T1 x) = list_all is_fin x"
| "tensor_finite (T2 x) = list_all (list_all is_fin) x"
| "tensor_finite (T4 x) = list_all (list_all (list_all (list_all is_fin))) x"

text \<open>
  The exceptions of the code: a key missing from a dictionary, an attribute missing
  from an object, a call with too few arguments, a dimension out of range, and a
  shape mismatch that the runtime reports.  \<open>RankNotModelled\<close> marks an operand of a
  rank that this model of the runtime leaves out (rank 4 in an elementwise operation
  of the masking step, a rank other than 2 given to \<^verbatim>\<open>Dense2Conv\<close>).
\<close>

datatype error =
    KeyError string
  | AttributeError string
  | TypeError
  | IndexError
  | ShapeError
  | RankNotModelled

definition is_shape2 :: "nat \<Rightarrow> nat \<Rightarrow> 'a list list \<Rightarrow> bool" where
  "is_shape2 B N x = (length x = B \<and> list_all (\<lambda>r. length r = N) x)"

definition is_shape4 :: "nat \<Rightarrow> nat \<Rightarrow> nat \<Rightarrow> nat \<Rightarrow> 'a list list list list \<Rightarrow> bool" where
  "is_shape4 B C H W x =
     (length x = B \<and> list_all (\<lambda>e. length e = C \<and> list_all (is_shape2 H W) e) x)"

definition rows :: "'a list list \<Rightarrow> nat" where
  "rows x = length x"

definition cols :: "'a list list \<Rightarrow> nat" where
  "cols x = (case x of [] \<Rightarrow> 0 | r # _ \<Rightarrow> length r)"

subsection \<open>Broadcasting of rank-1 and rank-2 operands\<close>

definition bdim :: "nat \<Rightarrow> nat \<Rightarrow> nat option" where
  "bdim a b = (if a = b then Some a else if a = 1 then Some b
               else if b = 1 then Some a else None)"

definition expand_dim :: "nat \<Rightarrow> 'a list \<Rightarrow> 'a list" where
  "expand_dim n xs = (if length xs = n then xs else replicate n (hd xs))"

definition expand2 :: "nat \<Rightarrow> nat \<Rightarrow> 'a list list \<Rightarrow> 'a list list" where
  "expand2 R C x = expand_dim R (map (expand_dim C) x)"

definition zip_with :: "('a \<Rightarrow> 'b \<Rightarrow> 'c) \<Rightarrow> 'a list \<Rightarrow> 'b list \<Rightarrow> 'c list" where
  "zip_with f xs ys = map (\<lambda>(x, y). f x y) (zip xs ys)"

text \<open>Out-of-place elementwise operation: both operands are expanded to the common shape.\<close>

definition broadcast2 :: "(fl \<Rightarrow> fl \<Rightarrow> fl) \<Rightarrow> t2 \<Rightarrow> t2 \<Rightarrow> error + t2" where
  "broadcast2 f x y =
     (case (bdim (rows x) (rows y), bdim (cols x) (cols y)) of
        (Some R, Some C) \<Rightarrow>
          Inr (zip_with (zip_with f) (expand2 R C x) (expand2 R C y))
      | _ \<Rightarrow> Inl ShapeError)"

text \<open>
  In-place elementwise operation (\<^verbatim>\<open>x /= y\<close>): the result is written into \<open>x\<close>, so the
  common shape has to be the shape of \<open>x\<close>.
\<close>

definition broadcast2_inplace :: "(fl \<Rightarrow> fl \<Rightarrow> fl) \<Rightarrow> t2 \<Rightarrow> t2 \<Rightarrow> error + t2" where
  "broadcast2_inplace f x y =
     (case (bdim (rows x) (rows y), bdim (cols x) (cols y)) of
        (Some R, Some C) \<Rightarrow>
          if R = rows x \<and> C = cols x
          then Inr (zip_with (zip_with f) x (expand2 R C y))
          else Inl ShapeError
      | _ \<Rightarrow> Inl ShapeError)"

text \<open>A rank-1 operand of shape \<open>(n)\<close> is aligned with the last dimension: shape \<open>(1, n)\<close>.\<close>

fun tmul :: "arith \<Rightarrow> tensor \<Rightarrow> tensor \<Rightarrow> error + tensor" where
  "tmul ar (T2 x) (T2 y) = map_sum id T2 (broadcast2 (fmul (rounded ar)) x y)"
| "tmul ar (T2 x) (T1 y) = map_sum id T2 (broadcast2 (fmul (rounded ar)) x [y])"
| "tmul ar (T1 x) (T2 y) = map_sum id T2 (broadcast2 (fmul (rounded ar)) [x] y)"
| "tmul ar (T1 x) (T1 y) =
     map_sum id (\<lambda>z. T1 (concat z)) (broadcast2 (fmul (rounded ar)) [x] [y])"
| "tmul ar x y = Inl RankNotModelled"

text \<open>\<^verbatim>\<open>t.sum(1)\<close>: the sum along dimension 1, which is dropped from the shape.\<close>

fun tsum1 :: "arith \<Rightarrow> tensor \<Rightarrow> error + tensor" where
  "tsum1 ar (T2 x) = Inr (T1 (map (summed ar) x))"
| "tsum1 ar (T1 x) = Inl IndexError"
| "tsum1 ar (T4 x) = Inl RankNotModelled"

fun tdiv_inplace :: "arith \<Rightarrow> tensor \<Rightarrow> tensor \<Rightarrow> error + tensor" where
  "tdiv_inplace ar (T2 x) (T2 y) = map_sum id T2 (broadcast2_inplace (fdiv (rounded ar)) x y)"
| "tdiv_inplace ar (T2 x) (T1 y) = map_sum id T2 (broadcast2_inplace (fdiv (rounded ar)) x [y])"
| "tdiv_inplace ar (T1 x) (T1 y) =
     map_sum id (\<lambda>z. T1 (concat z)) (broadcast2_inplace (fdiv (rounded ar)) [x] [y])"
| "tdiv_inplace ar (T1 x) (T2 y) = Inl ShapeError"
| "tdiv_inplace ar x y = Inl RankNotModelled"

section \<open>ActorNet._mask_unavailable_actions\<close>

definition mask_unavailable_actions :: "arith \<Rightarrow> tensor \<Rightarrow> tensor \<Rightarrow> error + tensor" where
  "mask_unavailable_actions ar policy valid_actions =
     (case tmul ar policy valid_actions of
        Inl e \<Rightarrow> Inl e
      | Inr masked_policy_vb \<Rightarrow>
          (case tsum1 ar masked_policy_vb of
             Inl e \<Rightarrow> Inl e
           | Inr s \<Rightarrow> tdiv_inplace ar masked_policy_vb s))"

text \<open>The one-hot vector of length \<open>n\<close> with its 1 at index \<open>k\<close>.\<close>

definition one_hot :: "nat \<Rightarrow> nat \<Rightarrow> real list" where
  "one_hot n k = map (\<lambda>i. if i = k then 1 else 0) [0..<n]"

section \<open>Layers of the tensor runtime\<close>

definition ebind :: "error + 'a \<Rightarrow> ('a \<Rightarrow> error + 'b) \<Rightarrow> error + 'b" where
  "ebind r f = (case r of Inl e \<Rightarrow> Inl e | Inr x \<Rightarrow> f x)"

text \<open>Grid height and grid width of a rank-4 tensor, read off its first channel.\<close>

definition height :: "t4 \<Rightarrow> nat" where
  "height x = (case x of [] \<Rightarrow> 0 | e # _ \<Rightarrow> rows (case e of [] \<Rightarrow> [] | c # _ \<Rightarrow> c))"

definition width :: "t4 \<Rightarrow> nat" where
  "width x = (case x of [] \<Rightarrow> 0 | e # _ \<Rightarrow> cols (case e of [] \<Rightarrow> [] | c # _ \<Rightarrow> c))"

subsection \<open>nn.Conv2d\<close>

text \<open>
  The value of one channel of one example at row \<open>r\<close> and column \<open>q\<close> of the grid padded
  with \<open>pad\<close> zeros on every side.
\<close>

definition padded_at :: "nat \<Rightarrow> fl list list \<Rightarrow> nat \<Rightarrow> nat \<Rightarrow> fl" where
  "padded_at pad ch r q =
     (if pad \<le> r \<and> r - pad < length ch \<and> pad \<le> q \<and> q - pad < length (ch ! (r - pad))
      then ch ! (r - pad) ! (q - pad) else Fin 0)"

text \<open>
  One output cell: the kernel \<open>ker\<close> of one output channel (input channels by \<open>k\<close> by \<open>k\<close>)
  laid over the padded example \<open>e\<close> at \<open>(i * stride, j * stride)\<close>, plus the bias: the sum
  of the rounded products, as the arithmetic sums them, and the bias added to it.
\<close>

definition conv_at ::
  "arith \<Rightarrow> nat \<Rightarrow> nat \<Rightarrow> nat \<Rightarrow> t3 \<Rightarrow> fl \<Rightarrow> t3 \<Rightarrow> nat \<Rightarrow> nat \<Rightarrow> fl" where
  "conv_at ar k stride pad ker bias e i j =
     fadd (rounded ar)
       (summed ar [fmul (rounded ar) (ker ! c ! di ! dj)
                     (padded_at pad (e ! c) (i * stride + di) (j * stride + dj)).
                   c \<leftarrow> [0..<length e], di \<leftarrow> [0..<k], dj \<leftarrow> [0..<k]])
       bias"

definition conv2d_example ::
  "arith \<Rightarrow> nat \<Rightarrow> nat \<Rightarrow> nat \<Rightarrow> t4 \<Rightarrow> t1 \<Rightarrow> nat \<Rightarrow> nat \<Rightarrow> t3 \<Rightarrow> t3" where
  "conv2d_example ar k stride pad wt bt Ho Wo e =
     map (\<lambda>oc. map (\<lambda>i. map (\<lambda>j. conv_at ar k stride pad (wt ! oc) (bt ! oc) e i j) [0..<Wo])
                  [0..<Ho])
       [0..<length wt]"

text \<open>
  A convolution with dilation 1.  The weight has shape \<open>(cout, cin, k, k)\<close>, the bias
  \<open>(cout)\<close>, the input \<open>(B, cin, H, W)\<close>; anything else is a shape error of the runtime.
  A nested list without examples does not tell the size of its grid, so a batch of no
  examples is outside this model: it is taken as a shape error.
\<close>

definition conv2d ::
  "arith \<Rightarrow> nat \<Rightarrow> nat \<Rightarrow> nat \<Rightarrow> nat \<Rightarrow> nat \<Rightarrow> t4 \<Rightarrow> t1 \<Rightarrow> t4 \<Rightarrow> error + t4" where
  "conv2d ar cin cout k stride pad wt bt x =
     (let H = height x; W = width x in
      if is_shape4 cout cin k k wt \<and> length bt = cout \<and> is_shape4 (length x) cin H W x
         \<and> 0 < stride \<and> k \<le> H + 2 * pad \<and> k \<le> W + 2 * pad
      then Inr (map (conv2d_example ar k stride pad wt bt
                       ((H + 2 * pad - k) div stride + 1) ((W + 2 * pad - k) div stride + 1)) x)
      else Inl ShapeError)"

subsection \<open>nn.Linear\<close>

definition linear_row :: "arith \<Rightarrow> t2 \<Rightarrow> t1 \<Rightarrow> t1 \<Rightarrow> t1" where
  "linear_row ar wt bt r =
     map (\<lambda>oc. fadd (rounded ar) (summed ar (zip_with (fmul (rounded ar)) r (wt ! oc))) (bt ! oc))
       [0..<length wt]"

text \<open>
  The weight has shape \<open>(fout, fin)\<close> and the bias \<open>(fout)\<close>; the layer acts on the last
  dimension of its input, which has to be \<open>fin\<close>.
\<close>

fun linear :: "arith \<Rightarrow> nat \<Rightarrow> nat \<Rightarrow> t2 \<Rightarrow> t1 \<Rightarrow> tensor \<Rightarrow> error + tensor" where
  "linear ar fin fout wt bt (T1 x) =
     (if is_shape2 fout fin wt \<and> length bt = fout \<and> length x = fin
      then Inr (T1 (linear_row ar wt bt x)) else Inl ShapeError)"
| "linear ar fin fout wt bt (T2 x) =
     (if is_shape2 fout fin wt \<and> length bt = fout \<and> list_all (\<lambda>r. length r = fin) x
      then Inr (T2 (map (linear_row ar wt bt) x)) else Inl ShapeError)"
| "linear ar fin fout wt bt (T4 x) =
     (if is_shape2 fout fin wt \<and> length bt = fout
         \<and> list_all (list_all (list_all (\<lambda>r. length r = fin))) x
      then Inr (T4 (map (map (map (linear_row ar wt bt))) x)) else Inl ShapeError)"

subsection \<open>nn.ReLU\<close>

fun relu :: "tensor \<Rightarrow> tensor" where
  "relu (T1 x) = T1 (map frelu x)"
| "relu (T2 x) = T2 (map (map frelu) x)"
| "relu (T4 x) = T4 (map (map (map (map frelu))) x)"

subsection \<open>Flatten and Dense2Conv\<close>

text \<open>
  Modelled from the spec: \<^verbatim>\<open>Flatten\<close> is imported from \<^verbatim>\<open>utils.layers\<close>, whose source is not part
  of the repository files at hand.  The spec has it flatten the single-channel grid of
  each example "to length H\<cdot>W": every example is flattened to one vector, the batch
  dimension is kept.
\<close>

fun flatten :: "tensor \<Rightarrow> error + tensor" where
  "flatten (T4 x) = Inr (T2 (map (\<lambda>e. concat (map concat e)) x))"
| "flatten (T2 x) = Inr (T2 x)"
| "flatten (T1 x) = Inr (T2 (map (\<lambda>v. [v]) x))"

text \<open>
  Modelled from the spec: \<^verbatim>\<open>Dense2Conv\<close> is imported from \<^verbatim>\<open>utils.layers\<close> as well.  The spec
  has it replicate the vector of each example "across every spatial cell of the working
  grid, producing (batch, 32, H, W)"; the grid is \<^verbatim>\<open>FEAT2DSIZE\<close> by \<^verbatim>\<open>FEAT2DSIZE\<close>.
\<close>

fun dense2conv :: "nat \<Rightarrow> tensor \<Rightarrow> error + tensor" where
  "dense2conv F (T2 x) = Inr (T4 (map (map (\<lambda>v. replicate F (replicate F v))) x))"
| "dense2conv F x = Inl RankNotModelled"

subsection \<open>torch.cat along dimension 1\<close>

fun all_T4 :: "tensor list \<Rightarrow> t4 list option" where
  "all_T4 [] = Some []"
| "all_T4 (T4 x # ts) = map_option ((#) x) (all_T4 ts)"
| "all_T4 (t # ts) = None"

fun all_T2 :: "tensor list \<Rightarrow> t2 list option" where
  "all_T2 [] = Some []"
| "all_T2 (T2 x # ts) = map_option ((#) x) (all_T2 ts)"
| "all_T2 (t # ts) = None"

text \<open>
  The tensors have to agree in every dimension but dimension 1; example \<open>b\<close> of the
  result is the concatenation of the examples \<open>b\<close> of the arguments, in the order of
  the list.  Only operands of rank 4 and of rank 2 are modelled; the runtime's
  special case of an empty operand of rank 1, which it skips, is not.
\<close>

definition cat1_t4 :: "t4 list \<Rightarrow> error + t4" where
  "cat1_t4 ts =
     (case ts of
        [] \<Rightarrow> Inl ShapeError
      | t # _ \<Rightarrow>
          if list_all (\<lambda>u. length u = length t \<and> height u = height t \<and> width u = width t) ts
          then Inr (map (\<lambda>b. concat (map (\<lambda>u. u ! b) ts)) [0..<length t])
          else Inl ShapeError)"

definition cat1_t2 :: "t2 list \<Rightarrow> error + t2" where
  "cat1_t2 ts =
     (case ts of
        [] \<Rightarrow> Inl ShapeError
      | t # _ \<Rightarrow>
          if list_all (\<lambda>u. length u = length t) ts
          then Inr (map (\<lambda>b. concat (map (\<lambda>u. u ! b) ts)) [0..<length t])
          else Inl ShapeError)"

definition torch_cat1 :: "tensor list \<Rightarrow> error + tensor" where
  "torch_cat1 ts =
     (case all_T4 ts of
        Some xs \<Rightarrow> map_sum id T4 (cat1_t4 xs)
      | None \<Rightarrow>
          (case all_T2 ts of
             Some xs \<Rightarrow> map_sum id T2 (cat1_t2 xs)
           | None \<Rightarrow> (case ts of T1 x # _ \<Rightarrow> Inl IndexError | _ \<Rightarrow> Inl ShapeError)))"

section \<open>Modules and their parameters\<close>

text \<open>
  A parameter tensor lives in a store, at an address.  A module is a tree; a layer with
  parameters holds the addresses of its weight and its bias, so two trees that hold the
  same address share that parameter's storage, as two references to one module object
  do.  A network object is a module whose children are its attributes, in the order of
  their assignment.  The arguments of \<open>Conv2d\<close> are the input channels, the output
  channels, the kernel size, the stride, the padding, and the addresses of the weight and
  the bias; those of \<open>Linear\<close> are the input features, the output features and the two
  addresses.
\<close>

type_synonym addr = nat

datatype module =
    Conv2d nat nat nat nat nat addr addr
  | ReLU
  | Linear nat nat addr addr
  | Flatten
  | Dense2Conv
  | Sequential "module list"
  | Net "(string \<times> module) list"

text \<open>The configuration module \<^verbatim>\<open>utils.arglist\<close>, whose constants are parameters here.\<close>

record arglist =
  NUM_ACTIONS :: nat
  FEAT2DSIZE :: nat

text \<open>
  The store of parameter tensors, the next free address, and the number of parameter
  initializations done so far.  The tensor that the \<open>n\<close>-th initialization of the run
  produces for a parameter of shape \<open>sh\<close> is \<open>draw n sh\<close>; the function \<open>draw\<close> stands for the
  random generator and the initialization schemes, and is a parameter of the model.
\<close>

record heap =
  tensors :: "addr \<Rightarrow> tensor option"
  next_addr :: addr
  draws :: nat

definition empty_heap :: heap where
  "empty_heap = \<lparr>tensors = (\<lambda>a. None), next_addr = 0, draws = 0\<rparr>"

definition new_param :: "(nat \<Rightarrow> nat list \<Rightarrow> tensor) \<Rightarrow> nat list \<Rightarrow> heap \<Rightarrow> addr \<times> heap" where
  "new_param draw sh s =
     (next_addr s,
      s\<lparr>tensors := (tensors s)(next_addr s \<mapsto> draw (draws s) sh),
        next_addr := next_addr s + 1,
        draws := draws s + 1\<rparr>)"

text \<open>\<^verbatim>\<open>nn.Conv2d(cin, cout, k, stride, padding)\<close> and \<^verbatim>\<open>nn.Linear(fin, fout)\<close> create their parameters.\<close>

definition mk_Conv2d ::
  "(nat \<Rightarrow> nat list \<Rightarrow> tensor) \<Rightarrow> nat \<Rightarrow> nat \<Rightarrow> nat \<Rightarrow> nat \<Rightarrow> nat \<Rightarrow> heap \<Rightarrow> module \<times> heap" where
  "mk_Conv2d draw cin cout k stride pad s =
     (let (w, s1) = new_param draw [cout, cin, k, k] s;
          (b, s2) = new_param draw [cout] s1
      in (Conv2d cin cout k stride pad w b, s2))"

definition mk_Linear ::
  "(nat \<Rightarrow> nat list \<Rightarrow> tensor) \<Rightarrow> nat \<Rightarrow> nat \<Rightarrow> heap \<Rightarrow> module \<times> heap" where
  "mk_Linear draw fin fout s =
     (let (w, s1) = new_param draw [fout, fin] s;
          (b, s2) = new_param draw [fout] s1
      in (Linear fin fout w b, s2))"

definition mk_plain :: "module \<Rightarrow> heap \<Rightarrow> module \<times> heap" where
  "mk_plain m s = (m, s)"

text \<open>The arguments of \<^verbatim>\<open>nn.Sequential(...)\<close> are constructed from left to right.\<close>

fun mk_all :: "(heap \<Rightarrow> module \<times> heap) list \<Rightarrow> heap \<Rightarrow> module list \<times> heap" where
  "mk_all [] s = ([], s)"
| "mk_all (c # cs) s =
     (let (m, s1) = c s; (ms, s2) = mk_all cs s1 in (m # ms, s2))"

definition mk_Sequential :: "(heap \<Rightarrow> module \<times> heap) list \<Rightarrow> heap \<Rightarrow> module \<times> heap" where
  "mk_Sequential cs s = (let (ms, s1) = mk_all cs s in (Sequential ms, s1))"

subsection \<open>Parameters of a module, Module.apply and init_weights\<close>

fun own_parameters :: "module \<Rightarrow> (addr \<times> nat list) list" where
  "own_parameters (Conv2d cin cout k stride pad w b) = [(w, [cout, cin, k, k]), (b, [cout])]"
| "own_parameters (Linear fin fout w b) = [(w, [fout, fin]), (b, [fout])]"
| "own_parameters m = []"

text \<open>
  The parameters of a module and of all its descendants, each with the shape its layer
  declares, in the order of \<^verbatim>\<open>Module.parameters()\<close>.
\<close>

fun shaped_parameters :: "module \<Rightarrow> (addr \<times> nat list) list" where
  "shaped_parameters (Sequential ms) = concat (map shaped_parameters ms)"
| "shaped_parameters (Net kids) = concat (map (\<lambda>kid. shaped_parameters (snd kid)) kids)"
| "shaped_parameters m = own_parameters m"

definition parameters :: "module \<Rightarrow> addr list" where
  "parameters m = map fst (shaped_parameters m)"

text \<open>\<^verbatim>\<open>Module.apply(fn)\<close>: first every child applies \<open>fn\<close>, in order, then \<open>fn\<close> runs on the module.\<close>

fun apply_module :: "(module \<Rightarrow> heap \<Rightarrow> heap) \<Rightarrow> module \<Rightarrow> heap \<Rightarrow> heap" where
  "apply_module fn (Sequential ms) s = fn (Sequential ms) (fold (apply_module fn) ms s)"
| "apply_module fn (Net kids) s =
     fn (Net kids) (fold (\<lambda>kid. apply_module fn (snd kid)) kids s)"
| "apply_module fn m s = fn m s"

text \<open>
  Modelled from the spec: \<^verbatim>\<open>init_weights\<close> is imported from \<^verbatim>\<open>utils.layers\<close>, whose source is not
  part of the repository files at hand.  The spec has all parameters "initialized via a
  fixed scheme applied uniformly to every submodule at construction": the function
  initializes anew every parameter of the module it is given.
\<close>

definition reinit :: "(nat \<Rightarrow> nat list \<Rightarrow> tensor) \<Rightarrow> addr \<times> nat list \<Rightarrow> heap \<Rightarrow> heap" where
  "reinit draw p s =
     s\<lparr>tensors := (tensors s)(fst p \<mapsto> draw (draws s) (snd p)), draws := draws s + 1\<rparr>"

definition init_weights :: "(nat \<Rightarrow> nat list \<Rightarrow> tensor) \<Rightarrow> module \<Rightarrow> heap \<Rightarrow> heap" where
  "init_weights draw m s = fold (reinit draw) (own_parameters m) s"

subsection \<open>Calling a module\<close>

text \<open>
  A layer called on one tensor, with its parameters read from the store.  The \<^verbatim>\<open>forward\<close>
  of either network takes two arguments, so a network called on one tensor is a type
  error.
\<close>

fun call ::
  "arith \<Rightarrow> arglist \<Rightarrow> heap \<Rightarrow> module \<Rightarrow> tensor \<Rightarrow> error + tensor"
  and call_seq ::
  "arith \<Rightarrow> arglist \<Rightarrow> heap \<Rightarrow> module list \<Rightarrow> tensor \<Rightarrow> error + tensor" where
  "call ar al s (Conv2d cin cout k stride pad w b) x =
     (case (tensors s w, tensors s b, x) of
        (Some (T4 wt), Some (T1 bt), T4 x4) \<Rightarrow> map_sum id T4 (conv2d ar cin cout k stride pad wt bt x4)
      | _ \<Rightarrow> Inl ShapeError)"
| "call ar al s ReLU x = Inr (relu x)"
| "call ar al s (Linear fin fout w b) x =
     (case (tensors s w, tensors s b) of
        (Some (T2 wt), Some (T1 bt)) \<Rightarrow> linear ar fin fout wt bt x
      | _ \<Rightarrow> Inl ShapeError)"
| "call ar al s Flatten x = flatten x"
| "call ar al s Dense2Conv x = dense2conv (FEAT2DSIZE al) x"
| "call ar al s (Sequential ms) x = call_seq ar al s ms x"
| "call ar al s (Net kids) x = Inl TypeError"
| "call_seq ar al s [] x = Inr x"
| "call_seq ar al s (m # ms) x = ebind (call ar al s m x) (call_seq ar al s ms)"

definition getattr :: "module \<Rightarrow> string \<Rightarrow> error + module" where
  "getattr self name =
     (case self of
        Net kids \<Rightarrow> (case map_of kids name of None \<Rightarrow> Inl (AttributeError name) | Some m \<Rightarrow> Inr m)
      | _ \<Rightarrow> Inl (AttributeError name))"

definition getitem :: "(string \<Rightarrow> tensor option) \<Rightarrow> string \<Rightarrow> error + tensor" where
  "getitem d key = (case d key of None \<Rightarrow> Inl (KeyError key) | Some v \<Rightarrow> Inr v)"

section \<open>networks/acnetwork_seperated.py\<close>

definition minimap_channels :: nat where
  "minimap_channels = 7"

definition screen_channels :: nat where
  "screen_channels = 17"

text \<open>The three encoders that the module creates once, when it is loaded.\<close>

record globals =
  conv_minimap :: module
  conv_screen :: module
  dense_nonspatial :: module

definition module_level :: "arglist \<Rightarrow> (nat \<Rightarrow> nat list \<Rightarrow> tensor) \<Rightarrow> heap \<Rightarrow> globals \<times> heap" where
  "module_level al draw s =
     (let (cm, s1) = mk_Sequential [mk_Conv2d draw minimap_channels 16 5 1 2, mk_plain ReLU,
                                    mk_Conv2d draw 16 32 3 1 1, mk_plain ReLU] s;
          (cs, s2) = mk_Sequential [mk_Conv2d draw screen_channels 16 5 1 2, mk_plain ReLU,
                                    mk_Conv2d draw 16 32 3 1 1, mk_plain ReLU] s1;
          (dn, s3) = mk_Sequential [mk_Linear draw (NUM_ACTIONS al) 32, mk_plain ReLU,
                                    mk_plain Dense2Conv] s2
      in (\<lparr>conv_minimap = cm, conv_screen = cs, dense_nonspatial = dn\<rparr>, s3))"

subsection \<open>ActorNet\<close>

text \<open>
  \<^verbatim>\<open>ActorNet.__init__\<close>.  The last statement, \<^verbatim>\<open>self.train()\<close>, sets the training flag of every
  submodule, which no layer of this file reads; it is left out.
\<close>

definition ActorNet_init ::
  "arglist \<Rightarrow> (nat \<Rightarrow> nat list \<Rightarrow> tensor) \<Rightarrow> globals \<Rightarrow> heap \<Rightarrow> module \<times> heap" where
  "ActorNet_init al draw g s =
     (let (layer_hidden, s1) = mk_Sequential [mk_Conv2d draw (32 * 3) 64 3 1 1, mk_plain ReLU] s;
          (layer_action, s2) =
             mk_Sequential [mk_Conv2d draw 64 1 1 1 0, mk_plain ReLU, mk_plain Flatten,
                            mk_Linear draw (FEAT2DSIZE al * FEAT2DSIZE al) (NUM_ACTIONS al)] s1;
          (layer_screen1, s3) = mk_Conv2d draw 64 1 1 1 0 s2;
          (layer_screen2, s4) = mk_Conv2d draw 64 1 1 1 0 s3;
          self = Net [(''minimap_conv_layers'', conv_minimap g),
                      (''screen_conv_layers'', conv_screen g),
                      (''nonspatial_dense'', dense_nonspatial g),
                      (''layer_hidden'', layer_hidden),
                      (''layer_action'', layer_action),
                      (''layer_screen1'', layer_screen1),
                      (''layer_screen2'', layer_screen2)]
      in (self, apply_module (init_weights draw) self s4))"

text \<open>
  Lines 56 to 67 of \<^verbatim>\<open>ActorNet.forward\<close>: the hidden state and the raw categorical output,
  before the masking.
\<close>

definition ActorNet_forward_raw ::
  "arith \<Rightarrow> arglist \<Rightarrow> heap \<Rightarrow> module \<Rightarrow> (string \<Rightarrow> tensor option) \<Rightarrow> error + tensor \<times> tensor" where
  "ActorNet_forward_raw ar al s self obs =
     ebind (getitem obs ''minimap'') (\<lambda>obs_minimap.
     ebind (getitem obs ''screen'') (\<lambda>obs_screen.
     ebind (getitem obs ''nonspatial'') (\<lambda>obs_nonspatial.
     ebind (getattr self ''minimap_conv_layers'') (\<lambda>l1.
     ebind (call ar al s l1 obs_minimap) (\<lambda>m.
     ebind (getattr self ''screen_conv_layers'') (\<lambda>l2.
     ebind (call ar al s l2 obs_screen) (\<lambda>sc.
     ebind (getattr self ''nonspatial_dense'') (\<lambda>l3.
     ebind (call ar al s l3 obs_nonspatial) (\<lambda>n.
     ebind (torch_cat1 [m, sc, n]) (\<lambda>cat_h.
     ebind (getattr self ''layer_hidden'') (\<lambda>l4.
     ebind (call ar al s l4 cat_h) (\<lambda>state_h.
     ebind (getattr self ''layer_action'') (\<lambda>l5.
     ebind (call ar al s l5 state_h) (\<lambda>raw_categorical.
     Inr (state_h, raw_categorical)))))))))))))))"

text \<open>Lines 56 to 68: the hidden state and the masked categorical output.\<close>

definition ActorNet_forward_categorical ::
  "arith \<Rightarrow> arglist \<Rightarrow> heap \<Rightarrow> module \<Rightarrow> (string \<Rightarrow> tensor option) \<Rightarrow> tensor \<Rightarrow> error + tensor \<times> tensor" where
  "ActorNet_forward_categorical ar al s self obs valid_actions =
     ebind (ActorNet_forward_raw ar al s self obs) (\<lambda>(state_h, raw_categorical).
     ebind (mask_unavailable_actions ar raw_categorical valid_actions) (\<lambda>pol_categorical.
     Inr (state_h, pol_categorical)))"

text \<open>\<^verbatim>\<open>ActorNet.forward\<close>: lines 56 to 68, then the two spatial heads and the result list.\<close>

definition ActorNet_forward ::
  "arith \<Rightarrow> arglist \<Rightarrow> heap \<Rightarrow> module \<Rightarrow> (string \<Rightarrow> tensor option) \<Rightarrow> tensor \<Rightarrow> error + tensor list" where
  "ActorNet_forward ar al s self obs valid_actions =
     ebind (ActorNet_forward_categorical ar al s self obs valid_actions) (\<lambda>(state_h, pol_categorical).
     ebind (getattr self ''layer_screen1_x'') (\<lambda>l6.
     ebind (call ar al s l6 state_h) (\<lambda>pol_screen1.
     ebind (getattr self ''layer_screen2_x'') (\<lambda>l7.
     ebind (call ar al s l7 state_h) (\<lambda>pol_screen2.
     Inr [pol_categorical, pol_screen1, pol_screen2])))))"

subsection \<open>CriticNet\<close>

definition CriticNet_init ::
  "arglist \<Rightarrow> (nat \<Rightarrow> nat list \<Rightarrow> tensor) \<Rightarrow> globals \<Rightarrow> heap \<Rightarrow> module \<times> heap" where
  "CriticNet_init al draw g s =
     (let (conv_action, s1) =
             mk_Sequential [mk_Conv2d draw 2 16 5 1 2, mk_plain ReLU,
                            mk_Conv2d draw 16 32 3 1 1, mk_plain ReLU] s;
          (action_dense, s2) =
             mk_Sequential [mk_Linear draw (NUM_ACTIONS al) 32, mk_plain ReLU,
                            mk_plain Dense2Conv] s1;
          (layer_hidden, s3) =
             mk_Sequential [mk_Conv2d draw (32 * 5) 64 3 1 1, mk_plain ReLU,
                            mk_Conv2d draw 64 1 1 1 0, mk_plain ReLU, mk_plain Flatten] s2;
          (layer_value, s4) = mk_Linear draw (FEAT2DSIZE al * FEAT2DSIZE al) 1 s3;
          self = Net [(''minimap_conv_layers'', conv_minimap g),
                      (''screen_conv_layers'', conv_screen g),
                      (''nonspatial_dense'', dense_nonspatial g),
                      (''conv_action'', conv_action),
                      (''action_dense'', action_dense),
                      (''layer_hidden'', layer_hidden),
                      (''layer_value'', layer_value)]
      in (self, apply_module (init_weights draw) self s4))"

text \<open>
  Lines 132 to 150 of \<^verbatim>\<open>CriticNet.forward\<close>: the five encodings, in the order in which
  line 150 lists them for the concatenation.
\<close>

definition CriticNet_forward_encodings ::
  "arith \<Rightarrow> arglist \<Rightarrow> heap \<Rightarrow> module \<Rightarrow> (string \<Rightarrow> tensor option) \<Rightarrow> (string \<Rightarrow> tensor option)
     \<Rightarrow> error + tensor list" where
  "CriticNet_forward_encodings ar al s self obs actions =
     ebind (getitem obs ''minimap'') (\<lambda>obs_minimap.
     ebind (getitem obs ''screen'') (\<lambda>obs_screen.
     ebind (getitem obs ''nonspatial'') (\<lambda>obs_nonspatial.
     ebind (getitem actions ''categorical'') (\<lambda>act_categorical.
     ebind (getitem actions ''screen1'') (\<lambda>act_screen1.
     ebind (getitem actions ''screen2'') (\<lambda>act_screen2.
     ebind (getattr self ''minimap_conv_layers'') (\<lambda>l1.
     ebind (call ar al s l1 obs_minimap) (\<lambda>m.
     ebind (getattr self ''screen_conv_layers'') (\<lambda>l2.
     ebind (call ar al s l2 obs_screen) (\<lambda>sc.
     ebind (getattr self ''nonspatial_dense'') (\<lambda>l3.
     ebind (call ar al s l3 obs_nonspatial) (\<lambda>n.
     ebind (getattr self ''conv_action'') (\<lambda>l4.
     ebind (torch_cat1 [act_screen1, act_screen2]) (\<lambda>act_screens.
     ebind (call ar al s l4 act_screens) (\<lambda>a_spatial.
     ebind (getattr self ''action_dense'') (\<lambda>l5.
     ebind (call ar al s l5 act_categorical) (\<lambda>a_nonspatial.
     Inr [m, sc, n, a_spatial, a_nonspatial])))))))))))))))))"

definition CriticNet_forward ::
  "arith \<Rightarrow> arglist \<Rightarrow> heap \<Rightarrow> module \<Rightarrow> (string \<Rightarrow> tensor option) \<Rightarrow> (string \<Rightarrow> tensor option)
     \<Rightarrow> error + tensor" where
  "CriticNet_forward ar al s self obs actions =
     ebind (CriticNet_forward_encodings ar al s self obs actions) (\<lambda>encodings.
     ebind (torch_cat1 encodings) (\<lambda>sa.
     ebind (getattr self ''layer_hidden'') (\<lambda>l6.
     ebind (call ar al s l6 sa) (\<lambda>sa.
     ebind (getattr self ''layer_value'') (\<lambda>l7.
     call ar al s l7 sa)))))"

subsection \<open>Loading the module and constructing the two networks\<close>

text \<open>The module is loaded into the empty store; then one network is constructed after the other.\<close>

definition loaded :: "arglist \<Rightarrow> (nat \<Rightarrow> nat list \<Rightarrow> tensor) \<Rightarrow> globals \<times> heap" where
  "loaded al draw = module_level al draw empty_heap"

definition actor_then_critic ::
  "arglist \<Rightarrow> (nat \<Rightarrow> nat list \<Rightarrow> tensor) \<Rightarrow> (module \<times> heap) \<times> (module \<times> heap)" where
  "actor_then_critic al draw =
     (let (g, s0) = loaded al draw;
          (actor, s1) = ActorNet_init al draw g s0;
          (critic, s2) = CriticNet_init al draw g s1
      in ((actor, s1), (critic, s2)))"

definition critic_then_actor ::
  "arglist \<Rightarrow> (nat \<Rightarrow> nat list \<Rightarrow> tensor) \<Rightarrow> (module \<times> heap) \<times> (module \<times> heap)" where
  "critic_then_actor al draw =
     (let (g, s0) = loaded al draw;
          (critic, s1) = CriticNet_init al draw g s0;
          (actor, s2) = ActorNet_init al draw g s1
      in ((critic, s1), (actor, s2)))"

text \<open>A tensor of a given shape with every entry the same, to have a concrete \<open>draw\<close>.\<close>

fun fill :: "fl \<Rightarrow> nat list \<Rightarrow> tensor" where
  "fill v [n] = T1 (replicate n v)"
| "fill v [a, b] = T2 (replicate a (replicate b v))"
| "fill v [a, b, c, d] = T4 (replicate a (replicate b (replicate c (replicate d v))))"
| "fill v sh = T1 []"

definition zero_draw :: "nat \<Rightarrow> nat list \<Rightarrow> tensor" where
  "zero_draw n sh = fill (Fin 0) sh"

text \<open>Whether a tensor has a given shape.\<close>

fun has_shape :: "nat list \<Rightarrow> tensor \<Rightarrow> bool" where
  "has_shape [n] (T1 x) = (length x = n)"
| "has_shape [a, b] (T2 x) = is_shape2 a b x"
| "has_shape [a, b, c, d] (T4 x) = is_shape4 a b c d x"
| "has_shape sh t = False"

text \<open>Every parameter of a module holds, in the store, a tensor of the shape its layer declares.\<close>

definition param_ok :: "heap \<Rightarrow> addr \<times> nat list \<Rightarrow> bool" where
  "param_ok s p = (case tensors s (fst p) of None \<Rightarrow> False | Some t \<Rightarrow> has_shape (snd p) t)"

fun params_ok :: "heap \<Rightarrow> module \<Rightarrow> bool" where
  "params_ok s (Sequential ms) = list_all (params_ok s) ms"
| "params_ok s (Net kids) = list_all (\<lambda>kid. params_ok s (snd kid)) kids"
| "params_ok s m = list_all (param_ok s) (own_parameters m)"

text \<open>A small configuration and a batch of one example, to run the networks on.\<close>

definition example_arglist :: arglist where
  "example_arglist = \<lparr>NUM_ACTIONS = 2, FEAT2DSIZE = 1\<rparr>"

definition example_obs :: "string \<Rightarrow> tensor option" where
  "example_obs = [''minimap'' \<mapsto> fill (Fin 0) [1, 7, 1, 1],
                  ''screen'' \<mapsto> fill (Fin 0) [1, 17, 1, 1],
                  ''nonspatial'' \<mapsto> fill (Fin 0) [1, 2]]"

definition example_actions :: "string \<Rightarrow> tensor option" where
  "example_actions = [''categorical'' \<mapsto> fill (Fin 0) [1, 2],
                      ''screen1'' \<mapsto> fill (Fin 0) [1, 1, 1, 1],
                      ''screen2'' \<mapsto> fill (Fin 0) [1, 1, 1, 1]]"

text \<open>A \<open>draw\<close> that tells the initializations apart: the \<open>n\<close>-th tensor is filled with \<open>n\<close>.\<close>

definition index_draw :: "nat \<Rightarrow> nat list \<Rightarrow> tensor" where
  "index_draw n sh = fill (Fin (real n)) sh"

text \<open>The parameters of the three encoders of the module, with their shapes.\<close>

definition encoder_parameters :: "globals \<Rightarrow> (addr \<times> nat list) list" where
  "encoder_parameters g =
     shaped_parameters (conv_minimap g) @ shaped_parameters (conv_screen g)
       @ shaped_parameters (dense_nonspatial g)"

text \<open>Every parameter of a module holds a tensor without NaN or infinite entries.\<close>

definition params_finite :: "heap \<Rightarrow> module \<Rightarrow> bool" where
  "params_finite s m =
     list_all (\<lambda>p. case tensors s (fst p) of None \<Rightarrow> False | Some t \<Rightarrow> tensor_finite t)
       (shaped_parameters m)"

text \<open>
  A \<open>draw\<close> that gives every parameter of shape \<open>(length bias)\<close> the value \<open>bias\<close> and
  fills every other parameter with zeros.  The bias of the dense layer of the
  categorical head has shape \<open>(NUM_ACTIONS)\<close>.
\<close>

definition biased_draw :: "fl list \<Rightarrow> nat \<Rightarrow> nat list \<Rightarrow> tensor" where
  "biased_draw bias n sh = (if sh = [length bias] then T1 bias else fill (Fin 0) sh)"

text \<open>
  A \<open>draw\<close> with zero weights that tells the bias vectors apart: a parameter of rank 1 is
  filled with the number of its initialization, every other parameter with zeros.
\<close>

definition bias_index_draw :: "nat \<Rightarrow> nat list \<Rightarrow> tensor" where
  "bias_index_draw n sh = (if length sh = 1 then fill (Fin (real n)) sh else fill (Fin 0) sh)"
section \<open>Properties of the masking step\<close>

lemma zip_with_replicate_right:
  "zip_with f xs (replicate (length xs) c) = map (\<lambda>x. f x c) xs"
  unfolding zip_with_def by (induction xs) auto

lemma zip_with_length [simp]: "length (zip_with f xs ys) = min (length xs) (length ys)"
  by (simp add: zip_with_def)

lemma zip_with_single [simp]: "zip_with f [a] [b] = [f a b]"
  by (simp add: zip_with_def)

lemma expand_dim_single: "expand_dim n [c] = replicate n c"
  by (cases n) (auto simp: expand_dim_def)

lemma mask_batch1_rank1:
  assumes "length v = length p"
  shows "mask_unavailable_actions ar (T2 [p]) (T1 v) =
    Inr (T2 [map (\<lambda>x. fdiv (rounded ar) x (summed ar (zip_with (fmul (rounded ar)) p v))) (zip_with (fmul (rounded ar)) p v)])"
proof -
  let ?m = "zip_with (fmul (rounded ar)) p v"
  have m: "tmul ar (T2 [p]) (T1 v) = Inr (T2 [?m])"
    using assms
    by (simp add: broadcast2_def bdim_def rows_def cols_def expand2_def expand_dim_def zip_with_def)
  have s: "tsum1 ar (T2 [?m]) = Inr (T1 [summed ar ?m])" by simp
  have len: "length ?m = length p" using assms by simp
  have d: "tdiv_inplace ar (T2 [?m]) (T1 [summed ar ?m]) = Inr (T2 [map (\<lambda>x. fdiv (rounded ar) x (summed ar ?m)) ?m])"
    using len zip_with_replicate_right [of "fdiv (rounded ar)" ?m "summed ar ?m"]
    apply (simp add: broadcast2_inplace_def bdim_def rows_def cols_def expand2_def expand_dim_single)
    apply (auto simp: zip_with_def expand_dim_def)
    done
  show ?thesis
    unfolding mask_unavailable_actions_def by (simp only: m s d sum.case)
qed

lemma mask_batch1_rank2:
  assumes "length v = length p"
  shows "mask_unavailable_actions ar (T2 [p]) (T2 [v]) =
    Inr (T2 [map (\<lambda>x. fdiv (rounded ar) x (summed ar (zip_with (fmul (rounded ar)) p v))) (zip_with (fmul (rounded ar)) p v)])"
proof -
  have "tmul ar (T2 [p]) (T2 [v]) = tmul ar (T2 [p]) (T1 v)" by simp
  then show ?thesis
    using mask_batch1_rank1 [OF assms] unfolding mask_unavailable_actions_def by (simp only:)
qed

lemma mask_batch1:
  assumes "length v = length p" and "m = T1 v \<or> m = T2 [v]"
  shows "mask_unavailable_actions ar (T2 [p]) m =
    Inr (T2 [map (\<lambda>x. fdiv (rounded ar) x (summed ar (zip_with (fmul (rounded ar)) p v)))
               (zip_with (fmul (rounded ar)) p v)])"
  using assms mask_batch1_rank1 mask_batch1_rank2 by blast

lemma exact_simps [simp]: "rounded exact = Fin" "summed exact = seq_sum Fin"
  by (simp_all add: exact_def)

lemma eighths_simps [simp]:
  "rounded eighths = round_eighths" "summed eighths = seq_sum round_eighths"
  by (simp_all add: eighths_def)

lemma zip_with_Fin: "zip_with (fmul Fin) (map Fin a) (map Fin b) = map Fin (zip_with (*) a b)"
  unfolding zip_with_def by (induction a b rule: list_induct2') auto

lemma seq_sum_Fin: "seq_sum Fin (map Fin xs) = Fin (sum_list xs)"
  unfolding seq_sum_def by (induction xs) auto

lemma sum_list_div: "sum_list (map (\<lambda>x. x / s) xs) = sum_list xs / (s::real)"
  by (induction xs) (auto simp: add_divide_distrib)

text \<open>
  The products of values of the arithmetic with the entries of a binary mask are exact.
\<close>

lemma masked_binary:
  assumes z: "rd 0 = Fin 0" and v: "\<forall>x \<in> set rp. rd x = Fin x"
    and bin: "set rv \<subseteq> {0, 1}"
  shows "zip_with (fmul rd) (map Fin rp) (map Fin rv) = map Fin (zip_with (*) rp rv)"
  using v bin
proof (induction rp rv rule: list_induct2')
  case (4 x xs y ys)
  have "y = 0 \<or> y = 1" using 4(3) by auto
  moreover have "rd x = Fin x" using 4(2) by simp
  moreover have "zip_with (fmul rd) (map Fin xs) (map Fin ys) = map Fin (zip_with (*) xs ys)"
    using 4 by simp
  ultimately show ?case using z by (auto simp: zip_with_def)
qed (simp_all add: zip_with_def)

lemma masked_zero:
  assumes z: "rd 0 = Fin 0"
  shows "zip_with (fmul rd) (map Fin rp) (replicate (length rp) (Fin 0)) =
           replicate (length rp) (Fin 0)"
  using z by (induction rp) (simp_all add: zip_with_def)

lemma zip_with_nth:
  "i < length xs \<Longrightarrow> i < length ys \<Longrightarrow> zip_with f xs ys ! i = f (xs ! i) (ys ! i)"
  by (simp add: zip_with_def)

lemma zip_with_one_hot:
  "length rp = n \<Longrightarrow> zip_with (*) rp (one_hot n k) = map (\<lambda>i. if i = k then rp ! k else 0) [0..<n]"
  by (rule nth_equalityI) (auto simp: zip_with_nth one_hot_def)

lemma sum_list_spike:
  "k < n \<Longrightarrow> sum_list (map (\<lambda>i. if i = k then c else 0) [0..<n]) = (c::real)"
proof -
  assume k: "k < n"
  have "sum_list (map (\<lambda>i. if i = k then c else 0) [0..<n]) = (\<Sum>i\<in>{0..<n}. if i = k then c else 0)"
    by (simp add: interv_sum_list_conv_sum_set_nat)
  also have "\<dots> = c" using k by simp
  finally show ?thesis .
qed

lemma binary_zero_sum:
  "set rv \<subseteq> {0, 1} \<Longrightarrow> sum_list rv = 0 \<Longrightarrow> rv = replicate (length rv) (0::real)"
proof (induction rv)
  case Nil
  then show ?case by simp
next
  case (Cons a rv)
  have nn: "\<forall>x \<in> set rv. 0 \<le> x" using Cons.prems(1) by auto
  then have s: "0 \<le> sum_list rv" by (simp add: sum_list_nonneg)
  have a: "a = 0 \<or> a = 1" using Cons.prems(1) by auto
  have "a = 0 \<and> sum_list rv = 0" using a s Cons.prems(2) by auto
  then show ?case using Cons by auto
qed

lemma zip_with_zero_mask:
  "zip_with (*) rp (replicate (length rp) (0::real)) = replicate (length rp) 0"
  by (induction rp) (auto simp: zip_with_def)

lemma cols_shape: "is_shape2 B N x \<Longrightarrow> 0 < B \<Longrightarrow> cols x = N"
  by (cases x) (auto simp: is_shape2_def cols_def)

lemma expand2_same: "is_shape2 B N x \<Longrightarrow> expand2 B N x = x"
  by (auto simp: is_shape2_def expand2_def expand_dim_def list_all_iff map_idI)

lemma zip_with_rows_shape:
  "is_shape2 B N x \<Longrightarrow> is_shape2 B N y \<Longrightarrow> is_shape2 B N (zip_with (zip_with f) x y)"
  by (simp add: is_shape2_def list_all_length zip_with_nth)

lemma is_shape2_replicate: "length v = N \<Longrightarrow> is_shape2 B N (replicate B v)"
  by (simp add: is_shape2_def list_all_iff)

lemma tmul_batch_shape:
  assumes p: "is_shape2 B N p" and B: "1 < B"
    and m: "(\<exists>v. m = T1 v \<and> length v = N) \<or> (\<exists>w. m = T2 w \<and> is_shape2 B N w)"
  shows "\<exists>masked. tmul ar (T2 p) m = Inr (T2 masked) \<and> is_shape2 B N masked"
proof -
  have rp: "rows p = B" and cp: "cols p = N"
    using p B cols_shape [OF p] by (auto simp: rows_def is_shape2_def)
  from m show ?thesis
  proof
    assume "\<exists>v. m = T1 v \<and> length v = N"
    then obtain v where v: "m = T1 v" "length v = N" by blast
    have e: "expand2 B N [v] = replicate B v"
      using v(2) B by (simp add: expand2_def expand_dim_def)
    have "tmul ar (T2 p) m = Inr (T2 (zip_with (zip_with (fmul (rounded ar))) p (replicate B v)))"
      using v B rp cp
      by (simp add: broadcast2_def bdim_def rows_def cols_def expand2_same [OF p] e)
    moreover have "is_shape2 B N (zip_with (zip_with (fmul (rounded ar))) p (replicate B v))"
      using zip_with_rows_shape [OF p is_shape2_replicate [OF v(2)]] .
    ultimately show ?thesis by blast
  next
    assume "\<exists>w. m = T2 w \<and> is_shape2 B N w"
    then obtain w where w: "m = T2 w" "is_shape2 B N w" by blast
    have rw: "rows w = B" and cw: "cols w = N"
      using w(2) B cols_shape [OF w(2)] by (auto simp: rows_def is_shape2_def)
    have "tmul ar (T2 p) m = Inr (T2 (zip_with (zip_with (fmul (rounded ar))) p w))"
      using w(1) rp cp rw cw
      by (simp add: broadcast2_def bdim_def expand2_same [OF p] expand2_same [OF w(2)])
    moreover have "is_shape2 B N (zip_with (zip_with (fmul (rounded ar))) p w)"
      using zip_with_rows_shape [OF p w(2)] .
    ultimately show ?thesis by blast
  qed
qed

lemma tdiv_inplace_batch_error:
  assumes x: "is_shape2 B N x" and B: "1 < B" and ne: "B \<noteq> N"
  shows "tdiv_inplace ar (T2 x) (T1 (map (summed ar) x)) = Inl ShapeError"
proof -
  have rx: "rows x = B" and cx: "cols x = N"
    using x B cols_shape [OF x] by (auto simp: rows_def is_shape2_def)
  have cs: "cols [map (summed ar) x] = B" using rx by (simp add: cols_def rows_def)
  show ?thesis
    using rx cx cs B ne
    by (auto simp: broadcast2_inplace_def bdim_def rows_def split: option.splits)
qed

section \<open>Shapes through the layers\<close>

lemma is_shape4_dims:
  assumes "is_shape4 B C H W x" "0 < B" "0 < C" "0 < H"
  shows "height x = H" "width x = W"
proof -
  obtain e x' where x: "x = e # x'" using assms(1,2) by (cases x) (auto simp: is_shape4_def)
  then have e: "length e = C" "list_all (is_shape2 H W) e"
    using assms(1) by (auto simp: is_shape4_def)
  then obtain c e' where c: "e = c # e'" using assms(3) by (cases e) auto
  then have sc: "is_shape2 H W c" using e by simp
  show "height x = H" using x c sc by (simp add: height_def rows_def is_shape2_def)
  show "width x = W" using x c sc assms(4) cols_shape [OF sc] by (simp add: width_def)
qed

lemma conv2d_example_shape:
  "length wt = cout \<Longrightarrow> length (conv2d_example ar k stride pad wt bt Ho Wo e) = cout
     \<and> list_all (is_shape2 Ho Wo) (conv2d_example ar k stride pad wt bt Ho Wo e)"
  by (simp add: conv2d_example_def list_all_iff is_shape2_def)

lemma conv2d_shape:
  assumes wt: "is_shape4 cout cin k k wt" and bt: "length bt = cout"
    and x: "is_shape4 B cin H W x" and pos: "0 < B" "0 < cin" "0 < H"
    and st: "0 < stride" and kh: "k \<le> H + 2 * pad" and kw: "k \<le> W + 2 * pad"
  shows "\<exists>y. conv2d ar cin cout k stride pad wt bt x = Inr y
          \<and> is_shape4 B cout ((H + 2 * pad - k) div stride + 1) ((W + 2 * pad - k) div stride + 1) y"
proof -
  have h: "height x = H" and w: "width x = W" using is_shape4_dims [OF x pos] by auto
  have lx: "length x = B" using x by (simp add: is_shape4_def)
  have lw: "length wt = cout" using wt by (simp add: is_shape4_def)
  let ?Ho = "(H + 2 * pad - k) div stride + 1" and ?Wo = "(W + 2 * pad - k) div stride + 1"
  let ?y = "map (conv2d_example ar k stride pad wt bt ?Ho ?Wo) x"
  have "conv2d ar cin cout k stride pad wt bt x = Inr ?y"
    using wt bt x st kh kw by (simp add: conv2d_def h w lx)
  moreover have "is_shape4 B cout ?Ho ?Wo ?y"
    using lx conv2d_example_shape [OF lw] by (simp add: is_shape4_def list_all_iff)
  ultimately show ?thesis by blast
qed

lemma call_Conv2d_same:
  assumes ok: "params_ok s (Conv2d cin cout k 1 pad w b)" and k: "k = 2 * pad + 1"
    and x: "is_shape4 B cin H W x" and pos: "0 < B" "0 < cin" "0 < H" "0 < W"
  shows "\<exists>y. call ar al s (Conv2d cin cout k 1 pad w b) (T4 x) = Inr (T4 y) \<and> is_shape4 B cout H W y"
proof -
  from ok obtain tw tb where tw: "tensors s w = Some tw" "has_shape [cout, cin, k, k] tw"
    and tb: "tensors s b = Some tb" "has_shape [cout] tb"
    by (auto simp: param_ok_def split: option.splits)
  from tw(2) obtain wt where wt: "tw = T4 wt" "is_shape4 cout cin k k wt" by (cases tw) auto
  from tb(2) obtain bt where bt: "tb = T1 bt" "length bt = cout" by (cases tb) auto
  have "k \<le> H + 2 * pad" "k \<le> W + 2 * pad" using k pos by auto
  from conv2d_shape [OF wt(2) bt(2) x pos(1,2,3) _ this, of 1]
  obtain y where y: "conv2d ar cin cout k 1 pad wt bt x = Inr y"
    "is_shape4 B cout ((H + 2 * pad - k) div 1 + 1) ((W + 2 * pad - k) div 1 + 1) y" by auto
  have "(H + 2 * pad - k) div 1 + 1 = H" "(W + 2 * pad - k) div 1 + 1 = W" using k pos by auto
  then have "is_shape4 B cout H W y" using y(2) by simp
  moreover have "call ar al s (Conv2d cin cout k 1 pad w b) (T4 x) = Inr (T4 y)"
    using tw(1) tb(1) wt(1) bt(1) y(1) by simp
  ultimately show ?thesis by blast
qed

lemma relu_T4_shape: "is_shape4 B C H W x \<Longrightarrow> is_shape4 B C H W (map (map (map (map frelu))) x)"
  by (simp add: is_shape4_def is_shape2_def list_all_iff)

lemma relu_T2_shape: "is_shape2 B N x \<Longrightarrow> is_shape2 B N (map (map frelu) x)"
  by (simp add: is_shape2_def list_all_iff)

lemma call_Linear_T2:
  assumes ok: "params_ok s (Linear fin fout w b)" and x: "is_shape2 B fin x"
  shows "\<exists>y. call ar al s (Linear fin fout w b) (T2 x) = Inr (T2 y) \<and> is_shape2 B fout y"
proof -
  from ok obtain tw tb where tw: "tensors s w = Some tw" "has_shape [fout, fin] tw"
    and tb: "tensors s b = Some tb" "has_shape [fout] tb"
    by (auto simp: param_ok_def split: option.splits)
  from tw(2) obtain wt where wt: "tw = T2 wt" "is_shape2 fout fin wt" by (cases tw) auto
  from tb(2) obtain bt where bt: "tb = T1 bt" "length bt = fout" by (cases tb) auto
  have "call ar al s (Linear fin fout w b) (T2 x) = Inr (T2 (map (linear_row ar wt bt) x))"
    using tw(1) tb(1) wt bt x by (simp add: is_shape2_def)
  moreover have "is_shape2 B fout (map (linear_row ar wt bt) x)"
    using x wt(2) by (simp add: is_shape2_def list_all_iff linear_row_def)
  ultimately show ?thesis by blast
qed

lemma length_concat_const:
  "list_all (\<lambda>r. length r = n) xs \<Longrightarrow> length (concat xs) = length xs * n"
  by (induction xs) auto

lemma flatten_example_length:
  assumes "length e = C" and "\<forall>c \<in> set e. is_shape2 H W c"
  shows "length (concat (map concat e)) = C * H * W"
proof -
  have "list_all (\<lambda>r. length r = H * W) (map concat e)"
    using assms(2) by (auto simp: list_all_iff is_shape2_def length_concat_const)
  then show ?thesis using assms(1) length_concat_const [of "H * W" "map concat e"] by simp
qed

lemma flatten_shape:
  assumes "is_shape4 B C H W x"
  shows "is_shape2 B (C * H * W) (map (\<lambda>e. concat (map concat e)) x)"
proof -
  have "\<forall>e \<in> set x. length (concat (map concat e)) = C * H * W"
    using assms flatten_example_length [of _ C H W] by (auto simp: is_shape4_def list_all_iff)
  then show ?thesis using assms by (simp add: is_shape4_def is_shape2_def [of B] list_all_iff)
qed

lemma dense2conv_shape:
  "is_shape2 B C x \<Longrightarrow> is_shape4 B C F F (map (map (\<lambda>v. replicate F (replicate F v))) x)"
  by (simp add: is_shape2_def is_shape4_def list_all_iff)

lemma all_T4_map [simp]: "all_T4 (map T4 xs) = Some xs"
  by (induction xs) auto

lemma length_concat_nth:
  "length (concat (map (\<lambda>u. u ! b) ts)) = sum_list (map (\<lambda>u. length (u ! b)) ts)"
  by (simp add: length_concat comp_def)

lemma cat1_t4_shape:
  assumes ts: "ts \<noteq> []" and sh: "list_all (\<lambda>(c, u). is_shape4 B c H W u \<and> 0 < c) (zip cs ts)"
    and len: "length cs = length ts" and pos: "0 < B" "0 < H"
  shows "\<exists>y. torch_cat1 (map T4 ts) = Inr (T4 y) \<and> is_shape4 B (sum_list cs) H W y
           \<and> (\<forall>b < B. y ! b = concat (map (\<lambda>u. u ! b) ts))"
proof -
  have each: "\<forall>i < length ts. is_shape4 B (cs ! i) H W (ts ! i) \<and> 0 < cs ! i"
    using sh len by (auto simp: list_all_length)
  have dims: "\<forall>u \<in> set ts. length u = B \<and> height u = H \<and> width u = W"
  proof
    fix u assume "u \<in> set ts"
    then obtain i where i: "i < length ts" "u = ts ! i" by (auto simp: in_set_conv_nth)
    then have s: "is_shape4 B (cs ! i) H W u" and c: "0 < cs ! i" using each by auto
    show "length u = B \<and> height u = H \<and> width u = W"
      using is_shape4_dims [OF s pos(1) c pos(2)] s by (simp add: is_shape4_def)
  qed
  obtain t ts' where t: "ts = t # ts'" using ts by (cases ts) auto
  let ?y = "map (\<lambda>b. concat (map (\<lambda>u. u ! b) ts)) [0..<B]"
  have c: "cat1_t4 ts = Inr ?y"
    using dims t by (auto simp: cat1_t4_def list_all_iff)
  have ex: "length (concat (map (\<lambda>u. u ! b) ts)) = sum_list cs
      \<and> list_all (is_shape2 H W) (concat (map (\<lambda>u. u ! b) ts))" if b: "b < B" for b
  proof -
    have e: "\<forall>i < length ts. length (ts ! i ! b) = cs ! i \<and> list_all (is_shape2 H W) (ts ! i ! b)"
      using each b by (auto simp: is_shape4_def list_all_length)
    have "map (\<lambda>u. length (u ! b)) ts = cs"
      using e len by (intro nth_equalityI) auto
    then have l: "length (concat (map (\<lambda>u. u ! b) ts)) = sum_list cs"
      by (simp add: length_concat_nth)
    have "\<forall>u \<in> set ts. list_all (is_shape2 H W) (u ! b)"
      using e by (auto simp: in_set_conv_nth)
    then have "list_all (is_shape2 H W) (concat (map (\<lambda>u. u ! b) ts))"
      by (auto simp: list_all_iff)
    with l show ?thesis by blast
  qed
  have "is_shape4 B (sum_list cs) H W ?y"
    using ex by (simp add: is_shape4_def list_all_iff)
  moreover have "\<forall>b < B. ?y ! b = concat (map (\<lambda>u. u ! b) ts)" by simp
  moreover have "torch_cat1 (map T4 ts) = Inr (T4 ?y)" by (simp add: torch_cat1_def c)
  ultimately show ?thesis by blast
qed

section \<open>The stacks of the two networks\<close>

lemma ebind_Inr [simp]: "ebind (Inr x) f = f x"
  by (simp add: ebind_def)

lemma ebind_Inl [simp]: "ebind (Inl e) f = Inl e"
  by (simp add: ebind_def)

lemma call_conv_stack:
  assumes ok: "params_ok s (Sequential [Conv2d cin 16 5 1 2 w1 b1, ReLU, Conv2d 16 32 3 1 1 w2 b2, ReLU])"
    and x: "is_shape4 B cin H W x" and pos: "0 < B" "0 < cin" "0 < H" "0 < W"
  shows "\<exists>y. call ar al s (Sequential [Conv2d cin 16 5 1 2 w1 b1, ReLU, Conv2d 16 32 3 1 1 w2 b2, ReLU]) (T4 x)
              = Inr (T4 y) \<and> is_shape4 B 32 H W y"
proof -
  have ok1: "params_ok s (Conv2d cin 16 5 1 2 w1 b1)" and ok2: "params_ok s (Conv2d 16 32 3 1 1 w2 b2)"
    using ok by simp_all
  obtain y1 where y1: "call ar al s (Conv2d cin 16 5 1 2 w1 b1) (T4 x) = Inr (T4 y1)" "is_shape4 B 16 H W y1"
    using call_Conv2d_same [OF ok1 _ x pos] by auto
  let ?r1 = "map (map (map (map frelu))) y1"
  have r1: "is_shape4 B 16 H W ?r1" using y1(2) by (rule relu_T4_shape)
  obtain y2 where y2: "call ar al s (Conv2d 16 32 3 1 1 w2 b2) (T4 ?r1) = Inr (T4 y2)" "is_shape4 B 32 H W y2"
    using call_Conv2d_same [OF ok2 _ r1 pos(1) _ pos(3,4)] by auto
  let ?r2 = "map (map (map (map frelu))) y2"
  have r2: "is_shape4 B 32 H W ?r2" using y2(2) by (rule relu_T4_shape)
  have "call ar al s (Sequential [Conv2d cin 16 5 1 2 w1 b1, ReLU, Conv2d 16 32 3 1 1 w2 b2, ReLU]) (T4 x)
      = Inr (T4 ?r2)"
    using y1(1) y2(1) by (simp del: call.simps(1) add: call.simps(6))
  with r2 show ?thesis by blast
qed

lemma call_dense_stack:
  assumes ok: "params_ok s (Sequential [Linear n 32 w b, ReLU, Dense2Conv])"
    and x: "is_shape2 B n x"
  shows "\<exists>y. call ar al s (Sequential [Linear n 32 w b, ReLU, Dense2Conv]) (T2 x) = Inr (T4 y)
           \<and> is_shape4 B 32 (FEAT2DSIZE al) (FEAT2DSIZE al) y"
proof -
  have ok1: "params_ok s (Linear n 32 w b)" using ok by simp
  obtain y1 where y1: "call ar al s (Linear n 32 w b) (T2 x) = Inr (T2 y1)" "is_shape2 B 32 y1"
    using call_Linear_T2 [OF ok1 x] by auto
  let ?r = "map (map frelu) y1"
  let ?d = "map (map (\<lambda>v. replicate (FEAT2DSIZE al) (replicate (FEAT2DSIZE al) v))) ?r"
  have "is_shape2 B 32 ?r" using y1(2) by (rule relu_T2_shape)
  then have d: "is_shape4 B 32 (FEAT2DSIZE al) (FEAT2DSIZE al) ?d" by (rule dense2conv_shape)
  have "call ar al s (Sequential [Linear n 32 w b, ReLU, Dense2Conv]) (T2 x) = Inr (T4 ?d)"
    using y1(1) by (simp del: call.simps(3) add: call.simps(6))
  with d show ?thesis by blast
qed

lemma call_actor_hidden:
  assumes ok: "params_ok s (Sequential [Conv2d 96 64 3 1 1 w b, ReLU])"
    and x: "is_shape4 B 96 H W x" and pos: "0 < B" "0 < H" "0 < W"
  shows "\<exists>y. call ar al s (Sequential [Conv2d 96 64 3 1 1 w b, ReLU]) (T4 x) = Inr (T4 y)
           \<and> is_shape4 B 64 H W y"
proof -
  have ok1: "params_ok s (Conv2d 96 64 3 1 1 w b)" using ok by simp
  obtain y1 where y1: "call ar al s (Conv2d 96 64 3 1 1 w b) (T4 x) = Inr (T4 y1)" "is_shape4 B 64 H W y1"
    using call_Conv2d_same [OF ok1 _ x pos(1) _ pos(2,3)] by auto
  let ?r = "map (map (map (map frelu))) y1"
  have r: "is_shape4 B 64 H W ?r" using y1(2) by (rule relu_T4_shape)
  have "call ar al s (Sequential [Conv2d 96 64 3 1 1 w b, ReLU]) (T4 x) = Inr (T4 ?r)"
    using y1(1) by (simp del: call.simps(1) add: call.simps(6))
  with r show ?thesis by blast
qed

lemma call_actor_action:
  assumes ok: "params_ok s (Sequential [Conv2d 64 1 1 1 0 w1 b1, ReLU, Flatten, Linear (H * W) n w2 b2])"
    and x: "is_shape4 B 64 H W x" and pos: "0 < B" "0 < H" "0 < W"
  shows "\<exists>y. call ar al s (Sequential [Conv2d 64 1 1 1 0 w1 b1, ReLU, Flatten, Linear (H * W) n w2 b2]) (T4 x)
              = Inr (T2 y) \<and> is_shape2 B n y"
proof -
  have ok1: "params_ok s (Conv2d 64 1 1 1 0 w1 b1)" and ok2: "params_ok s (Linear (H * W) n w2 b2)"
    using ok by simp_all
  obtain y1 where y1: "call ar al s (Conv2d 64 1 1 1 0 w1 b1) (T4 x) = Inr (T4 y1)" "is_shape4 B 1 H W y1"
    using call_Conv2d_same [OF ok1 _ x pos(1) _ pos(2,3)] by auto
  let ?r = "map (map (map (map frelu))) y1"
  let ?f = "map (\<lambda>e. concat (map concat e)) ?r"
  have "is_shape4 B 1 H W ?r" using y1(2) by (rule relu_T4_shape)
  then have "is_shape2 B (1 * H * W) ?f" by (rule flatten_shape)
  then have f: "is_shape2 B (H * W) ?f" by simp
  obtain y2 where y2: "call ar al s (Linear (H * W) n w2 b2) (T2 ?f) = Inr (T2 y2)" "is_shape2 B n y2"
    using call_Linear_T2 [OF ok2 f] by auto
  have "call ar al s (Sequential [Conv2d 64 1 1 1 0 w1 b1, ReLU, Flatten, Linear (H * W) n w2 b2]) (T4 x)
      = Inr (T2 y2)"
    using y1(1) y2(1) by (simp del: call.simps(1) call.simps(3) add: call.simps(6))
  with y2(2) show ?thesis by blast
qed

lemma call_critic_hidden:
  assumes ok: "params_ok s (Sequential [Conv2d 160 64 3 1 1 w1 b1, ReLU, Conv2d 64 1 1 1 0 w2 b2, ReLU, Flatten])"
    and x: "is_shape4 B 160 H W x" and pos: "0 < B" "0 < H" "0 < W"
  shows "\<exists>y. call ar al s (Sequential [Conv2d 160 64 3 1 1 w1 b1, ReLU, Conv2d 64 1 1 1 0 w2 b2, ReLU, Flatten]) (T4 x)
              = Inr (T2 y) \<and> is_shape2 B (H * W) y"
proof -
  have ok1: "params_ok s (Conv2d 160 64 3 1 1 w1 b1)" and ok2: "params_ok s (Conv2d 64 1 1 1 0 w2 b2)"
    using ok by simp_all
  obtain y1 where y1: "call ar al s (Conv2d 160 64 3 1 1 w1 b1) (T4 x) = Inr (T4 y1)" "is_shape4 B 64 H W y1"
    using call_Conv2d_same [OF ok1 _ x pos(1) _ pos(2,3)] by auto
  let ?r1 = "map (map (map (map frelu))) y1"
  have r1: "is_shape4 B 64 H W ?r1" using y1(2) by (rule relu_T4_shape)
  obtain y2 where y2: "call ar al s (Conv2d 64 1 1 1 0 w2 b2) (T4 ?r1) = Inr (T4 y2)" "is_shape4 B 1 H W y2"
    using call_Conv2d_same [OF ok2 _ r1 pos(1) _ pos(2,3)] by auto
  let ?r2 = "map (map (map (map frelu))) y2"
  let ?f = "map (\<lambda>e. concat (map concat e)) ?r2"
  have "is_shape4 B 1 H W ?r2" using y2(2) by (rule relu_T4_shape)
  then have "is_shape2 B (1 * H * W) ?f" by (rule flatten_shape)
  then have f: "is_shape2 B (H * W) ?f" by simp
  have "call ar al s (Sequential [Conv2d 160 64 3 1 1 w1 b1, ReLU, Conv2d 64 1 1 1 0 w2 b2, ReLU, Flatten]) (T4 x)
      = Inr (T2 ?f)"
    using y1(1) y2(1) by (simp del: call.simps(1) add: call.simps(6))
  with f show ?thesis by blast
qed

lemma module_level_globals:
  "fst (module_level al draw s) =
     \<lparr>conv_minimap = Sequential [Conv2d 7 16 5 1 2 (next_addr s) (next_addr s + 1), ReLU,
                                Conv2d 16 32 3 1 1 (next_addr s + 2) (next_addr s + 3), ReLU],
      conv_screen = Sequential [Conv2d 17 16 5 1 2 (next_addr s + 4) (next_addr s + 5), ReLU,
                               Conv2d 16 32 3 1 1 (next_addr s + 6) (next_addr s + 7), ReLU],
      dense_nonspatial = Sequential [Linear (NUM_ACTIONS al) 32 (next_addr s + 8) (next_addr s + 9),
                                     ReLU, Dense2Conv]\<rparr>"
  by (simp add: module_level_def mk_Sequential_def mk_Conv2d_def mk_Linear_def mk_plain_def
      new_param_def minimap_channels_def screen_channels_def Let_def)

lemma ActorNet_init_self:
  "fst (ActorNet_init al draw g s) =
     Net [(''minimap_conv_layers'', conv_minimap g),
          (''screen_conv_layers'', conv_screen g),
          (''nonspatial_dense'', dense_nonspatial g),
          (''layer_hidden'', Sequential [Conv2d 96 64 3 1 1 (next_addr s) (next_addr s + 1), ReLU]),
          (''layer_action'',
             Sequential [Conv2d 64 1 1 1 0 (next_addr s + 2) (next_addr s + 3), ReLU, Flatten,
                         Linear (FEAT2DSIZE al * FEAT2DSIZE al) (NUM_ACTIONS al)
                           (next_addr s + 4) (next_addr s + 5)]),
          (''layer_screen1'', Conv2d 64 1 1 1 0 (next_addr s + 6) (next_addr s + 7)),
          (''layer_screen2'', Conv2d 64 1 1 1 0 (next_addr s + 8) (next_addr s + 9))]"
  by (simp add: ActorNet_init_def mk_Sequential_def mk_Conv2d_def mk_Linear_def mk_plain_def
      new_param_def Let_def)

lemma CriticNet_init_self:
  "fst (CriticNet_init al draw g s) =
     Net [(''minimap_conv_layers'', conv_minimap g),
          (''screen_conv_layers'', conv_screen g),
          (''nonspatial_dense'', dense_nonspatial g),
          (''conv_action'',
             Sequential [Conv2d 2 16 5 1 2 (next_addr s) (next_addr s + 1), ReLU,
                         Conv2d 16 32 3 1 1 (next_addr s + 2) (next_addr s + 3), ReLU]),
          (''action_dense'',
             Sequential [Linear (NUM_ACTIONS al) 32 (next_addr s + 4) (next_addr s + 5), ReLU,
                         Dense2Conv]),
          (''layer_hidden'',
             Sequential [Conv2d 160 64 3 1 1 (next_addr s + 6) (next_addr s + 7), ReLU,
                         Conv2d 64 1 1 1 0 (next_addr s + 8) (next_addr s + 9), ReLU, Flatten]),
          (''layer_value'',
             Linear (FEAT2DSIZE al * FEAT2DSIZE al) 1 (next_addr s + 10) (next_addr s + 11))]"
  by (simp add: CriticNet_init_def mk_Sequential_def mk_Conv2d_def mk_Linear_def mk_plain_def
      new_param_def Let_def)

lemma cat_two_screens:
  assumes "is_shape4 B 1 H W a1" "is_shape4 B 1 H W a2" "0 < B" "0 < H"
  shows "\<exists>y. torch_cat1 [T4 a1, T4 a2] = Inr (T4 y) \<and> is_shape4 B 2 H W y"
  using cat1_t4_shape [of "[a1, a2]" B H W "[1, 1]"] assms by (auto simp: numeral_2_eq_2)

lemma cat_five_encodings:
  assumes "is_shape4 B 32 H W m" "is_shape4 B 32 H W sc" "is_shape4 B 32 H W n"
    "is_shape4 B 32 H W asp" "is_shape4 B 32 H W ansp" "0 < B" "0 < H"
  shows "\<exists>y. torch_cat1 [T4 m, T4 sc, T4 n, T4 asp, T4 ansp] = Inr (T4 y) \<and> is_shape4 B 160 H W y
           \<and> (\<forall>b < B. y ! b = m ! b @ sc ! b @ n ! b @ asp ! b @ ansp ! b)"
  using cat1_t4_shape [of "[m, sc, n, asp, ansp]" B H W "[32, 32, 32, 32, 32]"] assms by auto

lemma cat_three_encodings:
  assumes "is_shape4 B 32 H W m" "is_shape4 B 32 H W sc" "is_shape4 B 32 H W n" "0 < B" "0 < H"
  shows "\<exists>y. torch_cat1 [T4 m, T4 sc, T4 n] = Inr (T4 y) \<and> is_shape4 B 96 H W y
           \<and> (\<forall>b < B. y ! b = m ! b @ sc ! b @ n ! b)"
  using cat1_t4_shape [of "[m, sc, n]" B H W "[32, 32, 32]"] assms by auto

lemma CriticNet_forward_trace:
  assumes self: "self = fst (CriticNet_init al draw (fst (module_level al draw0 s0)) s)"
    and ok: "params_ok h self"
    and pos: "0 < B" "0 < FEAT2DSIZE al"
    and xm: "obs ''minimap'' = Some (T4 xm)" "is_shape4 B 7 (FEAT2DSIZE al) (FEAT2DSIZE al) xm"
    and xs: "obs ''screen'' = Some (T4 xs)" "is_shape4 B 17 (FEAT2DSIZE al) (FEAT2DSIZE al) xs"
    and xn: "obs ''nonspatial'' = Some (T2 xn)" "is_shape2 B (NUM_ACTIONS al) xn"
    and ac: "actions ''categorical'' = Some (T2 ac)" "is_shape2 B (NUM_ACTIONS al) ac"
    and a1: "actions ''screen1'' = Some (T4 a1)" "is_shape4 B 1 (FEAT2DSIZE al) (FEAT2DSIZE al) a1"
    and a2: "actions ''screen2'' = Some (T4 a2)" "is_shape4 B 1 (FEAT2DSIZE al) (FEAT2DSIZE al) a2"
  shows "\<exists>m sc n asp ansp sa q.
      ebind (getattr self ''minimap_conv_layers'') (\<lambda>l. call ar al h l (T4 xm)) = Inr (T4 m)
    \<and> ebind (getattr self ''screen_conv_layers'') (\<lambda>l. call ar al h l (T4 xs)) = Inr (T4 sc)
    \<and> ebind (getattr self ''nonspatial_dense'') (\<lambda>l. call ar al h l (T2 xn)) = Inr (T4 n)
    \<and> ebind (getattr self ''conv_action'')
         (\<lambda>l. ebind (torch_cat1 [T4 a1, T4 a2]) (call ar al h l)) = Inr (T4 asp)
    \<and> ebind (getattr self ''action_dense'') (\<lambda>l. call ar al h l (T2 ac)) = Inr (T4 ansp)
    \<and> is_shape4 B 32 (FEAT2DSIZE al) (FEAT2DSIZE al) m
    \<and> is_shape4 B 32 (FEAT2DSIZE al) (FEAT2DSIZE al) sc
    \<and> is_shape4 B 32 (FEAT2DSIZE al) (FEAT2DSIZE al) n
    \<and> is_shape4 B 32 (FEAT2DSIZE al) (FEAT2DSIZE al) asp
    \<and> is_shape4 B 32 (FEAT2DSIZE al) (FEAT2DSIZE al) ansp
    \<and> CriticNet_forward_encodings ar al h self obs actions = Inr [T4 m, T4 sc, T4 n, T4 asp, T4 ansp]
    \<and> torch_cat1 [T4 m, T4 sc, T4 n, T4 asp, T4 ansp] = Inr (T4 sa)
    \<and> is_shape4 B 160 (FEAT2DSIZE al) (FEAT2DSIZE al) sa
    \<and> (\<forall>b < B. sa ! b = m ! b @ sc ! b @ n ! b @ asp ! b @ ansp ! b)
    \<and> CriticNet_forward ar al h self obs actions =
         ebind (getattr self ''layer_hidden'') (\<lambda>l6. ebind (call ar al h l6 (T4 sa)) (\<lambda>x.
         ebind (getattr self ''layer_value'') (\<lambda>l7. call ar al h l7 x)))
    \<and> CriticNet_forward ar al h self obs actions = Inr (T2 q)
    \<and> is_shape2 B 1 q"
proof -
  let ?F = "FEAT2DSIZE al"
  let ?g = "fst (module_level al draw0 s0)"
  note st = self [unfolded CriticNet_init_self module_level_globals, simplified]
  have ga: "getattr self ''minimap_conv_layers'' = Inr (conv_minimap ?g)"
    "getattr self ''screen_conv_layers'' = Inr (conv_screen ?g)"
    "getattr self ''nonspatial_dense'' = Inr (dense_nonspatial ?g)"
    "getattr self ''conv_action'' = Inr (Sequential [Conv2d 2 16 5 1 2 (next_addr s) (next_addr s + 1), ReLU,
                         Conv2d 16 32 3 1 1 (next_addr s + 2) (next_addr s + 3), ReLU])"
    "getattr self ''action_dense'' = Inr (Sequential [Linear (NUM_ACTIONS al) 32 (next_addr s + 4) (next_addr s + 5), ReLU,
                         Dense2Conv])"
    "getattr self ''layer_hidden'' = Inr (Sequential [Conv2d 160 64 3 1 1 (next_addr s + 6) (next_addr s + 7), ReLU,
                         Conv2d 64 1 1 1 0 (next_addr s + 8) (next_addr s + 9), ReLU, Flatten])"
    "getattr self ''layer_value'' = Inr (Linear (FEAT2DSIZE al * FEAT2DSIZE al) 1 (next_addr s + 10) (next_addr s + 11))"
    unfolding self CriticNet_init_self by (simp_all add: getattr_def)
  have oks: "params_ok h (conv_minimap ?g)" "params_ok h (conv_screen ?g)"
    "params_ok h (dense_nonspatial ?g)"
    "params_ok h (Sequential [Conv2d 2 16 5 1 2 (next_addr s) (next_addr s + 1), ReLU,
                         Conv2d 16 32 3 1 1 (next_addr s + 2) (next_addr s + 3), ReLU])"
    "params_ok h (Sequential [Linear (NUM_ACTIONS al) 32 (next_addr s + 4) (next_addr s + 5), ReLU,
                         Dense2Conv])"
    "params_ok h (Sequential [Conv2d 160 64 3 1 1 (next_addr s + 6) (next_addr s + 7), ReLU,
                         Conv2d 64 1 1 1 0 (next_addr s + 8) (next_addr s + 9), ReLU, Flatten])"
    "params_ok h (Linear (FEAT2DSIZE al * FEAT2DSIZE al) 1 (next_addr s + 10) (next_addr s + 11))"
    using ok unfolding self CriticNet_init_self by simp_all
  obtain m where m: "call ar al h (conv_minimap ?g) (T4 xm) = Inr (T4 m)" "is_shape4 B 32 ?F ?F m"
    using call_conv_stack [OF oks(1) [unfolded module_level_globals globals.simps] xm(2) pos(1) _ pos(2) pos(2)]
    unfolding module_level_globals globals.simps by auto
  obtain sc where sc: "call ar al h (conv_screen ?g) (T4 xs) = Inr (T4 sc)" "is_shape4 B 32 ?F ?F sc"
    using call_conv_stack [OF oks(2) [unfolded module_level_globals globals.simps] xs(2) pos(1) _ pos(2) pos(2)]
    unfolding module_level_globals globals.simps by auto
  obtain n where n: "call ar al h (dense_nonspatial ?g) (T2 xn) = Inr (T4 n)" "is_shape4 B 32 ?F ?F n"
    using call_dense_stack [OF oks(3) [unfolded module_level_globals globals.simps] xn(2)]
    unfolding module_level_globals globals.simps by auto
  obtain a12 where a12: "torch_cat1 [T4 a1, T4 a2] = Inr (T4 a12)" "is_shape4 B 2 ?F ?F a12"
    using cat_two_screens [OF a1(2) a2(2) pos] by auto
  obtain asp where asp: "call ar al h (Sequential [Conv2d 2 16 5 1 2 (next_addr s) (next_addr s + 1), ReLU,
                         Conv2d 16 32 3 1 1 (next_addr s + 2) (next_addr s + 3), ReLU]) (T4 a12) = Inr (T4 asp)"
    "is_shape4 B 32 ?F ?F asp"
    using call_conv_stack [OF oks(4) a12(2) pos(1) _ pos(2) pos(2)] by auto
  obtain ansp where ansp: "call ar al h (Sequential [Linear (NUM_ACTIONS al) 32 (next_addr s + 4) (next_addr s + 5), ReLU,
                         Dense2Conv]) (T2 ac) = Inr (T4 ansp)" "is_shape4 B 32 ?F ?F ansp"
    using call_dense_stack [OF oks(5) ac(2)] by auto
  obtain sa where sa: "torch_cat1 [T4 m, T4 sc, T4 n, T4 asp, T4 ansp] = Inr (T4 sa)"
    "is_shape4 B 160 ?F ?F sa" "\<forall>b < B. sa ! b = m ! b @ sc ! b @ n ! b @ asp ! b @ ansp ! b"
    using cat_five_encodings [OF m(2) sc(2) n(2) asp(2) ansp(2) pos] by auto
  obtain y where y: "call ar al h (Sequential [Conv2d 160 64 3 1 1 (next_addr s + 6) (next_addr s + 7), ReLU,
                         Conv2d 64 1 1 1 0 (next_addr s + 8) (next_addr s + 9), ReLU, Flatten]) (T4 sa) = Inr (T2 y)"
    "is_shape2 B (?F * ?F) y"
    using call_critic_hidden [OF oks(6) sa(2) pos(1) pos(2) pos(2)] by auto
  obtain q where q: "call ar al h (Linear (?F * ?F) 1 (next_addr s + 10) (next_addr s + 11)) (T2 y) = Inr (T2 q)"
    "is_shape2 B 1 q"
    using call_Linear_T2 [OF oks(7) y(2)] by auto
  have enc: "CriticNet_forward_encodings ar al h self obs actions = Inr [T4 m, T4 sc, T4 n, T4 asp, T4 ansp]"
    unfolding CriticNet_forward_encodings_def
    by (simp only: getitem_def xm(1) xs(1) xn(1) ac(1) a1(1) a2(1) option.case ebind_Inr ga m(1) sc(1) n(1)
        a12(1) asp(1) ansp(1))
  have fw: "CriticNet_forward ar al h self obs actions =
         ebind (getattr self ''layer_hidden'') (\<lambda>l6. ebind (call ar al h l6 (T4 sa)) (\<lambda>x.
         ebind (getattr self ''layer_value'') (\<lambda>l7. call ar al h l7 x)))"
    unfolding CriticNet_forward_def by (simp only: enc ebind_Inr sa(1))
  have res: "CriticNet_forward ar al h self obs actions = Inr (T2 q)"
    unfolding fw by (simp only: ga ebind_Inr y(1) q(1))
  have p1: "ebind (getattr self ''minimap_conv_layers'') (\<lambda>l. call ar al h l (T4 xm)) = Inr (T4 m)"
    by (simp only: ga ebind_Inr m(1))
  have p2: "ebind (getattr self ''screen_conv_layers'') (\<lambda>l. call ar al h l (T4 xs)) = Inr (T4 sc)"
    by (simp only: ga ebind_Inr sc(1))
  have p3: "ebind (getattr self ''nonspatial_dense'') (\<lambda>l. call ar al h l (T2 xn)) = Inr (T4 n)"
    by (simp only: ga ebind_Inr n(1))
  have p4: "ebind (getattr self ''conv_action'')
         (\<lambda>l. ebind (torch_cat1 [T4 a1, T4 a2]) (call ar al h l)) = Inr (T4 asp)"
    by (simp only: ga ebind_Inr a12(1) asp(1))
  have p5: "ebind (getattr self ''action_dense'') (\<lambda>l. call ar al h l (T2 ac)) = Inr (T4 ansp)"
    by (simp only: ga ebind_Inr ansp(1))
  from p1 p2 p3 p4 p5 m(2) sc(2) n(2) asp(2) ansp(2) enc sa fw res q(2)
  show ?thesis by blast
qed

lemma ActorNet_forward_categorical_trace:
  assumes self: "self = fst (ActorNet_init al draw (fst (module_level al draw0 s0)) s)"
    and ok: "params_ok h self"
    and pos: "0 < B" "0 < FEAT2DSIZE al"
    and xm: "obs ''minimap'' = Some (T4 xm)" "is_shape4 B 7 (FEAT2DSIZE al) (FEAT2DSIZE al) xm"
    and xs: "obs ''screen'' = Some (T4 xs)" "is_shape4 B 17 (FEAT2DSIZE al) (FEAT2DSIZE al) xs"
    and xn: "obs ''nonspatial'' = Some (T2 xn)" "is_shape2 B (NUM_ACTIONS al) xn"
  shows "\<exists>m sc n ch state_h raw.
      call ar al h (conv_minimap (fst (module_level al draw0 s0))) (T4 xm) = Inr (T4 m)
    \<and> call ar al h (conv_screen (fst (module_level al draw0 s0))) (T4 xs) = Inr (T4 sc)
    \<and> call ar al h (dense_nonspatial (fst (module_level al draw0 s0))) (T2 xn) = Inr (T4 n)
    \<and> is_shape4 B 96 (FEAT2DSIZE al) (FEAT2DSIZE al) ch
    \<and> (\<forall>b < B. ch ! b = m ! b @ sc ! b @ n ! b)
    \<and> call ar al h (Sequential [Conv2d 96 64 3 1 1 (next_addr s) (next_addr s + 1), ReLU]) (T4 ch)
        = Inr (T4 state_h)
    \<and> call ar al h (Sequential [Conv2d 64 1 1 1 0 (next_addr s + 2) (next_addr s + 3), ReLU, Flatten,
                         Linear (FEAT2DSIZE al * FEAT2DSIZE al) (NUM_ACTIONS al)
                           (next_addr s + 4) (next_addr s + 5)]) (T4 state_h)
        = Inr (T2 raw)
    \<and> is_shape4 B 64 (FEAT2DSIZE al) (FEAT2DSIZE al) state_h
    \<and> is_shape2 B (NUM_ACTIONS al) raw
    \<and> ebind (getattr self ''layer_action'') (\<lambda>l. call ar al h l (T4 state_h)) = Inr (T2 raw)
    \<and> ActorNet_forward_categorical ar al h self obs valid_actions =
         ebind (mask_unavailable_actions ar (T2 raw) valid_actions)
           (\<lambda>pol_categorical. Inr (T4 state_h, pol_categorical))
    \<and> ActorNet_forward_raw ar al h self obs = Inr (T4 state_h, T2 raw)"
proof -
  let ?F = "FEAT2DSIZE al"
  let ?g = "fst (module_level al draw0 s0)"
  let ?lh = "Sequential [Conv2d 96 64 3 1 1 (next_addr s) (next_addr s + 1), ReLU]"
  let ?la = "Sequential [Conv2d 64 1 1 1 0 (next_addr s + 2) (next_addr s + 3), ReLU, Flatten,
                         Linear (?F * ?F) (NUM_ACTIONS al) (next_addr s + 4) (next_addr s + 5)]"
  have ga: "getattr self ''minimap_conv_layers'' = Inr (conv_minimap ?g)"
    "getattr self ''screen_conv_layers'' = Inr (conv_screen ?g)"
    "getattr self ''nonspatial_dense'' = Inr (dense_nonspatial ?g)"
    "getattr self ''layer_hidden'' = Inr ?lh"
    "getattr self ''layer_action'' = Inr ?la"
    unfolding self ActorNet_init_self by (simp_all add: getattr_def)
  have oks: "params_ok h (conv_minimap ?g)" "params_ok h (conv_screen ?g)"
    "params_ok h (dense_nonspatial ?g)" "params_ok h ?lh" "params_ok h ?la"
    using ok unfolding self ActorNet_init_self by simp_all
  obtain m where m: "call ar al h (conv_minimap ?g) (T4 xm) = Inr (T4 m)" "is_shape4 B 32 ?F ?F m"
    using call_conv_stack [OF oks(1) [unfolded module_level_globals globals.simps] xm(2) pos(1) _ pos(2) pos(2)]
    unfolding module_level_globals globals.simps by auto
  obtain sc where sc: "call ar al h (conv_screen ?g) (T4 xs) = Inr (T4 sc)" "is_shape4 B 32 ?F ?F sc"
    using call_conv_stack [OF oks(2) [unfolded module_level_globals globals.simps] xs(2) pos(1) _ pos(2) pos(2)]
    unfolding module_level_globals globals.simps by auto
  obtain n where n: "call ar al h (dense_nonspatial ?g) (T2 xn) = Inr (T4 n)" "is_shape4 B 32 ?F ?F n"
    using call_dense_stack [OF oks(3) [unfolded module_level_globals globals.simps] xn(2)]
    unfolding module_level_globals globals.simps by auto
  obtain ch where ch: "torch_cat1 [T4 m, T4 sc, T4 n] = Inr (T4 ch)" "is_shape4 B 96 ?F ?F ch"
    "\<forall>b < B. ch ! b = m ! b @ sc ! b @ n ! b"
    using cat_three_encodings [OF m(2) sc(2) n(2) pos] by auto
  obtain sh where sh: "call ar al h ?lh (T4 ch) = Inr (T4 sh)" "is_shape4 B 64 ?F ?F sh"
    using call_actor_hidden [OF oks(4) ch(2) pos(1) pos(2) pos(2)] by auto
  obtain raw where raw: "call ar al h ?la (T4 sh) = Inr (T2 raw)" "is_shape2 B (NUM_ACTIONS al) raw"
    using call_actor_action [OF oks(5) sh(2) pos(1) pos(2) pos(2)] by auto
  have p: "ebind (getattr self ''layer_action'') (\<lambda>l. call ar al h l (T4 sh)) = Inr (T2 raw)"
    by (simp only: ga ebind_Inr raw(1))
  have fr: "ActorNet_forward_raw ar al h self obs = Inr (T4 sh, T2 raw)"
    unfolding ActorNet_forward_raw_def
    by (simp only: getitem_def xm(1) xs(1) xn(1) option.case ebind_Inr ga m(1) sc(1) n(1)
        ch(1) sh(1) raw(1))
  have "ActorNet_forward_categorical ar al h self obs valid_actions =
         ebind (mask_unavailable_actions ar (T2 raw) valid_actions)
           (\<lambda>pol_categorical. Inr (T4 sh, pol_categorical))"
    unfolding ActorNet_forward_categorical_def by (simp only: fr ebind_Inr prod.case)
  with m(1) sc(1) n(1) ch(2,3) sh raw p fr show ?thesis by blast
qed

lemma ActorNet_missing_attribute:
  assumes self: "self = fst (ActorNet_init al draw g s)"
  shows "getattr self ''layer_screen1_x'' = Inl (AttributeError ''layer_screen1_x'')"
  unfolding self ActorNet_init_self by (simp add: getattr_def)

lemma ActorNet_forward_never_returns:
  assumes self: "self = fst (ActorNet_init al draw g s)"
  shows "ActorNet_forward ar al h self obs valid_actions =
     (case ActorNet_forward_categorical ar al h self obs valid_actions of
        Inl e \<Rightarrow> Inl e | Inr r \<Rightarrow> Inl (AttributeError ''layer_screen1_x''))"
  unfolding ActorNet_forward_def ActorNet_missing_attribute [OF self]
  by (simp add: ebind_def split: sum.splits prod.splits)

section \<open>Initialization through Module.apply\<close>

lemma fold_reinit_draws [simp]: "draws (fold (reinit draw) ps s) = draws s + length ps"
  by (induction ps arbitrary: s) (simp_all add: reinit_def)

lemma fold_reinit_next_addr [simp]: "next_addr (fold (reinit draw) ps s) = next_addr s"
  by (induction ps arbitrary: s) (simp_all add: reinit_def)

lemma fold_reinit_other:
  "a \<notin> fst ` set ps \<Longrightarrow> tensors (fold (reinit draw) ps s) a = tensors s a"
  by (induction ps arbitrary: s) (auto simp: reinit_def)

lemma fold_reinit_lookup:
  "distinct (map fst ps) \<Longrightarrow> i < length ps \<Longrightarrow>
     tensors (fold (reinit draw) ps s) (fst (ps ! i)) = Some (draw (draws s + i) (snd (ps ! i)))"
proof (induction ps arbitrary: s i)
  case Nil
  then show ?case by simp
next
  case (Cons p ps)
  show ?case
  proof (cases i)
    case 0
    have "fst p \<notin> fst ` set ps" using Cons.prems(1) by auto
    then show ?thesis using 0 by (simp add: fold_reinit_other) (simp add: reinit_def)
  next
    case (Suc j)
    then have j: "j < length ps" using Cons.prems(2) by simp
    have d: "distinct (map fst ps)" using Cons.prems(1) by simp
    show ?thesis using Cons.IH [OF d j, of "reinit draw p s"] Suc by (simp add: reinit_def)
  qed
qed

lemma fold_fold_concat:
  "(\<And>x. x \<in> set xs \<Longrightarrow> f x = fold g (h x)) \<Longrightarrow> fold f xs s = fold g (concat (map h xs)) s"
  by (induction xs arbitrary: s) auto

lemma init_weights_container [simp]:
  "init_weights draw (Sequential ms) t = t" "init_weights draw (Net kids) t = t"
  by (simp_all add: init_weights_def)

lemma apply_init_weights:
  "apply_module (init_weights draw) m s = fold (reinit draw) (shaped_parameters m) s"
proof (induction m arbitrary: s)
  case (Sequential ms)
  have "fold (apply_module (init_weights draw)) ms s = fold (reinit draw) (concat (map shaped_parameters ms)) s"
    by (rule fold_fold_concat) (rule ext, rule Sequential.IH, simp)
  then show ?case by (simp only: apply_module.simps init_weights_container shaped_parameters.simps)
next
  case (Net kids)
  have "fold (\<lambda>kid. apply_module (init_weights draw) (snd kid)) kids s
      = fold (reinit draw) (concat (map (\<lambda>kid. shaped_parameters (snd kid)) kids)) s"
  proof (rule fold_fold_concat, rule ext)
    fix kid t assume k: "kid \<in> set kids"
    obtain nm m where kid: "kid = (nm, m)" by (cases kid)
    show "apply_module (init_weights draw) (snd kid) t = fold (reinit draw) (shaped_parameters (snd kid)) t"
      using Net.IH [of kid m t] k kid by simp
  qed
  then show ?case by (simp only: apply_module.simps init_weights_container shaped_parameters.simps)
qed (simp_all add: init_weights_def)

lemma list_all_concat_kids:
  "(\<And>kid. kid \<in> set kids \<Longrightarrow> P (snd kid) = list_all Q (f (snd kid))) \<Longrightarrow>
     list_all (\<lambda>kid. P (snd kid)) kids = list_all Q (concat (map (\<lambda>kid. f (snd kid)) kids))"
  by (induction kids) auto

lemma params_ok_shaped: "params_ok s m = list_all (param_ok s) (shaped_parameters m)"
proof (induction m)
  case (Sequential ms)
  then show ?case by (induction ms) auto
next
  case (Net kids)
  have "list_all (\<lambda>kid. params_ok s (snd kid)) kids
      = list_all (param_ok s) (concat (map (\<lambda>kid. shaped_parameters (snd kid)) kids))"
  proof (rule list_all_concat_kids)
    fix kid assume k: "kid \<in> set kids"
    obtain nm m where kid: "kid = (nm, m)" by (cases kid)
    show "params_ok s (snd kid) = list_all (param_ok s) (shaped_parameters (snd kid))"
      using Net.IH [of kid m] k kid by simp
  qed
  then show ?case by simp
qed simp_all

section \<open>The store after the constructors\<close>

lemma new_param_simps [simp]:
  "fst (new_param draw sh s) = next_addr s"
  "next_addr (snd (new_param draw sh s)) = next_addr s + 1"
  "draws (snd (new_param draw sh s)) = draws s + 1"
  by (simp_all add: new_param_def)

lemma mk_Conv2d_simps [simp]:
  "fst (mk_Conv2d draw cin cout k st pad s) = Conv2d cin cout k st pad (next_addr s) (next_addr s + 1)"
  "next_addr (snd (mk_Conv2d draw cin cout k st pad s)) = next_addr s + 2"
  "draws (snd (mk_Conv2d draw cin cout k st pad s)) = draws s + 2"
  by (simp_all add: mk_Conv2d_def split_beta)

lemma mk_Linear_simps [simp]:
  "fst (mk_Linear draw fin fout s) = Linear fin fout (next_addr s) (next_addr s + 1)"
  "next_addr (snd (mk_Linear draw fin fout s)) = next_addr s + 2"
  "draws (snd (mk_Linear draw fin fout s)) = draws s + 2"
  by (simp_all add: mk_Linear_def split_beta)

lemma mk_plain_simps [simp]: "fst (mk_plain m s) = m" "snd (mk_plain m s) = s"
  by (simp_all add: mk_plain_def)

lemma mk_all_Cons [simp]:
  "fst (mk_all (c # cs) s) = fst (c s) # fst (mk_all cs (snd (c s)))"
  "snd (mk_all (c # cs) s) = snd (mk_all cs (snd (c s)))"
  by (simp_all add: split_beta)

lemma mk_Sequential_simps [simp]:
  "fst (mk_Sequential cs s) = Sequential (fst (mk_all cs s))"
  "snd (mk_Sequential cs s) = snd (mk_all cs s)"
  by (simp_all add: mk_Sequential_def split_beta)

lemma module_level_counters:
  "next_addr (snd (module_level al draw s)) = next_addr s + 10"
  "draws (snd (module_level al draw s)) = draws s + 10"
  by (simp_all add: module_level_def split_beta Let_def del: mk_all.simps(2))

lemma ActorNet_init_apply:
  "snd (ActorNet_init al draw g s) =
     apply_module (init_weights draw) (fst (ActorNet_init al draw g s))
       (snd (mk_Conv2d draw 64 1 1 1 0
         (snd (mk_Conv2d draw 64 1 1 1 0
           (snd (mk_Sequential [mk_Conv2d draw 64 1 1 1 0, mk_plain ReLU, mk_plain Flatten,
                                mk_Linear draw (FEAT2DSIZE al * FEAT2DSIZE al) (NUM_ACTIONS al)]
             (snd (mk_Sequential [mk_Conv2d draw (32 * 3) 64 3 1 1, mk_plain ReLU] s))))))))"
  by (simp only: ActorNet_init_def Let_def split_beta fst_conv snd_conv)

lemma ActorNet_init_heap:
  "\<exists>s4. snd (ActorNet_init al draw g s) =
          fold (reinit draw) (shaped_parameters (fst (ActorNet_init al draw g s))) s4
        \<and> draws s4 = draws s + 10 \<and> next_addr s4 = next_addr s + 10"
proof -
  let ?s4 = "snd (mk_Conv2d draw 64 1 1 1 0
         (snd (mk_Conv2d draw 64 1 1 1 0
           (snd (mk_Sequential [mk_Conv2d draw 64 1 1 1 0, mk_plain ReLU, mk_plain Flatten,
                                mk_Linear draw (FEAT2DSIZE al * FEAT2DSIZE al) (NUM_ACTIONS al)]
             (snd (mk_Sequential [mk_Conv2d draw (32 * 3) 64 3 1 1, mk_plain ReLU] s)))))))"
  have "snd (ActorNet_init al draw g s) =
          fold (reinit draw) (shaped_parameters (fst (ActorNet_init al draw g s))) ?s4"
    by (simp only: ActorNet_init_apply apply_init_weights)
  moreover have "draws ?s4 = draws s + 10" "next_addr ?s4 = next_addr s + 10"
    by (simp_all del: mk_all.simps(2))
  ultimately show ?thesis by blast
qed

lemma CriticNet_init_apply:
  "snd (CriticNet_init al draw g s) =
     apply_module (init_weights draw) (fst (CriticNet_init al draw g s))
       (snd (mk_Linear draw (FEAT2DSIZE al * FEAT2DSIZE al) 1
         (snd (mk_Sequential [mk_Conv2d draw (32 * 5) 64 3 1 1, mk_plain ReLU,
                              mk_Conv2d draw 64 1 1 1 0, mk_plain ReLU, mk_plain Flatten]
           (snd (mk_Sequential [mk_Linear draw (NUM_ACTIONS al) 32, mk_plain ReLU,
                                mk_plain Dense2Conv]
             (snd (mk_Sequential [mk_Conv2d draw 2 16 5 1 2, mk_plain ReLU,
                                  mk_Conv2d draw 16 32 3 1 1, mk_plain ReLU] s))))))))"
  by (simp only: CriticNet_init_def Let_def split_beta fst_conv snd_conv)

lemma CriticNet_init_heap:
  "\<exists>s4. snd (CriticNet_init al draw g s) =
          fold (reinit draw) (shaped_parameters (fst (CriticNet_init al draw g s))) s4
        \<and> draws s4 = draws s + 12 \<and> next_addr s4 = next_addr s + 12"
proof -
  let ?s4 = "snd (mk_Linear draw (FEAT2DSIZE al * FEAT2DSIZE al) 1
         (snd (mk_Sequential [mk_Conv2d draw (32 * 5) 64 3 1 1, mk_plain ReLU,
                              mk_Conv2d draw 64 1 1 1 0, mk_plain ReLU, mk_plain Flatten]
           (snd (mk_Sequential [mk_Linear draw (NUM_ACTIONS al) 32, mk_plain ReLU,
                                mk_plain Dense2Conv]
             (snd (mk_Sequential [mk_Conv2d draw 2 16 5 1 2, mk_plain ReLU,
                                  mk_Conv2d draw 16 32 3 1 1, mk_plain ReLU] s)))))))"
  have "snd (CriticNet_init al draw g s) =
          fold (reinit draw) (shaped_parameters (fst (CriticNet_init al draw g s))) ?s4"
    by (simp only: CriticNet_init_apply apply_init_weights)
  moreover have "draws ?s4 = draws s + 12" "next_addr ?s4 = next_addr s + 12"
    by (simp_all del: mk_all.simps(2))
  ultimately show ?thesis by blast
qed

lemma ActorNet_parameters:
  "shaped_parameters (fst (ActorNet_init al draw (fst (module_level al draw0 s0)) s)) =
     shaped_parameters (conv_minimap (fst (module_level al draw0 s0)))
     @ shaped_parameters (conv_screen (fst (module_level al draw0 s0)))
     @ shaped_parameters (dense_nonspatial (fst (module_level al draw0 s0)))
     @ [(next_addr s, [64, 96, 3, 3]), (next_addr s + 1, [64]),
        (next_addr s + 2, [1, 64, 1, 1]), (next_addr s + 3, [1]),
        (next_addr s + 4, [NUM_ACTIONS al, FEAT2DSIZE al * FEAT2DSIZE al]),
        (next_addr s + 5, [NUM_ACTIONS al]),
        (next_addr s + 6, [1, 64, 1, 1]), (next_addr s + 7, [1]),
        (next_addr s + 8, [1, 64, 1, 1]), (next_addr s + 9, [1])]"
  by (simp add: ActorNet_init_self)

lemma CriticNet_parameters:
  "shaped_parameters (fst (CriticNet_init al draw (fst (module_level al draw0 s0)) s)) =
     shaped_parameters (conv_minimap (fst (module_level al draw0 s0)))
     @ shaped_parameters (conv_screen (fst (module_level al draw0 s0)))
     @ shaped_parameters (dense_nonspatial (fst (module_level al draw0 s0)))
     @ [(next_addr s, [16, 2, 5, 5]), (next_addr s + 1, [16]),
        (next_addr s + 2, [32, 16, 3, 3]), (next_addr s + 3, [32]),
        (next_addr s + 4, [32, NUM_ACTIONS al]), (next_addr s + 5, [32]),
        (next_addr s + 6, [64, 160, 3, 3]), (next_addr s + 7, [64]),
        (next_addr s + 8, [1, 64, 1, 1]), (next_addr s + 9, [1]),
        (next_addr s + 10, [1, FEAT2DSIZE al * FEAT2DSIZE al]), (next_addr s + 11, [1])]"
  by (simp add: CriticNet_init_self)

lemma shared_parameters:
  "shaped_parameters (conv_minimap (fst (module_level al draw0 s0)))
     @ shaped_parameters (conv_screen (fst (module_level al draw0 s0)))
     @ shaped_parameters (dense_nonspatial (fst (module_level al draw0 s0))) =
   [(next_addr s0, [16, 7, 5, 5]), (next_addr s0 + 1, [16]),
    (next_addr s0 + 2, [32, 16, 3, 3]), (next_addr s0 + 3, [32]),
    (next_addr s0 + 4, [16, 17, 5, 5]), (next_addr s0 + 5, [16]),
    (next_addr s0 + 6, [32, 16, 3, 3]), (next_addr s0 + 7, [32]),
    (next_addr s0 + 8, [32, NUM_ACTIONS al]), (next_addr s0 + 9, [32])]"
  by (simp add: module_level_globals)

lemma ActorNet_parameters_distinct:
  assumes "next_addr s0 + 10 \<le> next_addr s"
  shows "distinct (map fst (shaped_parameters (fst (ActorNet_init al draw (fst (module_level al draw0 s0)) s))))"
  using assms unfolding ActorNet_parameters append_assoc [symmetric] shared_parameters [unfolded append_assoc [symmetric]]
  by simp

lemma CriticNet_parameters_distinct:
  assumes "next_addr s0 + 10 \<le> next_addr s"
  shows "distinct (map fst (shaped_parameters (fst (CriticNet_init al draw (fst (module_level al draw0 s0)) s))))"
  using assms unfolding CriticNet_parameters append_assoc [symmetric] shared_parameters [unfolded append_assoc [symmetric]]
  by simp


lemma ActorNet_parameters_length:
  "length (shaped_parameters (fst (ActorNet_init al draw (fst (module_level al draw0 s0)) s))) = 20"
  unfolding ActorNet_parameters append_assoc [symmetric] shared_parameters [unfolded append_assoc [symmetric]]
  by simp

lemma CriticNet_parameters_length:
  "length (shaped_parameters (fst (CriticNet_init al draw (fst (module_level al draw0 s0)) s))) = 22"
  unfolding CriticNet_parameters append_assoc [symmetric] shared_parameters [unfolded append_assoc [symmetric]]
  by simp

lemma ActorNet_init_counters:
  "next_addr (snd (ActorNet_init al draw (fst (module_level al draw0 s0)) s)) = next_addr s + 10"
  "draws (snd (ActorNet_init al draw (fst (module_level al draw0 s0)) s)) = draws s + 30"
proof -
  let ?g = "fst (module_level al draw0 s0)"
  obtain s4 where s4: "snd (ActorNet_init al draw ?g s) =
          fold (reinit draw) (shaped_parameters (fst (ActorNet_init al draw ?g s))) s4"
    "draws s4 = draws s + 10" "next_addr s4 = next_addr s + 10"
    using ActorNet_init_heap by blast
  show "next_addr (snd (ActorNet_init al draw ?g s)) = next_addr s + 10"
    by (simp only: s4 fold_reinit_next_addr)
  show "draws (snd (ActorNet_init al draw ?g s)) = draws s + 30"
    by (simp only: s4 fold_reinit_draws ActorNet_parameters_length)
qed

lemma CriticNet_init_counters:
  "next_addr (snd (CriticNet_init al draw (fst (module_level al draw0 s0)) s)) = next_addr s + 12"
  "draws (snd (CriticNet_init al draw (fst (module_level al draw0 s0)) s)) = draws s + 34"
proof -
  let ?g = "fst (module_level al draw0 s0)"
  obtain s4 where s4: "snd (CriticNet_init al draw ?g s) =
          fold (reinit draw) (shaped_parameters (fst (CriticNet_init al draw ?g s))) s4"
    "draws s4 = draws s + 12" "next_addr s4 = next_addr s + 12"
    using CriticNet_init_heap by blast
  show "next_addr (snd (CriticNet_init al draw ?g s)) = next_addr s + 12"
    by (simp only: s4 fold_reinit_next_addr)
  show "draws (snd (CriticNet_init al draw ?g s)) = draws s + 34"
    by (simp only: s4 fold_reinit_draws CriticNet_parameters_length)
qed

lemma has_shape_fill:
  "length sh = 1 \<or> length sh = 2 \<or> length sh = 4 \<Longrightarrow> has_shape sh (fill v sh)"
proof -
  assume l: "length sh = 1 \<or> length sh = 2 \<or> length sh = 4"
  consider (a) n where "sh = [n]" | (b) n m where "sh = [n, m]" | (c) n m k j where "sh = [n, m, k, j]"
    using l by (auto simp: length_Suc_conv numeral_2_eq_2 numeral_eq_Suc)
  then show ?thesis
    by cases (simp_all add: is_shape2_def is_shape4_def list_all_iff)
qed

lemma init_lookup:
  assumes heap: "snd r = fold (reinit draw) (shaped_parameters (fst r)) s4"
    and d: "distinct (map fst (shaped_parameters (fst r)))"
    and i: "i < length (shaped_parameters (fst r))"
  shows "tensors (snd r) (fst (shaped_parameters (fst r) ! i)) =
     Some (draw (draws s4 + i) (snd (shaped_parameters (fst r) ! i)))"
  unfolding heap using fold_reinit_lookup [OF d i] .

lemma init_params_ok:
  assumes heap: "snd r = fold (reinit draw) (shaped_parameters (fst r)) s4"
    and d: "distinct (map fst (shaped_parameters (fst r)))"
    and sh: "\<forall>p \<in> set (shaped_parameters (fst r)). length (snd p) = 1 \<or> length (snd p) = 2 \<or> length (snd p) = 4"
    and dr: "\<forall>n sh. length sh = 1 \<or> length sh = 2 \<or> length sh = 4 \<longrightarrow> has_shape sh (draw n sh)"
  shows "params_ok (snd r) (fst r)"
proof -
  have "param_ok (snd r) p" if p: "p \<in> set (shaped_parameters (fst r))" for p
  proof -
    obtain i where i: "i < length (shaped_parameters (fst r))" "p = shaped_parameters (fst r) ! i"
      using p by (auto simp: in_set_conv_nth)
    have "tensors (snd r) (fst p) = Some (draw (draws s4 + i) (snd p))"
      using init_lookup [OF heap d i(1)] i(2) by simp
    moreover have "has_shape (snd p) (draw (draws s4 + i) (snd p))" using sh dr p by blast
    ultimately show ?thesis by (simp add: param_ok_def)
  qed
  then show ?thesis by (simp add: params_ok_shaped list_all_iff)
qed

lemma ActorNet_init_params_ok:
  assumes "next_addr s0 + 10 \<le> next_addr s"
    and "\<forall>n sh. length sh = 1 \<or> length sh = 2 \<or> length sh = 4 \<longrightarrow> has_shape sh (draw n sh)"
  shows "params_ok (snd (ActorNet_init al draw (fst (module_level al draw0 s0)) s))
           (fst (ActorNet_init al draw (fst (module_level al draw0 s0)) s))"
proof -
  let ?r = "ActorNet_init al draw (fst (module_level al draw0 s0)) s"
  obtain s4 where s4: "snd ?r = fold (reinit draw) (shaped_parameters (fst ?r)) s4"
    using ActorNet_init_heap by blast
  have sh: "\<forall>p \<in> set (shaped_parameters (fst ?r)). length (snd p) = 1 \<or> length (snd p) = 2 \<or> length (snd p) = 4"
    unfolding ActorNet_parameters append_assoc [symmetric] shared_parameters [unfolded append_assoc [symmetric]]
    by simp
  show ?thesis
    using init_params_ok [OF s4 ActorNet_parameters_distinct [OF assms(1)] sh assms(2)] .
qed

lemma CriticNet_init_params_ok:
  assumes "next_addr s0 + 10 \<le> next_addr s"
    and "\<forall>n sh. length sh = 1 \<or> length sh = 2 \<or> length sh = 4 \<longrightarrow> has_shape sh (draw n sh)"
  shows "params_ok (snd (CriticNet_init al draw (fst (module_level al draw0 s0)) s))
           (fst (CriticNet_init al draw (fst (module_level al draw0 s0)) s))"
proof -
  let ?r = "CriticNet_init al draw (fst (module_level al draw0 s0)) s"
  obtain s4 where s4: "snd ?r = fold (reinit draw) (shaped_parameters (fst ?r)) s4"
    using CriticNet_init_heap by blast
  have sh: "\<forall>p \<in> set (shaped_parameters (fst ?r)). length (snd p) = 1 \<or> length (snd p) = 2 \<or> length (snd p) = 4"
    unfolding CriticNet_parameters append_assoc [symmetric] shared_parameters [unfolded append_assoc [symmetric]]
    by simp
  show ?thesis
    using init_params_ok [OF s4 CriticNet_parameters_distinct [OF assms(1)] sh assms(2)] .
qed

lemma shared_prefix_nth:
  assumes "i < 10"
  shows "shaped_parameters (fst (ActorNet_init al draw (fst (module_level al draw0 s0)) s)) ! i =
           (shaped_parameters (conv_minimap (fst (module_level al draw0 s0)))
            @ shaped_parameters (conv_screen (fst (module_level al draw0 s0)))
            @ shaped_parameters (dense_nonspatial (fst (module_level al draw0 s0)))) ! i"
    and "shaped_parameters (fst (CriticNet_init al draw (fst (module_level al draw0 s0)) s)) ! i =
           (shaped_parameters (conv_minimap (fst (module_level al draw0 s0)))
            @ shaped_parameters (conv_screen (fst (module_level al draw0 s0)))
            @ shaped_parameters (dense_nonspatial (fst (module_level al draw0 s0)))) ! i"
proof -
  let ?sh = "shaped_parameters (conv_minimap (fst (module_level al draw0 s0)))
            @ shaped_parameters (conv_screen (fst (module_level al draw0 s0)))
            @ shaped_parameters (dense_nonspatial (fst (module_level al draw0 s0)))"
  have l: "length ?sh = 10" unfolding shared_parameters by simp
  have a: "shaped_parameters (fst (ActorNet_init al draw (fst (module_level al draw0 s0)) s)) = ?sh @
      [(next_addr s, [64, 96, 3, 3]), (next_addr s + 1, [64]),
        (next_addr s + 2, [1, 64, 1, 1]), (next_addr s + 3, [1]),
        (next_addr s + 4, [NUM_ACTIONS al, FEAT2DSIZE al * FEAT2DSIZE al]),
        (next_addr s + 5, [NUM_ACTIONS al]),
        (next_addr s + 6, [1, 64, 1, 1]), (next_addr s + 7, [1]),
        (next_addr s + 8, [1, 64, 1, 1]), (next_addr s + 9, [1])]"
    unfolding ActorNet_parameters by (simp only: append_assoc)
  show "shaped_parameters (fst (ActorNet_init al draw (fst (module_level al draw0 s0)) s)) ! i = ?sh ! i"
    unfolding a using assms l by (simp only: nth_append) simp
  have c: "shaped_parameters (fst (CriticNet_init al draw (fst (module_level al draw0 s0)) s)) = ?sh @
      [(next_addr s, [16, 2, 5, 5]), (next_addr s + 1, [16]),
        (next_addr s + 2, [32, 16, 3, 3]), (next_addr s + 3, [32]),
        (next_addr s + 4, [32, NUM_ACTIONS al]), (next_addr s + 5, [32]),
        (next_addr s + 6, [64, 160, 3, 3]), (next_addr s + 7, [64]),
        (next_addr s + 8, [1, 64, 1, 1]), (next_addr s + 9, [1]),
        (next_addr s + 10, [1, FEAT2DSIZE al * FEAT2DSIZE al]), (next_addr s + 11, [1])]"
    unfolding CriticNet_parameters by (simp only: append_assoc)
  show "shaped_parameters (fst (CriticNet_init al draw (fst (module_level al draw0 s0)) s)) ! i = ?sh ! i"
    unfolding c using assms l by (simp only: nth_append) simp
qed

lemma ActorNet_init_shared_lookup:
  assumes n: "next_addr s0 + 10 \<le> next_addr s" and i: "i < 10"
  shows "tensors (snd (ActorNet_init al draw (fst (module_level al draw0 s0)) s))
           (fst ((shaped_parameters (conv_minimap (fst (module_level al draw0 s0)))
            @ shaped_parameters (conv_screen (fst (module_level al draw0 s0)))
            @ shaped_parameters (dense_nonspatial (fst (module_level al draw0 s0)))) ! i))
     = Some (draw (draws s + 10 + i)
           (snd ((shaped_parameters (conv_minimap (fst (module_level al draw0 s0)))
            @ shaped_parameters (conv_screen (fst (module_level al draw0 s0)))
            @ shaped_parameters (dense_nonspatial (fst (module_level al draw0 s0)))) ! i)))"
proof -
  let ?r = "ActorNet_init al draw (fst (module_level al draw0 s0)) s"
  obtain s4 where s4: "snd ?r = fold (reinit draw) (shaped_parameters (fst ?r)) s4"
    "draws s4 = draws s + 10"
    using ActorNet_init_heap by blast
  have il: "i < length (shaped_parameters (fst ?r))"
    using i by (simp only: ActorNet_parameters_length)
  show ?thesis
    using init_lookup [OF s4(1) ActorNet_parameters_distinct [OF n] il]
    by (simp only: shared_prefix_nth(1) [OF i] s4(2))
qed

lemma CriticNet_init_shared_lookup:
  assumes n: "next_addr s0 + 10 \<le> next_addr s" and i: "i < 10"
  shows "tensors (snd (CriticNet_init al draw (fst (module_level al draw0 s0)) s))
           (fst ((shaped_parameters (conv_minimap (fst (module_level al draw0 s0)))
            @ shaped_parameters (conv_screen (fst (module_level al draw0 s0)))
            @ shaped_parameters (dense_nonspatial (fst (module_level al draw0 s0)))) ! i))
     = Some (draw (draws s + 12 + i)
           (snd ((shaped_parameters (conv_minimap (fst (module_level al draw0 s0)))
            @ shaped_parameters (conv_screen (fst (module_level al draw0 s0)))
            @ shaped_parameters (dense_nonspatial (fst (module_level al draw0 s0)))) ! i)))"
proof -
  let ?r = "CriticNet_init al draw (fst (module_level al draw0 s0)) s"
  obtain s4 where s4: "snd ?r = fold (reinit draw) (shaped_parameters (fst ?r)) s4"
    "draws s4 = draws s + 12"
    using CriticNet_init_heap by blast
  have il: "i < length (shaped_parameters (fst ?r))"
    using i by (simp only: CriticNet_parameters_length)
  show ?thesis
    using init_lookup [OF s4(1) CriticNet_parameters_distinct [OF n] il]
    by (simp only: shared_prefix_nth(2) [OF i] s4(2))
qed

lemma actor_then_critic_unfold:
  "actor_then_critic al draw =
     (ActorNet_init al draw (fst (module_level al draw empty_heap)) (snd (module_level al draw empty_heap)),
      CriticNet_init al draw (fst (module_level al draw empty_heap))
        (snd (ActorNet_init al draw (fst (module_level al draw empty_heap)) (snd (module_level al draw empty_heap)))))"
  by (simp only: actor_then_critic_def loaded_def Let_def split_beta prod.collapse)

lemma critic_then_actor_unfold:
  "critic_then_actor al draw =
     (CriticNet_init al draw (fst (module_level al draw empty_heap)) (snd (module_level al draw empty_heap)),
      ActorNet_init al draw (fst (module_level al draw empty_heap))
        (snd (CriticNet_init al draw (fst (module_level al draw empty_heap)) (snd (module_level al draw empty_heap)))))"
  by (simp only: critic_then_actor_def loaded_def Let_def split_beta prod.collapse)

lemma loaded_counters:
  "next_addr (snd (module_level al draw empty_heap)) = 10"
  "draws (snd (module_level al draw empty_heap)) = 10"
  by (simp_all add: module_level_counters empty_heap_def)

section \<open>The example configuration and the shared encoders\<close>

lemma zero_draw_shapes:
  "\<forall>n sh. length sh = 1 \<or> length sh = 2 \<or> length sh = 4 \<longrightarrow> has_shape sh (zero_draw n sh)"
  by (simp add: zero_draw_def has_shape_fill)

lemma empty_heap_next: "next_addr empty_heap = 0"
  by (simp add: empty_heap_def)

lemma example_critic_ok:
  "params_ok
     (snd (CriticNet_init example_arglist zero_draw (fst (module_level example_arglist zero_draw empty_heap))
             (snd (module_level example_arglist zero_draw empty_heap))))
     (fst (CriticNet_init example_arglist zero_draw (fst (module_level example_arglist zero_draw empty_heap))
             (snd (module_level example_arglist zero_draw empty_heap))))"
  by (rule CriticNet_init_params_ok) (simp_all add: loaded_counters empty_heap_next zero_draw_shapes)

lemma example_actor_ok:
  "params_ok
     (snd (ActorNet_init example_arglist zero_draw (fst (module_level example_arglist zero_draw empty_heap))
             (snd (module_level example_arglist zero_draw empty_heap))))
     (fst (ActorNet_init example_arglist zero_draw (fst (module_level example_arglist zero_draw empty_heap))
             (snd (module_level example_arglist zero_draw empty_heap))))"
  by (rule ActorNet_init_params_ok) (simp_all add: loaded_counters empty_heap_next zero_draw_shapes)

lemma example_arglist_fields:
  "NUM_ACTIONS example_arglist = 2" "FEAT2DSIZE example_arglist = 1"
  by (simp_all add: example_arglist_def)

lemma is_shape4_fill:
  "is_shape4 B C H W (replicate B (replicate C (replicate H (replicate W v))))"
  by (simp add: is_shape4_def is_shape2_def list_all_iff)

lemma is_shape2_fill: "is_shape2 B N (replicate B (replicate N v))"
  by (simp add: is_shape2_def list_all_iff)

lemma encoder_parameters_loaded:
  "encoder_parameters (fst (module_level al dg sg)) =
   [(next_addr sg, [16, 7, 5, 5]), (next_addr sg + 1, [16]),
    (next_addr sg + 2, [32, 16, 3, 3]), (next_addr sg + 3, [32]),
    (next_addr sg + 4, [16, 17, 5, 5]), (next_addr sg + 5, [16]),
    (next_addr sg + 6, [32, 16, 3, 3]), (next_addr sg + 7, [32]),
    (next_addr sg + 8, [32, NUM_ACTIONS al]), (next_addr sg + 9, [32])]"
  unfolding encoder_parameters_def by (rule shared_parameters)

lemma ActorNet_parameters_encoders:
  "shaped_parameters (fst (ActorNet_init al draw (fst (module_level al dg sg)) s)) =
     encoder_parameters (fst (module_level al dg sg))
     @ [(next_addr s, [64, 96, 3, 3]), (next_addr s + 1, [64]),
        (next_addr s + 2, [1, 64, 1, 1]), (next_addr s + 3, [1]),
        (next_addr s + 4, [NUM_ACTIONS al, FEAT2DSIZE al * FEAT2DSIZE al]),
        (next_addr s + 5, [NUM_ACTIONS al]),
        (next_addr s + 6, [1, 64, 1, 1]), (next_addr s + 7, [1]),
        (next_addr s + 8, [1, 64, 1, 1]), (next_addr s + 9, [1])]"
  unfolding ActorNet_parameters encoder_parameters_def by (simp only: append_assoc)

lemma CriticNet_parameters_encoders:
  "shaped_parameters (fst (CriticNet_init al draw (fst (module_level al dg sg)) s)) =
     encoder_parameters (fst (module_level al dg sg))
     @ [(next_addr s, [16, 2, 5, 5]), (next_addr s + 1, [16]),
        (next_addr s + 2, [32, 16, 3, 3]), (next_addr s + 3, [32]),
        (next_addr s + 4, [32, NUM_ACTIONS al]), (next_addr s + 5, [32]),
        (next_addr s + 6, [64, 160, 3, 3]), (next_addr s + 7, [64]),
        (next_addr s + 8, [1, 64, 1, 1]), (next_addr s + 9, [1]),
        (next_addr s + 10, [1, FEAT2DSIZE al * FEAT2DSIZE al]), (next_addr s + 11, [1])]"
  unfolding CriticNet_parameters encoder_parameters_def by (simp only: append_assoc)

lemma encoders_in_both:
  "set (map fst (encoder_parameters (fst (module_level al dg sg))))
     \<subseteq> set (parameters (fst (ActorNet_init al draw (fst (module_level al dg sg)) s)))
       \<inter> set (parameters (fst (CriticNet_init al draw' (fst (module_level al dg sg)) s')))"
  unfolding parameters_def ActorNet_parameters_encoders CriticNet_parameters_encoders
  by (simp only: map_append set_append) blast

lemma actor_then_critic_shared:
  "set (parameters (fst (fst (actor_then_critic al draw))))
     \<inter> set (parameters (fst (snd (actor_then_critic al draw))))
   = set (map fst (encoder_parameters (fst (loaded al draw))))"
proof -
  let ?g = "fst (module_level al draw empty_heap)"
  let ?s0 = "snd (module_level al draw empty_heap)"
  let ?s1 = "snd (ActorNet_init al draw ?g ?s0)"
  have n0: "next_addr ?s0 = 10" by (rule loaded_counters)
  have n1: "next_addr ?s1 = 20" by (simp add: ActorNet_init_counters n0)
  have e0: "next_addr empty_heap = 0" by (simp add: empty_heap_def)
  show ?thesis
    unfolding actor_then_critic_unfold loaded_def fst_conv snd_conv parameters_def
      ActorNet_parameters_encoders CriticNet_parameters_encoders encoder_parameters_loaded n0 n1 e0
    by auto
qed

lemma critic_then_actor_shared:
  "set (parameters (fst (fst (critic_then_actor al draw))))
     \<inter> set (parameters (fst (snd (critic_then_actor al draw))))
   = set (map fst (encoder_parameters (fst (loaded al draw))))"
proof -
  let ?g = "fst (module_level al draw empty_heap)"
  let ?s0 = "snd (module_level al draw empty_heap)"
  let ?s1 = "snd (CriticNet_init al draw ?g ?s0)"
  have n0: "next_addr ?s0 = 10" by (rule loaded_counters)
  have n1: "next_addr ?s1 = 22" by (simp add: CriticNet_init_counters n0)
  have e0: "next_addr empty_heap = 0" by (simp add: empty_heap_def)
  show ?thesis
    unfolding critic_then_actor_unfold loaded_def fst_conv snd_conv parameters_def
      ActorNet_parameters_encoders CriticNet_parameters_encoders encoder_parameters_loaded n0 n1 e0
    by auto
qed

section \<open>Finite values through the layers\<close>

lemma is_fin_fmul:
  "is_fin a \<Longrightarrow> is_fin b \<Longrightarrow> finite_arith ar \<Longrightarrow> is_fin (fmul (rounded ar) a b)"
  by (cases a; cases b) (simp_all add: finite_arith_def)

lemma is_fin_fadd:
  "is_fin a \<Longrightarrow> is_fin b \<Longrightarrow> finite_arith ar \<Longrightarrow> is_fin (fadd (rounded ar) a b)"
  by (cases a; cases b) (simp_all add: finite_arith_def)

lemma is_fin_frelu: "is_fin a \<Longrightarrow> is_fin (frelu a)"
  by (cases a) simp_all

lemma is_fin_summed: "list_all is_fin xs \<Longrightarrow> finite_arith ar \<Longrightarrow> is_fin (summed ar xs)"
  by (simp add: finite_arith_def)

lemma is_fin_padded_at: "list_all (list_all is_fin) ch \<Longrightarrow> is_fin (padded_at pad ch r q)"
  by (simp add: padded_at_def list_all_length)

lemma is_fin_conv_at:
  assumes ker: "length ker = length e" "list_all (is_shape2 k k) ker"
    "list_all (list_all (list_all is_fin)) ker"
    and b: "is_fin bias" and e: "list_all (list_all (list_all is_fin)) e"
    and fa: "finite_arith ar"
  shows "is_fin (conv_at ar k stride pad ker bias e i j)"
proof -
  have "is_fin (fmul (rounded ar) (ker ! c ! di ! dj) (padded_at pad (e ! c) (i * stride + di) (j * stride + dj)))"
    if "c < length e" "di < k" "dj < k" for c di dj
  proof -
    have "is_shape2 k k (ker ! c)" "list_all (list_all is_fin) (ker ! c)"
      using ker that(1) by (simp_all add: list_all_length)
    then have "is_fin (ker ! c ! di ! dj)"
      using that(2,3) by (simp add: is_shape2_def list_all_length)
    moreover have "is_fin (padded_at pad (e ! c) (i * stride + di) (j * stride + dj))"
      using e that(1) by (intro is_fin_padded_at) (simp add: list_all_length)
    ultimately show ?thesis by (rule is_fin_fmul) (rule fa)
  qed
  then have l: "list_all is_fin
     [fmul (rounded ar) (ker ! c ! di ! dj) (padded_at pad (e ! c) (i * stride + di) (j * stride + dj)).
        c \<leftarrow> [0..<length e], di \<leftarrow> [0..<k], dj \<leftarrow> [0..<k]]"
    by (auto simp: list_all_iff)
  show ?thesis unfolding conv_at_def by (intro is_fin_fadd is_fin_summed l b fa)
qed

lemma conv2d_finite:
  assumes r: "conv2d ar cin cout k stride pad wt bt x = Inr y"
    and wt: "list_all (list_all (list_all (list_all is_fin))) wt"
    and bt: "list_all is_fin bt"
    and x: "list_all (list_all (list_all (list_all is_fin))) x"
    and fa: "finite_arith ar"
  shows "list_all (list_all (list_all (list_all is_fin))) y"
proof -
  let ?Ho = "(height x + 2 * pad - k) div stride + 1"
  let ?Wo = "(width x + 2 * pad - k) div stride + 1"
  from r have c: "is_shape4 cout cin k k wt" "length bt = cout"
    "is_shape4 (length x) cin (height x) (width x) x"
    and y: "y = map (conv2d_example ar k stride pad wt bt ?Ho ?Wo) x"
    by (auto simp: conv2d_def Let_def split: if_splits)
  have "is_fin (conv_at ar k stride pad (wt ! oc) (bt ! oc) e i j)"
    if "e \<in> set x" "oc < length wt" for e oc i j
  proof (rule is_fin_conv_at)
    have lw: "length wt = cout" using c(1) by (simp add: is_shape4_def)
    have "length (wt ! oc) = cin" using c(1) that(2) by (simp add: is_shape4_def list_all_length)
    moreover have "length e = cin" using c(3) that(1) by (simp add: is_shape4_def list_all_iff)
    ultimately show "length (wt ! oc) = length e" by simp
    show "list_all (is_shape2 k k) (wt ! oc)"
      using c(1) that(2) by (simp add: is_shape4_def list_all_length)
    show "list_all (list_all (list_all is_fin)) (wt ! oc)"
      using wt that(2) by (simp add: list_all_length)
    show "is_fin (bt ! oc)" using bt c(2) lw that(2) by (simp add: list_all_length)
    show "list_all (list_all (list_all is_fin)) e" using x that(1) by (simp add: list_all_iff)
    show "finite_arith ar" by (rule fa)
  qed
  then show ?thesis unfolding y conv2d_example_def by (simp add: list_all_iff)
qed

lemma linear_row_finite:
  assumes "is_shape2 fout fin wt" "length bt = fout" "list_all (list_all is_fin) wt"
    "list_all is_fin bt" "list_all is_fin r" "finite_arith ar"
  shows "list_all is_fin (linear_row ar wt bt r)"
proof -
  have "is_fin (fadd (rounded ar) (summed ar (zip_with (fmul (rounded ar)) r (wt ! oc))) (bt ! oc))"
    if "oc < length wt" for oc
  proof (intro is_fin_fadd is_fin_summed assms(6))
    have w: "list_all is_fin (wt ! oc)" using assms(3) that by (simp add: list_all_length)
    show "list_all is_fin (zip_with (fmul (rounded ar)) r (wt ! oc))"
      using w assms(5) assms(6) by (simp add: list_all_length zip_with_nth is_fin_fmul)
    show "is_fin (bt ! oc)" using assms(1,2,4) that by (simp add: is_shape2_def list_all_length)
  qed
  then show ?thesis by (simp add: linear_row_def list_all_iff)
qed

lemma list_all_map_intro:
  "list_all P xs \<Longrightarrow> (\<And>x. P x \<Longrightarrow> Q (f x)) \<Longrightarrow> list_all Q (map f xs)"
  by (simp add: list_all_iff)

lemma linear_finite:
  assumes r: "linear ar fin fout wt bt x = Inr y"
    and wt: "list_all (list_all is_fin) wt" and bt: "list_all is_fin bt" and x: "tensor_finite x"
    and fa: "finite_arith ar"
  shows "tensor_finite y"
proof -
  have c: "is_shape2 fout fin wt" "length bt = fout"
    using r by (cases x; simp split: if_splits)+
  note row = linear_row_finite [OF c wt bt _ fa]
  show ?thesis
  proof (cases x)
    case (T1 v)
    then have "y = T1 (linear_row ar wt bt v)" using r by (simp split: if_splits)
    then show ?thesis using x T1 row by simp
  next
    case (T2 v)
    then have "y = T2 (map (linear_row ar wt bt) v)" using r by (simp split: if_splits)
    moreover have "list_all (list_all is_fin) (map (linear_row ar wt bt) v)"
      using x T2 by (intro list_all_map_intro [where P = "list_all is_fin"] row) simp_all
    ultimately show ?thesis by simp
  next
    case (T4 v)
    then have "y = T4 (map (map (map (linear_row ar wt bt))) v)" using r by (simp split: if_splits)
    moreover have "list_all (list_all (list_all (list_all is_fin))) (map (map (map (linear_row ar wt bt))) v)"
    proof (rule list_all_map_intro [where P = "list_all (list_all (list_all is_fin))"])
      show "list_all (list_all (list_all (list_all is_fin))) v" using x T4 by simp
    next
      fix e :: "fl list list list" assume "list_all (list_all (list_all is_fin)) e"
      then show "list_all (list_all (list_all is_fin)) (map (map (linear_row ar wt bt)) e)"
      proof (rule list_all_map_intro)
        fix c :: "fl list list" assume "list_all (list_all is_fin) c"
        then show "list_all (list_all is_fin) (map (linear_row ar wt bt) c)"
          by (rule list_all_map_intro) (rule row)
      qed
    qed
    ultimately show ?thesis by simp
  qed
qed

lemma relu_finite: "tensor_finite x \<Longrightarrow> tensor_finite (relu x)"
  by (cases x) (auto simp: list_all_iff is_fin_frelu)

lemma flatten_finite: "flatten x = Inr y \<Longrightarrow> tensor_finite x \<Longrightarrow> tensor_finite y"
  by (cases x) (auto simp: list_all_iff)

lemma dense2conv_finite: "dense2conv F x = Inr y \<Longrightarrow> tensor_finite x \<Longrightarrow> tensor_finite y"
  by (cases x) (auto simp: list_all_iff)


lemma list_all_concat_map:
  "list_all P (concat (map f xs)) = list_all (\<lambda>x. list_all P (f x)) xs"
  by (induction xs) auto

lemma params_finite_Sequential:
  "params_finite h (Sequential ms) = list_all (params_finite h) ms"
  by (simp add: params_finite_def [abs_def] list_all_concat_map)

lemma call_finite:
  "call ar al h m x = Inr y \<Longrightarrow> params_finite h m \<Longrightarrow> tensor_finite x \<Longrightarrow> finite_arith ar
     \<Longrightarrow> tensor_finite y"
  "call_seq ar al h ms x = Inr y \<Longrightarrow> list_all (params_finite h) ms \<Longrightarrow> tensor_finite x
     \<Longrightarrow> finite_arith ar \<Longrightarrow> tensor_finite y"
proof (induction ar al h m x and ar al h ms x arbitrary: y and y rule: call_call_seq.induct)
  case (1 ar al s cin cout k stride pad w b x)
  from "1.prems"(1) obtain wt bt x4 y4 where t: "tensors s w = Some (T4 wt)" "tensors s b = Some (T1 bt)"
    "x = T4 x4" "conv2d ar cin cout k stride pad wt bt x4 = Inr y4" "y = T4 y4"
    by (auto split: option.splits tensor.splits sum.splits simp: map_sum_def)
  have "list_all (list_all (list_all (list_all is_fin))) wt" "list_all is_fin bt"
    using "1.prems"(2) t(1,2) by (simp_all add: params_finite_def)
  then show ?case using conv2d_finite [OF t(4)] "1.prems"(3,4) t(3,5) by simp
next
  case (2 ar al s x)
  then show ?case using relu_finite by auto
next
  case (3 ar al s fin fout w b x)
  from "3.prems"(1) obtain wt bt where t: "tensors s w = Some (T2 wt)" "tensors s b = Some (T1 bt)"
    "linear ar fin fout wt bt x = Inr y"
    by (auto split: option.splits tensor.splits)
  have "list_all (list_all is_fin) wt" "list_all is_fin bt"
    using "3.prems"(2) t(1,2) by (simp_all add: params_finite_def)
  then show ?case using linear_finite [OF t(3)] "3.prems"(3,4) by simp
next
  case (4 ar al s x)
  then show ?case using flatten_finite by auto
next
  case (5 ar al s x)
  then show ?case using dense2conv_finite by auto
next
  case (6 ar al s ms x)
  then show ?case by (simp add: params_finite_Sequential)
next
  case (7 ar al s kids x)
  then show ?case by simp
next
  case (8 ar al s x)
  then show ?case by simp
next
  case (9 ar al s m ms x)
  from "9.prems"(1) obtain z where z: "call ar al s m x = Inr z" "call_seq ar al s ms z = Inr y"
    by (auto simp: ebind_def split: sum.splits)
  have "tensor_finite z" using "9.IH"(1) [OF z(1)] "9.prems"(2,3,4) by simp
  then show ?case using "9.IH"(2) [OF z(2)] "9.prems"(2,4) by simp
qed

lemma init_params_finite:
  assumes heap: "snd r = fold (reinit draw) (shaped_parameters (fst r)) s4"
    and d: "distinct (map fst (shaped_parameters (fst r)))"
    and dr: "\<forall>n sh. tensor_finite (draw n sh)"
  shows "params_finite (snd r) (fst r)"
proof -
  have "case tensors (snd r) (fst p) of None \<Rightarrow> False | Some t \<Rightarrow> tensor_finite t"
    if p: "p \<in> set (shaped_parameters (fst r))" for p
  proof -
    obtain i where i: "i < length (shaped_parameters (fst r))" "p = shaped_parameters (fst r) ! i"
      using p by (auto simp: in_set_conv_nth)
    have "tensors (snd r) (fst p) = Some (draw (draws s4 + i) (snd p))"
      using init_lookup [OF heap d i(1)] i(2) by simp
    then show ?thesis using dr by simp
  qed
  then show ?thesis by (simp add: params_finite_def list_all_iff)
qed

lemma tensor_finite_fill: "is_fin v \<Longrightarrow> tensor_finite (fill v sh)"
  by (induction v sh rule: fill.induct) (simp_all add: list_all_iff)

lemma biased_draw_finite:
  "list_all is_fin bias \<Longrightarrow> tensor_finite (biased_draw bias n sh)"
  by (simp add: biased_draw_def tensor_finite_fill)

lemma biased_draw_shapes:
  "length sh = 1 \<or> length sh = 2 \<or> length sh = 4 \<Longrightarrow> has_shape sh (biased_draw bias n sh)"
  by (simp add: biased_draw_def has_shape_fill)

lemma params_finite_Net:
  "params_finite h (Net kids) = list_all (\<lambda>kid. params_finite h (snd kid)) kids"
  by (simp add: params_finite_def [abs_def] list_all_concat_map)

lemma zip_with_zero_weights:
  "list_all is_fin r \<Longrightarrow> rd 0 = Fin 0 \<Longrightarrow>
     zip_with (fmul rd) r (replicate (length r) (Fin 0)) = replicate (length r) (Fin 0)"
proof (induction r)
  case Nil
  then show ?case by (simp add: zip_with_def)
next
  case (Cons a r)
  then obtain x where "a = Fin x" by (cases a) auto
  then show ?case using Cons by (simp add: zip_with_def)
qed

lemma summed_zeros: "zero_arith ar \<Longrightarrow> \<forall>x \<in> set xs. x = Fin 0 \<Longrightarrow> summed ar xs = Fin 0"
  by (simp add: zero_arith_def)

lemma fadd_zero_left: "is_fin b \<Longrightarrow> value_of ar b \<Longrightarrow> fadd (rounded ar) (Fin 0) b = b"
  by (cases b) simp_all

lemma fmul_zero_left: "is_fin b \<Longrightarrow> rd 0 = Fin 0 \<Longrightarrow> fmul rd (Fin 0) b = Fin 0"
  by (cases b) simp_all

lemma linear_row_zero_weights:
  assumes r: "list_all is_fin r" "length r = fin" and bt: "list_all is_fin bt" "length bt = fout"
    and za: "zero_arith ar" and vb: "list_all (value_of ar) bt"
  shows "linear_row ar (replicate fout (replicate fin (Fin 0))) bt r = bt"
proof (rule nth_equalityI)
  show "length (linear_row ar (replicate fout (replicate fin (Fin 0))) bt r) = length bt"
    using bt(2) by (simp add: linear_row_def)
next
  fix i assume "i < length (linear_row ar (replicate fout (replicate fin (Fin 0))) bt r)"
  then have i: "i < fout" by (simp add: linear_row_def)
  have "zip_with (fmul (rounded ar)) r (replicate fin (Fin 0)) = replicate fin (Fin 0)"
    using zip_with_zero_weights [OF r(1)] r(2) za by (simp add: zero_arith_def)
  moreover have "is_fin (bt ! i)" "value_of ar (bt ! i)"
    using bt vb i by (simp_all add: list_all_length)
  ultimately show "linear_row ar (replicate fout (replicate fin (Fin 0))) bt r ! i = bt ! i"
    using i za by (simp add: linear_row_def summed_zeros fadd_zero_left)
qed

lemma call_Linear_zero_weights:
  assumes w: "tensors h w = Some (T2 (replicate fout (replicate fin (Fin 0))))"
    and b: "tensors h b = Some (T1 bt)" "list_all is_fin bt"
    and c: "call ar al h (Linear fin fout w b) f = Inr (T2 raw)"
    and f: "tensor_finite f"
    and za: "zero_arith ar" and vb: "list_all (value_of ar) bt"
  shows "\<forall>r \<in> set raw. r = bt"
proof -
  have l: "linear ar fin fout (replicate fout (replicate fin (Fin 0))) bt f = Inr (T2 raw)"
    using c w b(1) by simp
  then obtain fx where fx: "f = T2 fx" by (cases f) (auto split: if_splits)
  from l fx have len: "length bt = fout" "list_all (\<lambda>r. length r = fin) fx"
    and raw: "raw = map (linear_row ar (replicate fout (replicate fin (Fin 0))) bt) fx"
    by (auto split: if_splits)
  have "linear_row ar (replicate fout (replicate fin (Fin 0))) bt r = bt" if "r \<in> set fx" for r
    using that f fx len(2)
    by (intro linear_row_zero_weights b(2) len(1) za vb) (simp_all add: list_all_iff)
  then show ?thesis unfolding raw by auto
qed

lemma ebind_call_seq_nil: "ebind r (call_seq ar al h []) = r"
  by (cases r) simp_all

lemma actor_categorical_with_zero_head:
  assumes self: "self = fst (ActorNet_init al draw (fst (module_level al draw0 s0)) s)"
    and ok: "params_ok h self" and fin: "params_finite h self"
    and pos: "0 < FEAT2DSIZE al"
    and xm: "obs ''minimap'' = Some (T4 xm)" "is_shape4 1 7 (FEAT2DSIZE al) (FEAT2DSIZE al) xm"
    and xs: "obs ''screen'' = Some (T4 xs)" "is_shape4 1 17 (FEAT2DSIZE al) (FEAT2DSIZE al) xs"
    and xn: "obs ''nonspatial'' = Some (T2 xn)" "is_shape2 1 (NUM_ACTIONS al) xn"
    and fx: "tensor_finite (T4 xm)" "tensor_finite (T4 xs)" "tensor_finite (T2 xn)"
    and w: "tensors h (next_addr s + 4) =
              Some (T2 (replicate (NUM_ACTIONS al) (replicate (FEAT2DSIZE al * FEAT2DSIZE al) (Fin 0))))"
    and b: "tensors h (next_addr s + 5) = Some (T1 bt)" "list_all is_fin bt"
    and fa: "finite_arith ar" and za: "zero_arith ar" and vb: "list_all (value_of ar) bt"
  shows "\<exists>state_h. ActorNet_forward_raw ar al h self obs = Inr (T4 state_h, T2 [bt])
         \<and> ActorNet_forward_categorical ar al h self obs valid_actions =
           ebind (mask_unavailable_actions ar (T2 [bt]) valid_actions)
             (\<lambda>pol_categorical. Inr (T4 state_h, pol_categorical))"
proof -
  let ?F = "FEAT2DSIZE al"
  let ?g = "fst (module_level al draw0 s0)"
  let ?lh = "Sequential [Conv2d 96 64 3 1 1 (next_addr s) (next_addr s + 1), ReLU]"
  let ?conv = "Conv2d 64 1 1 1 0 (next_addr s + 2) (next_addr s + 3)"
  let ?lin = "Linear (?F * ?F) (NUM_ACTIONS al) (next_addr s + 4) (next_addr s + 5)"
  let ?la = "Sequential [?conv, ReLU, Flatten, ?lin]"
  have B: "0 < (1::nat)" by simp
  from ActorNet_forward_categorical_trace [OF self ok B pos xm xs xn, where ar = ar and valid_actions = valid_actions]
  obtain m sc n ch state_h raw where
      m: "call ar al h (conv_minimap ?g) (T4 xm) = Inr (T4 m)"
    and sc: "call ar al h (conv_screen ?g) (T4 xs) = Inr (T4 sc)"
    and n: "call ar al h (dense_nonspatial ?g) (T2 xn) = Inr (T4 n)"
    and ch: "is_shape4 1 96 ?F ?F ch" "\<forall>b < 1. ch ! b = m ! b @ sc ! b @ n ! b"
    and sh: "call ar al h ?lh (T4 ch) = Inr (T4 state_h)"
    and raw: "call ar al h ?la (T4 state_h) = Inr (T2 raw)" "is_shape2 1 (NUM_ACTIONS al) raw"
    and cat: "ActorNet_forward_categorical ar al h self obs valid_actions =
         ebind (mask_unavailable_actions ar (T2 raw) valid_actions)
           (\<lambda>pol_categorical. Inr (T4 state_h, pol_categorical))"
    and fr: "ActorNet_forward_raw ar al h self obs = Inr (T4 state_h, T2 raw)"
    by (elim exE conjE) (rule that; assumption)
  have kids: "params_finite h (conv_minimap ?g)" "params_finite h (conv_screen ?g)"
    "params_finite h (dense_nonspatial ?g)" "params_finite h ?lh" "params_finite h ?la"
    using fin unfolding self ActorNet_init_self params_finite_Net by simp_all
  have oks: "params_ok h (conv_minimap ?g)" "params_ok h (conv_screen ?g)"
    "params_ok h (dense_nonspatial ?g)"
    using ok unfolding self ActorNet_init_self by simp_all
  have fm: "tensor_finite (T4 m)" using call_finite(1) [OF m kids(1) fx(1) fa] .
  have fsc: "tensor_finite (T4 sc)" using call_finite(1) [OF sc kids(2) fx(2) fa] .
  have fn: "tensor_finite (T4 n)" using call_finite(1) [OF n kids(3) fx(3) fa] .
  have "length ch = 1" using ch(1) by (simp add: is_shape4_def)
  then have ch1: "ch = [ch ! 0]" by (cases ch) auto
  have c0: "ch ! 0 = m ! 0 @ sc ! 0 @ n ! 0" using ch(2) by simp
  have lm: "length m = 1"
  proof -
    have "\<exists>y. call ar al h (conv_minimap ?g) (T4 xm) = Inr (T4 y) \<and> is_shape4 1 32 ?F ?F y"
      using oks(1) xm(2) pos unfolding module_level_globals globals.simps
      by (intro call_conv_stack) simp_all
    then show ?thesis using m by (auto simp: is_shape4_def)
  qed
  have lsc: "length sc = 1"
  proof -
    have "\<exists>y. call ar al h (conv_screen ?g) (T4 xs) = Inr (T4 y) \<and> is_shape4 1 32 ?F ?F y"
      using oks(2) xs(2) pos unfolding module_level_globals globals.simps
      by (intro call_conv_stack) simp_all
    then show ?thesis using sc by (auto simp: is_shape4_def)
  qed
  have ln: "length n = 1"
  proof -
    have "\<exists>y. call ar al h (dense_nonspatial ?g) (T2 xn) = Inr (T4 y) \<and> is_shape4 1 32 ?F ?F y"
      using oks(3) xn(2) unfolding module_level_globals globals.simps
      by (intro call_dense_stack) simp_all
    then show ?thesis using n by (auto simp: is_shape4_def)
  qed
  have "list_all (list_all (list_all is_fin)) (m ! 0)" "list_all (list_all (list_all is_fin)) (sc ! 0)"
    "list_all (list_all (list_all is_fin)) (n ! 0)"
    using fm fsc fn lm lsc ln by (simp_all add: list_all_length)
  then have "list_all (list_all (list_all is_fin)) (ch ! 0)" unfolding c0 by simp
  then have fch: "tensor_finite (T4 ch)" by (subst ch1) simp
  have fsh: "tensor_finite (T4 state_h)" using call_finite(1) [OF sh kids(4) fch fa] .
  have "call_seq ar al h [?conv, ReLU, Flatten, ?lin] (T4 state_h) = Inr (T2 raw)"
    using raw(1) by (simp only: call.simps(6))
  then have seq: "ebind (call ar al h ?conv (T4 state_h)) (call_seq ar al h [ReLU, Flatten, ?lin]) = Inr (T2 raw)"
    by (simp only: call_seq.simps(2))
  obtain y1 where y1: "call ar al h ?conv (T4 state_h) = Inr y1"
    and rest: "call_seq ar al h [ReLU, Flatten, ?lin] y1 = Inr (T2 raw)"
  proof (cases "call ar al h ?conv (T4 state_h)")
    case (Inl e)
    with seq have False by (simp only: ebind_Inl sum.distinct)
    then show ?thesis ..
  next
    case (Inr y)
    with seq have "call_seq ar al h [ReLU, Flatten, ?lin] y = Inr (T2 raw)" by (simp only: ebind_Inr)
    with Inr show ?thesis by (rule that)
  qed
  have rest2: "ebind (flatten (relu y1)) (call_seq ar al h [?lin]) = Inr (T2 raw)"
    using rest by (simp only: call_seq.simps(2) call.simps(2) call.simps(4) ebind_Inr)
  obtain f where f: "flatten (relu y1) = Inr f" and lin: "call ar al h ?lin f = Inr (T2 raw)"
  proof (cases "flatten (relu y1)")
    case (Inl e)
    with rest2 have False by (simp only: ebind_Inl sum.distinct)
    then show ?thesis ..
  next
    case (Inr z)
    with rest2 have "call_seq ar al h [?lin] z = Inr (T2 raw)" by (simp only: ebind_Inr)
    then have "call ar al h ?lin z = Inr (T2 raw)"
      by (simp only: call_seq.simps(2) ebind_call_seq_nil)
    with Inr show ?thesis by (rule that)
  qed
  have kc: "params_finite h ?conv" using kids(5) by (simp add: params_finite_Sequential)
  have ff: "tensor_finite f"
    using flatten_finite [OF f relu_finite [OF call_finite(1) [OF y1 kc fsh fa]]] .
  have "\<forall>r \<in> set raw. r = bt"
    using w b lin ff za vb by (rule call_Linear_zero_weights)
  moreover have "length raw = 1" using raw(2) by (simp add: is_shape2_def)
  ultimately have "raw = [bt]" by (cases raw) auto
  then show ?thesis using cat fr by blast
qed


lemma biased_actor_facts:
  assumes bl: "length bias = NUM_ACTIONS al" and bf: "list_all is_fin bias"
  shows "tensors (snd (ActorNet_init al (biased_draw bias)
                  (fst (module_level al (biased_draw bias) empty_heap))
                  (snd (module_level al (biased_draw bias) empty_heap))))
     (next_addr (snd (module_level al (biased_draw bias) empty_heap)) + 4)
     = Some (T2 (replicate (NUM_ACTIONS al) (replicate (FEAT2DSIZE al * FEAT2DSIZE al) (Fin 0))))"
  and "tensors (snd (ActorNet_init al (biased_draw bias)
                  (fst (module_level al (biased_draw bias) empty_heap))
                  (snd (module_level al (biased_draw bias) empty_heap))))
     (next_addr (snd (module_level al (biased_draw bias) empty_heap)) + 5)
     = Some (T1 bias)"
  and "params_ok
     (snd (ActorNet_init al (biased_draw bias)
             (fst (module_level al (biased_draw bias) empty_heap))
             (snd (module_level al (biased_draw bias) empty_heap))))
     (fst (ActorNet_init al (biased_draw bias)
             (fst (module_level al (biased_draw bias) empty_heap))
             (snd (module_level al (biased_draw bias) empty_heap))))"
  and "params_finite
     (snd (ActorNet_init al (biased_draw bias)
             (fst (module_level al (biased_draw bias) empty_heap))
             (snd (module_level al (biased_draw bias) empty_heap))))
     (fst (ActorNet_init al (biased_draw bias)
             (fst (module_level al (biased_draw bias) empty_heap))
             (snd (module_level al (biased_draw bias) empty_heap))))"
proof -
  define s0 where "s0 = snd (module_level al (biased_draw bias) empty_heap)"
  define r where "r = ActorNet_init al (biased_draw bias)
                  (fst (module_level al (biased_draw bias) empty_heap)) s0"
  have le: "next_addr empty_heap + 10 \<le> next_addr s0"
    unfolding s0_def by (simp add: loaded_counters empty_heap_next)
  obtain s4 where s4: "snd r = fold (reinit (biased_draw bias)) (shaped_parameters (fst r)) s4"
    unfolding r_def using ActorNet_init_heap by blast
  have dist: "distinct (map fst (shaped_parameters (fst r)))"
    unfolding r_def using le by (rule ActorNet_parameters_distinct)
  have ps: "shaped_parameters (fst r) =
     encoder_parameters (fst (module_level al (biased_draw bias) empty_heap))
     @ [(next_addr s0, [64, 96, 3, 3]), (next_addr s0 + 1, [64]),
        (next_addr s0 + 2, [1, 64, 1, 1]), (next_addr s0 + 3, [1]),
        (next_addr s0 + 4, [NUM_ACTIONS al, FEAT2DSIZE al * FEAT2DSIZE al]),
        (next_addr s0 + 5, [NUM_ACTIONS al]),
        (next_addr s0 + 6, [1, 64, 1, 1]), (next_addr s0 + 7, [1]),
        (next_addr s0 + 8, [1, 64, 1, 1]), (next_addr s0 + 9, [1])]"
    unfolding r_def by (rule ActorNet_parameters_encoders)
  have len: "length (shaped_parameters (fst r)) = 20"
    unfolding r_def by (rule ActorNet_parameters_length)
  have el: "length (encoder_parameters (fst (module_level al (biased_draw bias) empty_heap))) = 10"
    by (simp add: encoder_parameters_loaded)
  have p14: "shaped_parameters (fst r) ! 14 =
      (next_addr s0 + 4, [NUM_ACTIONS al, FEAT2DSIZE al * FEAT2DSIZE al])"
    unfolding ps by (simp add: nth_append el)
  have p15: "shaped_parameters (fst r) ! 15 = (next_addr s0 + 5, [NUM_ACTIONS al])"
    unfolding ps by (simp add: nth_append el)
  have i14: "14 < length (shaped_parameters (fst r))" and i15: "15 < length (shaped_parameters (fst r))"
    unfolding len by simp_all
  have "tensors (snd r) (next_addr s0 + 4)
     = Some (T2 (replicate (NUM_ACTIONS al) (replicate (FEAT2DSIZE al * FEAT2DSIZE al) (Fin 0))))"
    using init_lookup [OF s4 dist i14] unfolding p14 by (simp add: biased_draw_def)
  then show "tensors (snd (ActorNet_init al (biased_draw bias)
                  (fst (module_level al (biased_draw bias) empty_heap))
                  (snd (module_level al (biased_draw bias) empty_heap))))
     (next_addr (snd (module_level al (biased_draw bias) empty_heap)) + 4)
     = Some (T2 (replicate (NUM_ACTIONS al) (replicate (FEAT2DSIZE al * FEAT2DSIZE al) (Fin 0))))"
    unfolding r_def s0_def .
  have "tensors (snd r) (next_addr s0 + 5) = Some (T1 bias)"
    using init_lookup [OF s4 dist i15] unfolding p15 by (simp add: biased_draw_def bl)
  then show "tensors (snd (ActorNet_init al (biased_draw bias)
                  (fst (module_level al (biased_draw bias) empty_heap))
                  (snd (module_level al (biased_draw bias) empty_heap))))
     (next_addr (snd (module_level al (biased_draw bias) empty_heap)) + 5)
     = Some (T1 bias)"
    unfolding r_def s0_def .
  have sh: "\<forall>n sh. length sh = 1 \<or> length sh = 2 \<or> length sh = 4 \<longrightarrow> has_shape sh (biased_draw bias n sh)"
    using biased_draw_shapes by blast
  have "params_ok (snd r) (fst r)"
    unfolding r_def using le sh by (rule ActorNet_init_params_ok)
  then show "params_ok
     (snd (ActorNet_init al (biased_draw bias)
             (fst (module_level al (biased_draw bias) empty_heap))
             (snd (module_level al (biased_draw bias) empty_heap))))
     (fst (ActorNet_init al (biased_draw bias)
             (fst (module_level al (biased_draw bias) empty_heap))
             (snd (module_level al (biased_draw bias) empty_heap))))"
    unfolding r_def s0_def .
  have fin: "\<forall>n sh. tensor_finite (biased_draw bias n sh)"
    using biased_draw_finite [OF bf] by blast
  have "params_finite (snd r) (fst r)"
    using s4 dist fin by (rule init_params_finite)
  then show "params_finite
     (snd (ActorNet_init al (biased_draw bias)
             (fst (module_level al (biased_draw bias) empty_heap))
             (snd (module_level al (biased_draw bias) empty_heap))))
     (fst (ActorNet_init al (biased_draw bias)
             (fst (module_level al (biased_draw bias) empty_heap))
             (snd (module_level al (biased_draw bias) empty_heap))))"
    unfolding r_def s0_def .
qed

text \<open>
  Every finite vector of values of the arithmetic is a raw categorical output, in an
  arithmetic without overflow and with zero: of the ActorNet constructed with zero
  weights and the vector as the bias of the dense layer of the categorical head, on a
  finite observation of the fixed shapes with batch size 1.
\<close>

lemma zero_head_actor_raw:
  assumes bl: "length bias = NUM_ACTIONS al" and bf: "list_all is_fin bias"
    and pos: "0 < FEAT2DSIZE al"
    and xm: "obs ''minimap'' = Some (T4 xm)" "is_shape4 1 7 (FEAT2DSIZE al) (FEAT2DSIZE al) xm"
    and xs: "obs ''screen'' = Some (T4 xs)" "is_shape4 1 17 (FEAT2DSIZE al) (FEAT2DSIZE al) xs"
    and xn: "obs ''nonspatial'' = Some (T2 xn)" "is_shape2 1 (NUM_ACTIONS al) xn"
    and fx: "tensor_finite (T4 xm)" "tensor_finite (T4 xs)" "tensor_finite (T2 xn)"
    and fa: "finite_arith ar" and za: "zero_arith ar" and vb: "list_all (value_of ar) bias"
  shows "\<exists>state_h. ActorNet_forward_raw ar al
        (snd (fst (actor_then_critic al (biased_draw bias))))
        (fst (fst (actor_then_critic al (biased_draw bias))))
        obs = Inr (T4 state_h, T2 [bias])"
proof -
  note facts = biased_actor_facts [OF bl bf]
  from actor_categorical_with_zero_head
    [OF refl facts(3) facts(4) pos xm xs xn fx facts(1) facts(2) bf fa za vb]
  show ?thesis unfolding actor_then_critic_unfold fst_conv by blast
qed

lemma zero_head_actor_categorical:
  assumes bl: "length bias = NUM_ACTIONS al" and bf: "list_all is_fin bias"
    and pos: "0 < FEAT2DSIZE al"
    and xm: "obs ''minimap'' = Some (T4 xm)" "is_shape4 1 7 (FEAT2DSIZE al) (FEAT2DSIZE al) xm"
    and xs: "obs ''screen'' = Some (T4 xs)" "is_shape4 1 17 (FEAT2DSIZE al) (FEAT2DSIZE al) xs"
    and xn: "obs ''nonspatial'' = Some (T2 xn)" "is_shape2 1 (NUM_ACTIONS al) xn"
    and fx: "tensor_finite (T4 xm)" "tensor_finite (T4 xs)" "tensor_finite (T2 xn)"
    and fa: "finite_arith ar" and za: "zero_arith ar" and vb: "list_all (value_of ar) bias"
  shows "map_sum id snd
     (ActorNet_forward_categorical ar al
        (snd (fst (actor_then_critic al (biased_draw bias))))
        (fst (fst (actor_then_critic al (biased_draw bias))))
        obs valid_actions)
     = mask_unavailable_actions ar (T2 [bias]) valid_actions"
proof -
  obtain state_h where "ActorNet_forward_raw ar al
        (snd (fst (actor_then_critic al (biased_draw bias))))
        (fst (fst (actor_then_critic al (biased_draw bias))))
        obs = Inr (T4 state_h, T2 [bias])"
    using zero_head_actor_raw [OF assms] by (elim exE) (rule that)
  then show ?thesis
    unfolding ActorNet_forward_categorical_def
    by (cases "mask_unavailable_actions ar (T2 [bias]) valid_actions")
      (simp_all only: ebind_Inl ebind_Inr map_sum.simps snd_conv id_apply prod.case)
qed

lemma example_actor_categorical:
  assumes "length bias = 2" and "list_all is_fin bias"
    and "finite_arith ar" and "zero_arith ar" and "list_all (value_of ar) bias"
  shows "map_sum id snd
     (ActorNet_forward_categorical ar example_arglist
        (snd (fst (actor_then_critic example_arglist (biased_draw bias))))
        (fst (fst (actor_then_critic example_arglist (biased_draw bias))))
        example_obs valid_actions)
     = mask_unavailable_actions ar (T2 [bias]) valid_actions"
proof -
  have bl: "length bias = NUM_ACTIONS example_arglist"
    using assms(1) by (simp add: example_arglist_fields)
  have F: "0 < FEAT2DSIZE example_arglist" by (simp add: example_arglist_fields)
  have obs: "example_obs ''minimap'' = Some (T4 (replicate 1 (replicate 7 (replicate 1 (replicate 1 (Fin 0))))))"
    "example_obs ''screen'' = Some (T4 (replicate 1 (replicate 17 (replicate 1 (replicate 1 (Fin 0))))))"
    "example_obs ''nonspatial'' = Some (T2 (replicate 1 (replicate 2 (Fin 0))))"
    by (simp_all add: example_obs_def del: replicate.simps replicate_Suc)
  have sh: "is_shape4 1 7 (FEAT2DSIZE example_arglist) (FEAT2DSIZE example_arglist)
              (replicate 1 (replicate 7 (replicate 1 (replicate 1 (Fin 0)))))"
    "is_shape4 1 17 (FEAT2DSIZE example_arglist) (FEAT2DSIZE example_arglist)
              (replicate 1 (replicate 17 (replicate 1 (replicate 1 (Fin 0)))))"
    "is_shape2 1 (NUM_ACTIONS example_arglist) (replicate 1 (replicate 2 (Fin 0)))"
    unfolding example_arglist_fields by (rule is_shape4_fill is_shape2_fill)+
  have fx: "tensor_finite (T4 (replicate 1 (replicate 7 (replicate 1 (replicate 1 (Fin 0))))))"
    "tensor_finite (T4 (replicate 1 (replicate 17 (replicate 1 (replicate 1 (Fin 0))))))"
    "tensor_finite (T2 (replicate 1 (replicate 2 (Fin 0))))"
    by (simp_all add: list_all_iff)
  show ?thesis
    using bl assms(2) F obs(1) sh(1) obs(2) sh(2) obs(3) sh(3) fx assms(3) assms(4) assms(5)
    by (rule zero_head_actor_categorical)
qed

lemma example_actor_raw:
  assumes "length bias = 2" and "list_all is_fin bias"
    and "finite_arith ar" and "zero_arith ar" and "list_all (value_of ar) bias"
  shows "\<exists>state_h. ActorNet_forward_raw ar example_arglist
        (snd (fst (actor_then_critic example_arglist (biased_draw bias))))
        (fst (fst (actor_then_critic example_arglist (biased_draw bias))))
        example_obs = Inr (T4 state_h, T2 [bias])"
proof -
  have bl: "length bias = NUM_ACTIONS example_arglist"
    using assms(1) by (simp add: example_arglist_fields)
  have F: "0 < FEAT2DSIZE example_arglist" by (simp add: example_arglist_fields)
  have obs: "example_obs ''minimap'' = Some (T4 (replicate 1 (replicate 7 (replicate 1 (replicate 1 (Fin 0))))))"
    "example_obs ''screen'' = Some (T4 (replicate 1 (replicate 17 (replicate 1 (replicate 1 (Fin 0))))))"
    "example_obs ''nonspatial'' = Some (T2 (replicate 1 (replicate 2 (Fin 0))))"
    by (simp_all add: example_obs_def del: replicate.simps replicate_Suc)
  have sh: "is_shape4 1 7 (FEAT2DSIZE example_arglist) (FEAT2DSIZE example_arglist)
              (replicate 1 (replicate 7 (replicate 1 (replicate 1 (Fin 0)))))"
    "is_shape4 1 17 (FEAT2DSIZE example_arglist) (FEAT2DSIZE example_arglist)
              (replicate 1 (replicate 17 (replicate 1 (replicate 1 (Fin 0)))))"
    "is_shape2 1 (NUM_ACTIONS example_arglist) (replicate 1 (replicate 2 (Fin 0)))"
    unfolding example_arglist_fields by (rule is_shape4_fill is_shape2_fill)+
  have fx: "tensor_finite (T4 (replicate 1 (replicate 7 (replicate 1 (replicate 1 (Fin 0))))))"
    "tensor_finite (T4 (replicate 1 (replicate 17 (replicate 1 (replicate 1 (Fin 0))))))"
    "tensor_finite (T2 (replicate 1 (replicate 2 (Fin 0))))"
    by (simp_all add: list_all_iff)
  show ?thesis
    using bl assms(2) F obs(1) sh(1) obs(2) sh(2) obs(3) sh(3) fx assms(3) assms(4) assms(5)
    by (rule zero_head_actor_raw)
qed

section \<open>Networks with zero weights\<close>

text \<open>
  With zero weights in its last convolution or dense layer, an encoder returns the bias
  of that layer in every cell, whatever finite input it is given.
\<close>

lemma conv_at_zero_kernel:
  assumes e: "list_all (list_all (list_all is_fin)) e" and b: "is_fin bias"
    and za: "zero_arith ar" and vb: "value_of ar bias"
  shows "conv_at ar k stride pad (replicate (length e) (replicate k (replicate k (Fin 0)))) bias e i j = bias"
proof -
  have "fmul (rounded ar) (replicate (length e) (replicate k (replicate k (Fin 0))) ! c ! di ! dj)
          (padded_at pad (e ! c) (i * stride + di) (j * stride + dj)) = Fin 0"
    if "c < length e" "di < k" "dj < k" for c di dj
  proof -
    have "is_fin (padded_at pad (e ! c) (i * stride + di) (j * stride + dj))"
      using e that(1) by (intro is_fin_padded_at) (simp add: list_all_length)
    then show ?thesis using that za by (simp add: fmul_zero_left zero_arith_def)
  qed
  then have "summed ar [fmul (rounded ar) (replicate (length e) (replicate k (replicate k (Fin 0))) ! c ! di ! dj)
          (padded_at pad (e ! c) (i * stride + di) (j * stride + dj)).
        c \<leftarrow> [0..<length e], di \<leftarrow> [0..<k], dj \<leftarrow> [0..<k]] = Fin 0"
    by (intro summed_zeros za) auto
  then show ?thesis unfolding conv_at_def using b vb by (simp add: fadd_zero_left)
qed

lemma const_rows: "length xs = n \<Longrightarrow> \<forall>x \<in> set xs. x = c \<Longrightarrow> xs = replicate n c"
  by (rule replicate_eqI) auto

lemma conv2d_example_zero_kernel:
  assumes fe: "list_all (list_all (list_all is_fin)) e" and le: "length e = cin"
    and za: "zero_arith ar" and vv: "rounded ar v = Fin v"
  shows "conv2d_example ar k stride pad
           (replicate cout (replicate cin (replicate k (replicate k (Fin 0)))))
           (replicate cout (Fin v)) Ho Wo e
         = replicate cout (replicate Ho (replicate Wo (Fin v)))"
proof -
  have "conv_at ar k stride pad
          (replicate cout (replicate cin (replicate k (replicate k (Fin 0)))) ! oc)
          (replicate cout (Fin v) ! oc) e i j = Fin v" if "oc < cout" for oc i j
    using that conv_at_zero_kernel [OF fe _ za, of "Fin v" k stride pad i j] le vv by simp
  then have "conv2d_example ar k stride pad
           (replicate cout (replicate cin (replicate k (replicate k (Fin 0)))))
           (replicate cout (Fin v)) Ho Wo e
      = map (\<lambda>oc. map (\<lambda>i. map (\<lambda>j. Fin v) [0..<Wo]) [0..<Ho]) [0..<cout]"
    unfolding conv2d_example_def by simp
  then show ?thesis by (simp add: map_replicate_const)
qed

lemma conv2d_zero_kernel:
  assumes r: "conv2d ar cin cout k stride pad
                (replicate cout (replicate cin (replicate k (replicate k (Fin 0)))))
                (replicate cout (Fin v)) x = Inr y"
    and x: "list_all (list_all (list_all (list_all is_fin))) x"
    and sh: "is_shape4 B cout H W y"
    and za: "zero_arith ar" and vv: "rounded ar v = Fin v"
  shows "y = replicate B (replicate cout (replicate H (replicate W (Fin v))))"
proof -
  let ?wt = "replicate cout (replicate cin (replicate k (replicate k (Fin 0))))"
  let ?bt = "replicate cout (Fin v)"
  define Ho where "Ho = (height x + 2 * pad - k) div stride + 1"
  define Wo where "Wo = (width x + 2 * pad - k) div stride + 1"
  from r have c: "is_shape4 (length x) cin (height x) (width x) x"
    and y: "y = map (conv2d_example ar k stride pad ?wt ?bt Ho Wo) x"
    by (auto simp: conv2d_def Let_def Ho_def Wo_def split: if_splits)
  have ex: "conv2d_example ar k stride pad ?wt ?bt Ho Wo e
      = replicate cout (replicate Ho (replicate Wo (Fin v)))" if "e \<in> set x" for e
  proof (rule conv2d_example_zero_kernel)
    show "length e = cin" using c that by (simp add: is_shape4_def list_all_iff)
    show "list_all (list_all (list_all is_fin)) e" using x that by (simp add: list_all_iff)
    show "zero_arith ar" by (rule za)
    show "rounded ar v = Fin v" by (rule vv)
  qed
  have all: "\<forall>e \<in> set y. e = replicate cout (replicate Ho (replicate Wo (Fin v)))"
    unfolding y using ex by auto
  have len: "length y = B" using sh by (simp add: is_shape4_def)
  have "e = replicate cout (replicate H (replicate W (Fin v)))" if "e \<in> set y" for e
  proof -
    have e: "e = replicate cout (replicate Ho (replicate Wo (Fin v)))"
      using all that by blast
    have s: "list_all (is_shape2 H W) e"
      using sh that by (simp add: is_shape4_def list_all_iff)
    show ?thesis
    proof (cases "cout = 0")
      case True
      then show ?thesis using e by simp
    next
      case False
      then have "is_shape2 H W (replicate Ho (replicate Wo (Fin v)))"
        using s unfolding e by (simp add: list_all_iff)
      then have h: "Ho = H" and w: "H = 0 \<or> Wo = W"
        by (auto simp: is_shape2_def list_all_iff)
      show ?thesis
      proof (cases "H = 0")
        case True
        then show ?thesis using e h by simp
      next
        case False
        then show ?thesis using e h w by simp
      qed
    qed
  qed
  then show ?thesis using len by (intro const_rows) auto
qed

lemma call_conv_stack_const:
  assumes ok: "params_ok s (Sequential [Conv2d cin 16 5 1 2 w1 b1, ReLU, Conv2d 16 32 3 1 1 w2 b2, ReLU])"
    and fin: "params_finite s (Conv2d cin 16 5 1 2 w1 b1)"
    and x: "is_shape4 B cin H W x" and pos: "0 < B" "0 < cin" "0 < H" "0 < W"
    and fx: "tensor_finite (T4 x)"
    and w2: "tensors s w2 = Some (T4 (replicate 32 (replicate 16 (replicate 3 (replicate 3 (Fin 0))))))"
    and b2: "tensors s b2 = Some (T1 (replicate 32 (Fin v)))" and v: "0 \<le> v"
    and fa: "finite_arith ar" and za: "zero_arith ar" and vv: "rounded ar v = Fin v"
  shows "call ar al s (Sequential [Conv2d cin 16 5 1 2 w1 b1, ReLU, Conv2d 16 32 3 1 1 w2 b2, ReLU]) (T4 x)
              = Inr (T4 (replicate B (replicate 32 (replicate H (replicate W (Fin v))))))"
proof -
  have ok1: "params_ok s (Conv2d cin 16 5 1 2 w1 b1)" and ok2: "params_ok s (Conv2d 16 32 3 1 1 w2 b2)"
    using ok by simp_all
  obtain y1 where y1: "call ar al s (Conv2d cin 16 5 1 2 w1 b1) (T4 x) = Inr (T4 y1)" "is_shape4 B 16 H W y1"
    using call_Conv2d_same [OF ok1 _ x pos] by auto
  let ?r1 = "map (map (map (map frelu))) y1"
  have r1: "is_shape4 B 16 H W ?r1" using y1(2) by (rule relu_T4_shape)
  have fy1: "tensor_finite (T4 y1)" using call_finite(1) [OF y1(1) fin fx fa] .
  have fr1: "tensor_finite (relu (T4 y1))" using fy1 by (rule relu_finite)
  obtain y2 where y2: "call ar al s (Conv2d 16 32 3 1 1 w2 b2) (T4 ?r1) = Inr (T4 y2)" "is_shape4 B 32 H W y2"
    using call_Conv2d_same [OF ok2 _ r1 pos(1) _ pos(3,4)] by auto
  have "conv2d ar 16 32 3 1 1 (replicate 32 (replicate 16 (replicate 3 (replicate 3 (Fin 0)))))
          (replicate 32 (Fin v)) ?r1 = Inr y2"
    using y2(1) w2 b2 by (auto simp: map_sum_def split: sum.splits)
  then have c: "y2 = replicate B (replicate 32 (replicate H (replicate W (Fin v))))"
    using fr1 y2(2) za vv by (intro conv2d_zero_kernel) simp_all
  have "call ar al s (Sequential [Conv2d cin 16 5 1 2 w1 b1, ReLU, Conv2d 16 32 3 1 1 w2 b2, ReLU]) (T4 x)
      = Inr (T4 (map (map (map (map frelu))) y2))"
    using y1(1) y2(1) by (simp del: call.simps(1) add: call.simps(6))
  then show ?thesis unfolding c using v by (simp add: max_def)
qed

lemma call_dense_stack_const:
  assumes ok: "params_ok s (Sequential [Linear n 32 w b, ReLU, Dense2Conv])"
    and x: "is_shape2 B n x" and fx: "tensor_finite (T2 x)"
    and w: "tensors s w = Some (T2 (replicate 32 (replicate n (Fin 0))))"
    and b: "tensors s b = Some (T1 (replicate 32 (Fin v)))" and v: "0 \<le> v"
    and za: "zero_arith ar" and vv: "rounded ar v = Fin v"
  shows "call ar al s (Sequential [Linear n 32 w b, ReLU, Dense2Conv]) (T2 x) =
           Inr (T4 (replicate B (replicate 32
                      (replicate (FEAT2DSIZE al) (replicate (FEAT2DSIZE al) (Fin v))))))"
proof -
  have ok1: "params_ok s (Linear n 32 w b)" using ok by simp
  obtain y1 where y1: "call ar al s (Linear n 32 w b) (T2 x) = Inr (T2 y1)" "is_shape2 B 32 y1"
    using call_Linear_T2 [OF ok1 x] by auto
  have "\<forall>r \<in> set y1. r = replicate 32 (Fin v)"
    using w b _ y1(1) fx za by (rule call_Linear_zero_weights) (simp_all add: list_all_iff vv)
  moreover have "length y1 = B" using y1(2) by (simp add: is_shape2_def)
  ultimately have c: "y1 = replicate B (replicate 32 (Fin v))" by (intro const_rows) auto
  have "call ar al s (Sequential [Linear n 32 w b, ReLU, Dense2Conv]) (T2 x) =
      Inr (T4 (map (map (\<lambda>v. replicate (FEAT2DSIZE al) (replicate (FEAT2DSIZE al) v)))
                 (map (map frelu) y1)))"
    using y1(1) by (simp del: call.simps(3) add: call.simps(6))
  then show ?thesis unfolding c using v by (simp add: max_def)
qed

lemma bias_index_draw_shapes:
  "\<forall>n sh. length sh = 1 \<or> length sh = 2 \<or> length sh = 4 \<longrightarrow> has_shape sh (bias_index_draw n sh)"
  by (simp add: bias_index_draw_def has_shape_fill)

lemma bias_index_draw_finite: "\<forall>n sh. tensor_finite (bias_index_draw n sh)"
  by (simp add: bias_index_draw_def tensor_finite_fill)

lemma index_critic_facts:
  fixes al
  defines "s0 \<equiv> snd (module_level al bias_index_draw empty_heap)"
  defines "r \<equiv> CriticNet_init al bias_index_draw
                  (fst (module_level al bias_index_draw empty_heap)) s0"
  shows "params_ok (snd r) (fst r)"
    and "params_finite (snd r) (fst r)"
    and "tensors (snd r) (next_addr empty_heap + 2) =
           Some (T4 (replicate 32 (replicate 16 (replicate 3 (replicate 3 (Fin 0))))))"
    and "tensors (snd r) (next_addr empty_heap + 3) = Some (T1 (replicate 32 (Fin 25)))"
    and "tensors (snd r) (next_addr empty_heap + 6) =
           Some (T4 (replicate 32 (replicate 16 (replicate 3 (replicate 3 (Fin 0))))))"
    and "tensors (snd r) (next_addr empty_heap + 7) = Some (T1 (replicate 32 (Fin 29)))"
    and "tensors (snd r) (next_addr empty_heap + 8) =
           Some (T2 (replicate 32 (replicate (NUM_ACTIONS al) (Fin 0))))"
    and "tensors (snd r) (next_addr empty_heap + 9) = Some (T1 (replicate 32 (Fin 31)))"
    and "tensors (snd r) (next_addr s0 + 2) =
           Some (T4 (replicate 32 (replicate 16 (replicate 3 (replicate 3 (Fin 0))))))"
    and "tensors (snd r) (next_addr s0 + 3) = Some (T1 (replicate 32 (Fin 35)))"
    and "tensors (snd r) (next_addr s0 + 4) =
           Some (T2 (replicate 32 (replicate (NUM_ACTIONS al) (Fin 0))))"
    and "tensors (snd r) (next_addr s0 + 5) = Some (T1 (replicate 32 (Fin 37)))"
proof -
  have le: "next_addr empty_heap + 10 \<le> next_addr s0"
    unfolding s0_def by (simp add: loaded_counters empty_heap_next)
  obtain s4 where s4: "snd r = fold (reinit bias_index_draw) (shaped_parameters (fst r)) s4"
    and d4: "draws s4 = draws s0 + 12"
    unfolding r_def using CriticNet_init_heap by blast
  have d22: "draws s4 = 22" unfolding d4 s0_def by (simp add: loaded_counters)
  have dist: "distinct (map fst (shaped_parameters (fst r)))"
    unfolding r_def using le by (rule CriticNet_parameters_distinct)
  have ps: "shaped_parameters (fst r) =
     [(next_addr empty_heap, [16, 7, 5, 5]), (next_addr empty_heap + 1, [16]),
      (next_addr empty_heap + 2, [32, 16, 3, 3]), (next_addr empty_heap + 3, [32]),
      (next_addr empty_heap + 4, [16, 17, 5, 5]), (next_addr empty_heap + 5, [16]),
      (next_addr empty_heap + 6, [32, 16, 3, 3]), (next_addr empty_heap + 7, [32]),
      (next_addr empty_heap + 8, [32, NUM_ACTIONS al]), (next_addr empty_heap + 9, [32]),
      (next_addr s0, [16, 2, 5, 5]), (next_addr s0 + 1, [16]),
      (next_addr s0 + 2, [32, 16, 3, 3]), (next_addr s0 + 3, [32]),
      (next_addr s0 + 4, [32, NUM_ACTIONS al]), (next_addr s0 + 5, [32]),
      (next_addr s0 + 6, [64, 160, 3, 3]), (next_addr s0 + 7, [64]),
      (next_addr s0 + 8, [1, 64, 1, 1]), (next_addr s0 + 9, [1]),
      (next_addr s0 + 10, [1, FEAT2DSIZE al * FEAT2DSIZE al]), (next_addr s0 + 11, [1])]"
    unfolding r_def CriticNet_parameters_encoders encoder_parameters_loaded
    by (simp only: append.simps)
  have len: "length (shaped_parameters (fst r)) = 22"
    unfolding r_def by (rule CriticNet_parameters_length)
  have look: "tensors (snd r) (fst (shaped_parameters (fst r) ! i)) =
     Some (bias_index_draw (22 + i) (snd (shaped_parameters (fst r) ! i)))" if "i < 22" for i
    using init_lookup [OF s4 dist, of i] that unfolding len d22 by simp
  show "params_ok (snd r) (fst r)"
    unfolding r_def using le bias_index_draw_shapes by (rule CriticNet_init_params_ok)
  show "params_finite (snd r) (fst r)"
    using s4 dist bias_index_draw_finite by (rule init_params_finite)
  show "tensors (snd r) (next_addr empty_heap + 2) =
           Some (T4 (replicate 32 (replicate 16 (replicate 3 (replicate 3 (Fin 0))))))"
    using look [of 2] unfolding ps by (simp add: bias_index_draw_def)
  show "tensors (snd r) (next_addr empty_heap + 3) = Some (T1 (replicate 32 (Fin 25)))"
    using look [of 3] unfolding ps by (simp add: bias_index_draw_def)
  show "tensors (snd r) (next_addr empty_heap + 6) =
           Some (T4 (replicate 32 (replicate 16 (replicate 3 (replicate 3 (Fin 0))))))"
    using look [of 6] unfolding ps by (simp add: bias_index_draw_def)
  show "tensors (snd r) (next_addr empty_heap + 7) = Some (T1 (replicate 32 (Fin 29)))"
    using look [of 7] unfolding ps by (simp add: bias_index_draw_def)
  show "tensors (snd r) (next_addr empty_heap + 8) =
           Some (T2 (replicate 32 (replicate (NUM_ACTIONS al) (Fin 0))))"
    using look [of 8] unfolding ps by (simp add: bias_index_draw_def)
  show "tensors (snd r) (next_addr empty_heap + 9) = Some (T1 (replicate 32 (Fin 31)))"
    using look [of 9] unfolding ps by (simp add: bias_index_draw_def)
  show "tensors (snd r) (next_addr s0 + 2) =
           Some (T4 (replicate 32 (replicate 16 (replicate 3 (replicate 3 (Fin 0))))))"
    using look [of 12] unfolding ps by (simp add: bias_index_draw_def)
  show "tensors (snd r) (next_addr s0 + 3) = Some (T1 (replicate 32 (Fin 35)))"
    using look [of 13] unfolding ps by (simp add: bias_index_draw_def)
  show "tensors (snd r) (next_addr s0 + 4) =
           Some (T2 (replicate 32 (replicate (NUM_ACTIONS al) (Fin 0))))"
    using look [of 14] unfolding ps by (simp add: bias_index_draw_def)
  show "tensors (snd r) (next_addr s0 + 5) = Some (T1 (replicate 32 (Fin 37)))"
    using look [of 15] unfolding ps by (simp add: bias_index_draw_def)
qed

lemma critic_encodings_zero_weights:
  assumes self: "self = fst (CriticNet_init al draw (fst (module_level al dg sg)) s)"
    and ok: "params_ok h self" and fin: "params_finite h self"
    and pos: "0 < B" "0 < FEAT2DSIZE al"
    and xm: "is_shape4 B 7 (FEAT2DSIZE al) (FEAT2DSIZE al) xm" "tensor_finite (T4 xm)"
    and xs: "is_shape4 B 17 (FEAT2DSIZE al) (FEAT2DSIZE al) xs" "tensor_finite (T4 xs)"
    and xn: "is_shape2 B (NUM_ACTIONS al) xn" "tensor_finite (T2 xn)"
    and xc: "is_shape2 B (NUM_ACTIONS al) xc" "tensor_finite (T2 xc)"
    and xab: "torch_cat1 [T4 xa, T4 xb] = Inr (T4 xab)"
      "is_shape4 B 2 (FEAT2DSIZE al) (FEAT2DSIZE al) xab" "tensor_finite (T4 xab)"
    and p1: "tensors h (next_addr sg + 2) =
               Some (T4 (replicate 32 (replicate 16 (replicate 3 (replicate 3 (Fin 0))))))"
      "tensors h (next_addr sg + 3) = Some (T1 (replicate 32 (Fin v1)))" "0 \<le> v1"
    and p2: "tensors h (next_addr sg + 6) =
               Some (T4 (replicate 32 (replicate 16 (replicate 3 (replicate 3 (Fin 0))))))"
      "tensors h (next_addr sg + 7) = Some (T1 (replicate 32 (Fin v2)))" "0 \<le> v2"
    and p3: "tensors h (next_addr sg + 8) = Some (T2 (replicate 32 (replicate (NUM_ACTIONS al) (Fin 0))))"
      "tensors h (next_addr sg + 9) = Some (T1 (replicate 32 (Fin v3)))" "0 \<le> v3"
    and p4: "tensors h (next_addr s + 2) =
               Some (T4 (replicate 32 (replicate 16 (replicate 3 (replicate 3 (Fin 0))))))"
      "tensors h (next_addr s + 3) = Some (T1 (replicate 32 (Fin v4)))" "0 \<le> v4"
    and p5: "tensors h (next_addr s + 4) = Some (T2 (replicate 32 (replicate (NUM_ACTIONS al) (Fin 0))))"
      "tensors h (next_addr s + 5) = Some (T1 (replicate 32 (Fin v5)))" "0 \<le> v5"
    and fa: "finite_arith ar" and za: "zero_arith ar"
    and vv: "rounded ar v1 = Fin v1" "rounded ar v2 = Fin v2" "rounded ar v3 = Fin v3"
      "rounded ar v4 = Fin v4" "rounded ar v5 = Fin v5"
  shows "ebind (getattr self ''minimap_conv_layers'') (\<lambda>l. call ar al h l (T4 xm)) =
           Inr (T4 (replicate B (replicate 32
                      (replicate (FEAT2DSIZE al) (replicate (FEAT2DSIZE al) (Fin v1))))))"
    and "ebind (getattr self ''screen_conv_layers'') (\<lambda>l. call ar al h l (T4 xs)) =
           Inr (T4 (replicate B (replicate 32
                      (replicate (FEAT2DSIZE al) (replicate (FEAT2DSIZE al) (Fin v2))))))"
    and "ebind (getattr self ''nonspatial_dense'') (\<lambda>l. call ar al h l (T2 xn)) =
           Inr (T4 (replicate B (replicate 32
                      (replicate (FEAT2DSIZE al) (replicate (FEAT2DSIZE al) (Fin v3))))))"
    and "ebind (getattr self ''conv_action'')
           (\<lambda>l. ebind (torch_cat1 [T4 xa, T4 xb]) (call ar al h l)) =
           Inr (T4 (replicate B (replicate 32
                      (replicate (FEAT2DSIZE al) (replicate (FEAT2DSIZE al) (Fin v4))))))"
    and "ebind (getattr self ''action_dense'') (\<lambda>l. call ar al h l (T2 xc)) =
           Inr (T4 (replicate B (replicate 32
                      (replicate (FEAT2DSIZE al) (replicate (FEAT2DSIZE al) (Fin v5))))))"
proof -
  let ?cm = "Sequential [Conv2d 7 16 5 1 2 (next_addr sg) (next_addr sg + 1), ReLU,
                         Conv2d 16 32 3 1 1 (next_addr sg + 2) (next_addr sg + 3), ReLU]"
  let ?cs = "Sequential [Conv2d 17 16 5 1 2 (next_addr sg + 4) (next_addr sg + 5), ReLU,
                         Conv2d 16 32 3 1 1 (next_addr sg + 6) (next_addr sg + 7), ReLU]"
  let ?dn = "Sequential [Linear (NUM_ACTIONS al) 32 (next_addr sg + 8) (next_addr sg + 9),
                         ReLU, Dense2Conv]"
  let ?ca = "Sequential [Conv2d 2 16 5 1 2 (next_addr s) (next_addr s + 1), ReLU,
                         Conv2d 16 32 3 1 1 (next_addr s + 2) (next_addr s + 3), ReLU]"
  let ?ad = "Sequential [Linear (NUM_ACTIONS al) 32 (next_addr s + 4) (next_addr s + 5), ReLU,
                         Dense2Conv]"
  have ga: "getattr self ''minimap_conv_layers'' = Inr ?cm"
    "getattr self ''screen_conv_layers'' = Inr ?cs"
    "getattr self ''nonspatial_dense'' = Inr ?dn"
    "getattr self ''conv_action'' = Inr ?ca"
    "getattr self ''action_dense'' = Inr ?ad"
    unfolding self CriticNet_init_self module_level_globals by (simp_all add: getattr_def)
  have oks: "params_ok h ?cm" "params_ok h ?cs" "params_ok h ?dn" "params_ok h ?ca" "params_ok h ?ad"
    using ok unfolding self CriticNet_init_self module_level_globals by simp_all
  have fins: "params_finite h (Conv2d 7 16 5 1 2 (next_addr sg) (next_addr sg + 1))"
    "params_finite h (Conv2d 17 16 5 1 2 (next_addr sg + 4) (next_addr sg + 5))"
    "params_finite h (Conv2d 2 16 5 1 2 (next_addr s) (next_addr s + 1))"
    using fin unfolding self CriticNet_init_self module_level_globals params_finite_Net
    by (simp_all add: params_finite_Sequential)
  have "call ar al h ?cm (T4 xm) = Inr (T4 (replicate B (replicate 32
                      (replicate (FEAT2DSIZE al) (replicate (FEAT2DSIZE al) (Fin v1))))))"
    using oks(1) fins(1) xm(1) pos(1) _ pos(2) pos(2) xm(2) p1 fa za vv(1) by (rule call_conv_stack_const) simp
  then show "ebind (getattr self ''minimap_conv_layers'') (\<lambda>l. call ar al h l (T4 xm)) =
           Inr (T4 (replicate B (replicate 32
                      (replicate (FEAT2DSIZE al) (replicate (FEAT2DSIZE al) (Fin v1))))))"
    by (simp only: ga ebind_Inr)
  have "call ar al h ?cs (T4 xs) = Inr (T4 (replicate B (replicate 32
                      (replicate (FEAT2DSIZE al) (replicate (FEAT2DSIZE al) (Fin v2))))))"
    using oks(2) fins(2) xs(1) pos(1) _ pos(2) pos(2) xs(2) p2 fa za vv(2) by (rule call_conv_stack_const) simp
  then show "ebind (getattr self ''screen_conv_layers'') (\<lambda>l. call ar al h l (T4 xs)) =
           Inr (T4 (replicate B (replicate 32
                      (replicate (FEAT2DSIZE al) (replicate (FEAT2DSIZE al) (Fin v2))))))"
    by (simp only: ga ebind_Inr)
  have "call ar al h ?dn (T2 xn) = Inr (T4 (replicate B (replicate 32
                      (replicate (FEAT2DSIZE al) (replicate (FEAT2DSIZE al) (Fin v3))))))"
    using oks(3) xn p3 za vv(3) by (rule call_dense_stack_const)
  then show "ebind (getattr self ''nonspatial_dense'') (\<lambda>l. call ar al h l (T2 xn)) =
           Inr (T4 (replicate B (replicate 32
                      (replicate (FEAT2DSIZE al) (replicate (FEAT2DSIZE al) (Fin v3))))))"
    by (simp only: ga ebind_Inr)
  have "call ar al h ?ca (T4 xab) = Inr (T4 (replicate B (replicate 32
                      (replicate (FEAT2DSIZE al) (replicate (FEAT2DSIZE al) (Fin v4))))))"
    using oks(4) fins(3) xab(2) pos(1) _ pos(2) pos(2) xab(3) p4 fa za vv(4) by (rule call_conv_stack_const) simp
  then show "ebind (getattr self ''conv_action'')
           (\<lambda>l. ebind (torch_cat1 [T4 xa, T4 xb]) (call ar al h l)) =
           Inr (T4 (replicate B (replicate 32
                      (replicate (FEAT2DSIZE al) (replicate (FEAT2DSIZE al) (Fin v4))))))"
    by (simp only: ga ebind_Inr xab(1))
  have "call ar al h ?ad (T2 xc) = Inr (T4 (replicate B (replicate 32
                      (replicate (FEAT2DSIZE al) (replicate (FEAT2DSIZE al) (Fin v5))))))"
    using oks(5) xc p5 za vv(5) by (rule call_dense_stack_const)
  then show "ebind (getattr self ''action_dense'') (\<lambda>l. call ar al h l (T2 xc)) =
           Inr (T4 (replicate B (replicate 32
                      (replicate (FEAT2DSIZE al) (replicate (FEAT2DSIZE al) (Fin v5))))))"
    by (simp only: ga ebind_Inr)
qed

lemma example_inputs:
  "example_obs ''minimap'' = Some (T4 (replicate 1 (replicate 7 (replicate 1 (replicate 1 (Fin 0))))))"
  "example_obs ''screen'' = Some (T4 (replicate 1 (replicate 17 (replicate 1 (replicate 1 (Fin 0))))))"
  "example_obs ''nonspatial'' = Some (T2 (replicate 1 (replicate 2 (Fin 0))))"
  "example_actions ''categorical'' = Some (T2 (replicate 1 (replicate 2 (Fin 0))))"
  "example_actions ''screen1'' = Some (T4 (replicate 1 (replicate 1 (replicate 1 (replicate 1 (Fin 0))))))"
  "example_actions ''screen2'' = Some (T4 (replicate 1 (replicate 1 (replicate 1 (replicate 1 (Fin 0))))))"
  by (simp_all add: example_obs_def example_actions_def del: replicate.simps replicate_Suc)

lemma example_screens_cat:
  "torch_cat1 [T4 (replicate 1 (replicate 1 (replicate 1 (replicate 1 (Fin 0))))),
               T4 (replicate 1 (replicate 1 (replicate 1 (replicate 1 (Fin 0)))))]
     = Inr (T4 (replicate 1 (replicate 2 (replicate 1 (replicate 1 (Fin 0))))))"
  by (simp add: torch_cat1_def cat1_t4_def height_def width_def rows_def cols_def numeral_2_eq_2)

section \<open>The two arithmetics\<close>

lemma is_fin_seq_sum:
  "\<forall>x. is_fin (rd x) \<Longrightarrow> list_all is_fin xs \<Longrightarrow> is_fin (seq_sum rd xs)"
  unfolding seq_sum_def
proof (induction xs)
  case Nil
  then show ?case by simp
next
  case (Cons a xs)
  then obtain x y where "a = Fin x" "foldr (fadd rd) xs (Fin 0) = Fin y"
    by (cases a; cases "foldr (fadd rd) xs (Fin 0)") auto
  then show ?case using Cons.prems(1) by simp
qed

lemma seq_sum_zeros:
  "rd 0 = Fin 0 \<Longrightarrow> \<forall>x \<in> set xs. x = Fin 0 \<Longrightarrow> seq_sum rd xs = Fin 0"
  unfolding seq_sum_def by (induction xs) simp_all

lemma round_eighths_zero [simp]: "round_eighths 0 = Fin 0"
  by (simp add: round_eighths_def)

lemma round_eighths_int [simp]: "round_eighths (of_int k) = Fin (of_int k)"
proof -
  have "\<lfloor>(of_int k :: real) * 8 + 1 / 2\<rfloor> = k * 8" by linarith
  then show ?thesis by (simp add: round_eighths_def)
qed

lemma finite_arith_exact: "finite_arith exact"
  by (simp add: finite_arith_def is_fin_seq_sum)

lemma zero_arith_exact: "zero_arith exact"
  by (simp add: zero_arith_def seq_sum_zeros)

lemma value_of_exact: "value_of exact v"
  by (cases v) simp_all

lemma finite_arith_eighths: "finite_arith eighths"
  by (simp add: finite_arith_def is_fin_seq_sum round_eighths_def)

lemma zero_arith_eighths: "zero_arith eighths"
  by (simp add: zero_arith_def seq_sum_zeros)

section \<open>Claims about the two networks\<close>

text \<open>
  Claim C1 fails on the code.  \<^verbatim>\<open>ActorNet.__init__\<close> assigns the two spatial heads to the
  attributes \<^verbatim>\<open>layer_screen1\<close> and \<^verbatim>\<open>layer_screen2\<close>, and \<^verbatim>\<open>ActorNet.forward\<close> reads
  \<^verbatim>\<open>layer_screen1_x\<close> and \<^verbatim>\<open>layer_screen2_x\<close>.  So \<^verbatim>\<open>forward\<close> returns for no input; for an
  observation of the fixed shapes with batch size 1 and a mask of shape \<open>(n)\<close> or \<open>(1, n)\<close>
  it computes the masked categorical output and then raises the attribute error.
\<close>

theorem ActorNet_forward_raises_attribute_error:
  assumes self: "self = fst (ActorNet_init al draw (fst (module_level al dg sg)) s)"
  shows "(\<forall>r. ActorNet_forward ar al h self obs valid_actions \<noteq> Inr r)
       \<and> (params_ok h self \<and> 0 < FEAT2DSIZE al
            \<and> obs ''minimap'' = Some (T4 xm) \<and> is_shape4 1 7 (FEAT2DSIZE al) (FEAT2DSIZE al) xm
            \<and> obs ''screen'' = Some (T4 xs) \<and> is_shape4 1 17 (FEAT2DSIZE al) (FEAT2DSIZE al) xs
            \<and> obs ''nonspatial'' = Some (T2 xn) \<and> is_shape2 1 (NUM_ACTIONS al) xn
            \<and> (valid_actions = T1 v \<or> valid_actions = T2 [v]) \<and> length v = NUM_ACTIONS al
          \<longrightarrow> ActorNet_forward ar al h self obs valid_actions = Inl (AttributeError ''layer_screen1_x''))"
proof (intro conjI allI impI)
  fix r
  show "ActorNet_forward ar al h self obs valid_actions \<noteq> Inr r"
    unfolding ActorNet_forward_never_returns [OF self] by (simp split: sum.splits)
next
  assume a: "params_ok h self \<and> 0 < FEAT2DSIZE al
            \<and> obs ''minimap'' = Some (T4 xm) \<and> is_shape4 1 7 (FEAT2DSIZE al) (FEAT2DSIZE al) xm
            \<and> obs ''screen'' = Some (T4 xs) \<and> is_shape4 1 17 (FEAT2DSIZE al) (FEAT2DSIZE al) xs
            \<and> obs ''nonspatial'' = Some (T2 xn) \<and> is_shape2 1 (NUM_ACTIONS al) xn
            \<and> (valid_actions = T1 v \<or> valid_actions = T2 [v]) \<and> length v = NUM_ACTIONS al"
  then have ok: "params_ok h self" and F: "0 < FEAT2DSIZE al"
    and xm: "obs ''minimap'' = Some (T4 xm)" "is_shape4 1 7 (FEAT2DSIZE al) (FEAT2DSIZE al) xm"
    and xs: "obs ''screen'' = Some (T4 xs)" "is_shape4 1 17 (FEAT2DSIZE al) (FEAT2DSIZE al) xs"
    and xn: "obs ''nonspatial'' = Some (T2 xn)" "is_shape2 1 (NUM_ACTIONS al) xn"
    and va: "valid_actions = T1 v \<or> valid_actions = T2 [v]" and lv: "length v = NUM_ACTIONS al"
    by auto
  have B: "0 < (1::nat)" by simp
  from ActorNet_forward_categorical_trace [OF self ok B F xm xs xn, where ar = ar and valid_actions = valid_actions]
  obtain state_h raw where raw: "is_shape2 1 (NUM_ACTIONS al) raw"
    and cat: "ActorNet_forward_categorical ar al h self obs valid_actions =
         ebind (mask_unavailable_actions ar (T2 raw) valid_actions)
           (\<lambda>pol_categorical. Inr (T4 state_h, pol_categorical))"
    by blast
  obtain p where p: "raw = [p]" "length p = NUM_ACTIONS al"
    using raw by (cases raw) (auto simp: is_shape2_def)
  have l: "length v = length p" using lv p(2) by simp
  have "\<exists>out. mask_unavailable_actions ar (T2 raw) valid_actions = Inr out"
    using va mask_batch1_rank1 [OF l] mask_batch1_rank2 [OF l] p(1) by auto
  then obtain out where "ActorNet_forward_categorical ar al h self obs valid_actions = Inr (T4 state_h, out)"
    using cat by auto
  then show "ActorNet_forward ar al h self obs valid_actions = Inl (AttributeError ''layer_screen1_x'')"
    unfolding ActorNet_forward_never_returns [OF self] by simp
qed

theorem ActorNet_forward_raises_attribute_error_witness:
  "ActorNet_forward exact example_arglist
      (snd (ActorNet_init example_arglist zero_draw
              (fst (module_level example_arglist zero_draw empty_heap))
              (snd (module_level example_arglist zero_draw empty_heap))))
      (fst (ActorNet_init example_arglist zero_draw
              (fst (module_level example_arglist zero_draw empty_heap))
              (snd (module_level example_arglist zero_draw empty_heap))))
      example_obs (T1 [Fin 1, Fin 1]) = Inl (AttributeError ''layer_screen1_x'')"
  using ActorNet_forward_raises_attribute_error
      [where al = example_arglist and draw = zero_draw and dg = zero_draw and sg = empty_heap
         and obs = example_obs and valid_actions = "T1 [Fin 1, Fin 1]" and v = "[Fin 1, Fin 1]"
         and h = "snd (ActorNet_init example_arglist zero_draw
                  (fst (module_level example_arglist zero_draw empty_heap))
                  (snd (module_level example_arglist zero_draw empty_heap)))"
         and xm = "replicate 1 (replicate 7 (replicate 1 (replicate 1 (Fin 0))))"
         and xs = "replicate 1 (replicate 17 (replicate 1 (replicate 1 (Fin 0))))"
         and xn = "replicate 1 (replicate 2 (Fin 0))",
       OF refl] example_actor_ok
  by (simp add: example_arglist_fields example_obs_def
      is_shape4_fill is_shape2_fill del: replicate.simps replicate_Suc)

text \<open>
  Claim C2 (amended).  An ActorNet and a CriticNet hold the same three encoder modules
  of the module level, whatever the stores they are constructed in: the ten parameter
  tensors of the minimap encoder, the screen encoder and the non-spatial dense encoder
  are in both networks.  When one network is constructed after the other, these ten
  are exactly the parameters the two have in common; every other parameter belongs to
  one network only.
\<close>

theorem networks_share_exactly_the_encoders:
  "set (map fst (encoder_parameters (fst (module_level al dg sg))))
     \<subseteq> set (parameters (fst (ActorNet_init al draw (fst (module_level al dg sg)) s)))
       \<inter> set (parameters (fst (CriticNet_init al draw' (fst (module_level al dg sg)) s')))
   \<and> set (parameters (fst (fst (actor_then_critic al draw))))
       \<inter> set (parameters (fst (snd (actor_then_critic al draw))))
     = set (map fst (encoder_parameters (fst (loaded al draw))))
   \<and> set (parameters (fst (fst (critic_then_actor al draw))))
       \<inter> set (parameters (fst (snd (critic_then_actor al draw))))
     = set (map fst (encoder_parameters (fst (loaded al draw))))
   \<and> length (encoder_parameters (fst (loaded al draw))) = 10"
  using encoders_in_both actor_then_critic_shared critic_then_actor_shared
  by (simp add: loaded_def encoder_parameters_loaded)

theorem networks_share_exactly_the_encoders_witness:
  "set (parameters (fst (fst (actor_then_critic example_arglist zero_draw))))
       \<inter> set (parameters (fst (snd (actor_then_critic example_arglist zero_draw))))
     = {0, 1, 2, 3, 4, 5, 6, 7, 8, 9}"
proof -
  have e0: "next_addr empty_heap = 0" by (simp add: empty_heap_def)
  show ?thesis
    using networks_share_exactly_the_encoders [of example_arglist zero_draw empty_heap zero_draw]
    by (auto simp: loaded_def encoder_parameters_loaded e0)
qed

text \<open>
  Claim C2 as stated fails: after the module is loaded and an ActorNet and a CriticNet
  are constructed, the attribute \<^verbatim>\<open>minimap_conv_layers\<close> of both is the same module, and
  the weight of its first convolution, at address 0, is a parameter of both.
\<close>

theorem actor_and_critic_share_encoder_storage:
  "getattr (fst (fst (actor_then_critic example_arglist zero_draw))) ''minimap_conv_layers''
     = Inr (Sequential [Conv2d 7 16 5 1 2 0 1, ReLU, Conv2d 16 32 3 1 1 2 3, ReLU])
   \<and> getattr (fst (snd (actor_then_critic example_arglist zero_draw))) ''minimap_conv_layers''
     = Inr (Sequential [Conv2d 7 16 5 1 2 0 1, ReLU, Conv2d 16 32 3 1 1 2 3, ReLU])
   \<and> 0 \<in> set (parameters (fst (fst (actor_then_critic example_arglist zero_draw))))
   \<and> 0 \<in> set (parameters (fst (snd (actor_then_critic example_arglist zero_draw))))"
proof -
  have e0: "next_addr empty_heap = 0" by (simp add: empty_heap_def)
  show ?thesis
    unfolding actor_then_critic_unfold fst_conv snd_conv parameters_def
      ActorNet_parameters_encoders CriticNet_parameters_encoders encoder_parameters_loaded
      ActorNet_init_self CriticNet_init_self module_level_globals e0
    by (simp add: getattr_def)
qed

text \<open>
  Claim C7.  For an observation and an action of the fixed shapes with the same batch
  size \<open>B\<close>, and parameters of the declared shapes, \<^verbatim>\<open>CriticNet.forward\<close> returns a tensor
  of shape \<open>(B, 1)\<close>: one value for each example of the batch.
\<close>

theorem CriticNet_forward_one_value_per_example:
  assumes "self = fst (CriticNet_init al draw (fst (module_level al dg sg)) s)"
    and "params_ok h self"
    and "0 < B" and "0 < FEAT2DSIZE al"
    and "obs ''minimap'' = Some (T4 xm)" and "is_shape4 B 7 (FEAT2DSIZE al) (FEAT2DSIZE al) xm"
    and "obs ''screen'' = Some (T4 xs)" and "is_shape4 B 17 (FEAT2DSIZE al) (FEAT2DSIZE al) xs"
    and "obs ''nonspatial'' = Some (T2 xn)" and "is_shape2 B (NUM_ACTIONS al) xn"
    and "actions ''categorical'' = Some (T2 xc)" and "is_shape2 B (NUM_ACTIONS al) xc"
    and "actions ''screen1'' = Some (T4 xa)" and "is_shape4 B 1 (FEAT2DSIZE al) (FEAT2DSIZE al) xa"
    and "actions ''screen2'' = Some (T4 xb)" and "is_shape4 B 1 (FEAT2DSIZE al) (FEAT2DSIZE al) xb"
  shows "\<exists>q. CriticNet_forward ar al h self obs actions = Inr (T2 q) \<and> is_shape2 B 1 q"
  using CriticNet_forward_trace [OF assms] by blast

theorem CriticNet_forward_one_value_per_example_witness:
  "\<exists>q. CriticNet_forward exact example_arglist
          (snd (CriticNet_init example_arglist zero_draw
                  (fst (module_level example_arglist zero_draw empty_heap))
                  (snd (module_level example_arglist zero_draw empty_heap))))
          (fst (CriticNet_init example_arglist zero_draw
                  (fst (module_level example_arglist zero_draw empty_heap))
                  (snd (module_level example_arglist zero_draw empty_heap))))
          example_obs example_actions = Inr (T2 q) \<and> is_shape2 1 1 q"
  by (rule CriticNet_forward_one_value_per_example
      [where B = 1 and al = example_arglist and draw = zero_draw and dg = zero_draw and sg = empty_heap
         and xm = "replicate 1 (replicate 7 (replicate 1 (replicate 1 (Fin 0))))"
         and xs = "replicate 1 (replicate 17 (replicate 1 (replicate 1 (Fin 0))))"
         and xn = "replicate 1 (replicate 2 (Fin 0))"
         and xc = "replicate 1 (replicate 2 (Fin 0))"
         and xa = "replicate 1 (replicate 1 (replicate 1 (replicate 1 (Fin 0))))"
         and xb = "replicate 1 (replicate 1 (replicate 1 (replicate 1 (Fin 0))))"])
    (simp_all add: example_critic_ok example_arglist_fields example_obs_def example_actions_def
      is_shape4_fill is_shape2_fill del: replicate.simps replicate_Suc)

text \<open>
  Claim C8.  In \<^verbatim>\<open>CriticNet.forward\<close> the encodings of the minimap, the screen, the
  non-spatial observation, the spatial action and the non-spatial action have 32
  channels each; they are concatenated in this order along the channel axis, so that
  every example of the result is the list of its 160 channels in this order; the
  result of \<^verbatim>\<open>forward\<close> is the final dense layer applied to the fusion stage applied to
  this tensor.
\<close>

theorem CriticNet_concatenation_order:
  assumes "self = fst (CriticNet_init al draw (fst (module_level al dg sg)) s)"
    and "params_ok h self"
    and "0 < B" and "0 < FEAT2DSIZE al"
    and "obs ''minimap'' = Some (T4 xm)" and "is_shape4 B 7 (FEAT2DSIZE al) (FEAT2DSIZE al) xm"
    and "obs ''screen'' = Some (T4 xs)" and "is_shape4 B 17 (FEAT2DSIZE al) (FEAT2DSIZE al) xs"
    and "obs ''nonspatial'' = Some (T2 xn)" and "is_shape2 B (NUM_ACTIONS al) xn"
    and "actions ''categorical'' = Some (T2 xc)" and "is_shape2 B (NUM_ACTIONS al) xc"
    and "actions ''screen1'' = Some (T4 xa)" and "is_shape4 B 1 (FEAT2DSIZE al) (FEAT2DSIZE al) xa"
    and "actions ''screen2'' = Some (T4 xb)" and "is_shape4 B 1 (FEAT2DSIZE al) (FEAT2DSIZE al) xb"
  shows "\<exists>m sc n asp ansp sa.
      ebind (getattr self ''minimap_conv_layers'') (\<lambda>l. call ar al h l (T4 xm)) = Inr (T4 m)
    \<and> ebind (getattr self ''screen_conv_layers'') (\<lambda>l. call ar al h l (T4 xs)) = Inr (T4 sc)
    \<and> ebind (getattr self ''nonspatial_dense'') (\<lambda>l. call ar al h l (T2 xn)) = Inr (T4 n)
    \<and> ebind (getattr self ''conv_action'')
         (\<lambda>l. ebind (torch_cat1 [T4 xa, T4 xb]) (call ar al h l)) = Inr (T4 asp)
    \<and> ebind (getattr self ''action_dense'') (\<lambda>l. call ar al h l (T2 xc)) = Inr (T4 ansp)
    \<and> is_shape4 B 32 (FEAT2DSIZE al) (FEAT2DSIZE al) m
    \<and> is_shape4 B 32 (FEAT2DSIZE al) (FEAT2DSIZE al) sc
    \<and> is_shape4 B 32 (FEAT2DSIZE al) (FEAT2DSIZE al) n
    \<and> is_shape4 B 32 (FEAT2DSIZE al) (FEAT2DSIZE al) asp
    \<and> is_shape4 B 32 (FEAT2DSIZE al) (FEAT2DSIZE al) ansp
    \<and> CriticNet_forward_encodings ar al h self obs actions = Inr [T4 m, T4 sc, T4 n, T4 asp, T4 ansp]
    \<and> torch_cat1 [T4 m, T4 sc, T4 n, T4 asp, T4 ansp] = Inr (T4 sa)
    \<and> is_shape4 B 160 (FEAT2DSIZE al) (FEAT2DSIZE al) sa
    \<and> (\<forall>b < B. sa ! b = m ! b @ sc ! b @ n ! b @ asp ! b @ ansp ! b)
    \<and> CriticNet_forward ar al h self obs actions =
         ebind (getattr self ''layer_hidden'') (\<lambda>l6. ebind (call ar al h l6 (T4 sa)) (\<lambda>x.
         ebind (getattr self ''layer_value'') (\<lambda>l7. call ar al h l7 x)))"
proof -
  from CriticNet_forward_trace [OF assms]
  obtain m sc n asp ansp sa q where
      "ebind (getattr self ''minimap_conv_layers'') (\<lambda>l. call ar al h l (T4 xm)) = Inr (T4 m)
    \<and> ebind (getattr self ''screen_conv_layers'') (\<lambda>l. call ar al h l (T4 xs)) = Inr (T4 sc)
    \<and> ebind (getattr self ''nonspatial_dense'') (\<lambda>l. call ar al h l (T2 xn)) = Inr (T4 n)
    \<and> ebind (getattr self ''conv_action'')
         (\<lambda>l. ebind (torch_cat1 [T4 xa, T4 xb]) (call ar al h l)) = Inr (T4 asp)
    \<and> ebind (getattr self ''action_dense'') (\<lambda>l. call ar al h l (T2 xc)) = Inr (T4 ansp)
    \<and> is_shape4 B 32 (FEAT2DSIZE al) (FEAT2DSIZE al) m
    \<and> is_shape4 B 32 (FEAT2DSIZE al) (FEAT2DSIZE al) sc
    \<and> is_shape4 B 32 (FEAT2DSIZE al) (FEAT2DSIZE al) n
    \<and> is_shape4 B 32 (FEAT2DSIZE al) (FEAT2DSIZE al) asp
    \<and> is_shape4 B 32 (FEAT2DSIZE al) (FEAT2DSIZE al) ansp
    \<and> CriticNet_forward_encodings ar al h self obs actions = Inr [T4 m, T4 sc, T4 n, T4 asp, T4 ansp]
    \<and> torch_cat1 [T4 m, T4 sc, T4 n, T4 asp, T4 ansp] = Inr (T4 sa)
    \<and> is_shape4 B 160 (FEAT2DSIZE al) (FEAT2DSIZE al) sa
    \<and> (\<forall>b < B. sa ! b = m ! b @ sc ! b @ n ! b @ asp ! b @ ansp ! b)
    \<and> CriticNet_forward ar al h self obs actions =
         ebind (getattr self ''layer_hidden'') (\<lambda>l6. ebind (call ar al h l6 (T4 sa)) (\<lambda>x.
         ebind (getattr self ''layer_value'') (\<lambda>l7. call ar al h l7 x)))
    \<and> CriticNet_forward ar al h self obs actions = Inr (T2 q)
    \<and> is_shape2 B 1 q"
    by blast
  then show ?thesis by blast
qed

text \<open>
  An instance that tells the five encodings apart: the CriticNet constructed, after the
  module is loaded into the empty store, with zero weights and every bias vector
  filled with the number of its initialization, on the all-zero example.  The encodings
  are constant tensors with the values 25, 29, 31, 35 and 37, and the concatenation has
  32 channels of each, in this order.
\<close>

theorem CriticNet_concatenation_order_witness:
  "CriticNet_forward_encodings exact example_arglist
      (snd (CriticNet_init example_arglist bias_index_draw
              (fst (module_level example_arglist bias_index_draw empty_heap))
              (snd (module_level example_arglist bias_index_draw empty_heap))))
      (fst (CriticNet_init example_arglist bias_index_draw
              (fst (module_level example_arglist bias_index_draw empty_heap))
              (snd (module_level example_arglist bias_index_draw empty_heap))))
      example_obs example_actions
    = Inr [T4 [replicate 32 [[Fin 25]]], T4 [replicate 32 [[Fin 29]]], T4 [replicate 32 [[Fin 31]]],
           T4 [replicate 32 [[Fin 35]]], T4 [replicate 32 [[Fin 37]]]]
   \<and> torch_cat1 [T4 [replicate 32 [[Fin 25]]], T4 [replicate 32 [[Fin 29]]],
                  T4 [replicate 32 [[Fin 31]]], T4 [replicate 32 [[Fin 35]]],
                  T4 [replicate 32 [[Fin 37]]]]
    = Inr (T4 [replicate 32 [[Fin 25]] @ replicate 32 [[Fin 29]] @ replicate 32 [[Fin 31]]
               @ replicate 32 [[Fin 35]] @ replicate 32 [[Fin 37]]])"
proof -
  let ?al = "example_arglist"
  let ?g = "fst (module_level ?al bias_index_draw empty_heap)"
  let ?s0 = "snd (module_level ?al bias_index_draw empty_heap)"
  let ?h = "snd (CriticNet_init ?al bias_index_draw ?g ?s0)"
  let ?self = "fst (CriticNet_init ?al bias_index_draw ?g ?s0)"
  let ?xm = "replicate 1 (replicate 7 (replicate 1 (replicate 1 (Fin 0))))"
  let ?xs = "replicate 1 (replicate 17 (replicate 1 (replicate 1 (Fin 0))))"
  let ?xn = "replicate 1 (replicate 2 (Fin 0))"
  let ?xa = "replicate 1 (replicate 1 (replicate 1 (replicate 1 (Fin 0))))"
  let ?xab = "replicate 1 (replicate 2 (replicate 1 (replicate 1 (Fin 0))))"
  note facts = index_critic_facts [of ?al]
  have F: "FEAT2DSIZE ?al = 1" and N: "NUM_ACTIONS ?al = 2" by (simp_all add: example_arglist_fields)
  have pos: "0 < (1::nat)" "0 < FEAT2DSIZE ?al" by (simp_all add: F)
  have sm: "is_shape4 1 7 (FEAT2DSIZE ?al) (FEAT2DSIZE ?al) ?xm"
    and ss: "is_shape4 1 17 (FEAT2DSIZE ?al) (FEAT2DSIZE ?al) ?xs"
    and sa1: "is_shape4 1 1 (FEAT2DSIZE ?al) (FEAT2DSIZE ?al) ?xa"
    and sab: "is_shape4 1 2 (FEAT2DSIZE ?al) (FEAT2DSIZE ?al) ?xab"
    and sn: "is_shape2 1 (NUM_ACTIONS ?al) ?xn"
    unfolding F N by (rule is_shape4_fill is_shape2_fill)+
  have fm: "tensor_finite (T4 ?xm)" and fs: "tensor_finite (T4 ?xs)" and fn: "tensor_finite (T2 ?xn)"
    and fab: "tensor_finite (T4 ?xab)"
    by (simp_all add: list_all_iff)
  note enc = critic_encodings_zero_weights [OF refl facts(1) facts(2) pos sm fm ss fs sn fn sn fn
      example_screens_cat sab fab
      facts(3) facts(4) _ facts(5) facts(6) _ facts(7) facts(8) _ facts(9) facts(10) _
      facts(11) facts(12) _ finite_arith_exact zero_arith_exact, simplified F]
  from CriticNet_concatenation_order [OF refl facts(1) pos example_inputs(1) sm example_inputs(2) ss
      example_inputs(3) sn example_inputs(4) sn example_inputs(5) sa1 example_inputs(6) sa1,
      where ar = exact]
  obtain m sc n asp ansp sa where
      c1: "ebind (getattr ?self ''minimap_conv_layers'') (\<lambda>l. call exact ?al ?h l (T4 ?xm)) = Inr (T4 m)"
    and c2: "ebind (getattr ?self ''screen_conv_layers'') (\<lambda>l. call exact ?al ?h l (T4 ?xs)) = Inr (T4 sc)"
    and c3: "ebind (getattr ?self ''nonspatial_dense'') (\<lambda>l. call exact ?al ?h l (T2 ?xn)) = Inr (T4 n)"
    and c4: "ebind (getattr ?self ''conv_action'')
         (\<lambda>l. ebind (torch_cat1 [T4 ?xa, T4 ?xa]) (call exact ?al ?h l)) = Inr (T4 asp)"
    and c5: "ebind (getattr ?self ''action_dense'') (\<lambda>l. call exact ?al ?h l (T2 ?xn)) = Inr (T4 ansp)"
    and en: "CriticNet_forward_encodings exact ?al ?h ?self example_obs example_actions
               = Inr [T4 m, T4 sc, T4 n, T4 asp, T4 ansp]"
    and ct: "torch_cat1 [T4 m, T4 sc, T4 n, T4 asp, T4 ansp] = Inr (T4 sa)"
    and sh: "is_shape4 1 160 (FEAT2DSIZE ?al) (FEAT2DSIZE ?al) sa"
    and ord: "\<forall>b < 1. sa ! b = m ! b @ sc ! b @ n ! b @ asp ! b @ ansp ! b"
    by (elim exE conjE) (rule that; assumption)
  have m: "m = [replicate 32 [[Fin 25]]]" using c1 enc(1) by simp
  have sc: "sc = [replicate 32 [[Fin 29]]]" using c2 enc(2) by simp
  have n: "n = [replicate 32 [[Fin 31]]]" using c3 enc(3) by simp
  have asp: "asp = [replicate 32 [[Fin 35]]]" using c4 enc(4) by simp
  have ansp: "ansp = [replicate 32 [[Fin 37]]]" using c5 enc(5) by simp
  have "length sa = 1" using sh by (simp add: is_shape4_def)
  then have "sa = [sa ! 0]" by (cases sa) auto
  then have sa: "sa = [replicate 32 [[Fin 25]] @ replicate 32 [[Fin 29]] @ replicate 32 [[Fin 31]]
               @ replicate 32 [[Fin 35]] @ replicate 32 [[Fin 37]]]"
    using ord unfolding m sc n asp ansp by simp
  show ?thesis using en ct unfolding m sc n asp ansp sa by blast
qed

text \<open>
  Claim C10.  In any store in which the module has been loaded, the constructor of
  either network initializes anew each of the ten parameters of the three shared
  encoders: after the constructor, the parameter holds the tensor of an initialization
  made by this constructor (number \<open>draws s + 10 + i\<close> for an ActorNet and
  \<open>draws s + 12 + i\<close> for a CriticNet, where \<open>draws s\<close> initializations were made before),
  whatever a network constructed earlier had there.  So the encoder parameters depend
  on the order of construction: parameter \<open>i\<close> holds initialization \<open>20 + i\<close> after an
  ActorNet alone, \<open>52 + i\<close> after an ActorNet and then a CriticNet, and \<open>54 + i\<close> after a
  CriticNet and then an ActorNet.
\<close>

theorem construction_reinitializes_shared_encoders:
  assumes "next_addr sg + 10 \<le> next_addr s" and "i < 10"
  shows "fst (encoder_parameters (fst (module_level al dg sg)) ! i)
           \<in> set (parameters (fst (ActorNet_init al draw (fst (module_level al dg sg)) s)))
               \<inter> set (parameters (fst (CriticNet_init al draw (fst (module_level al dg sg)) s)))
       \<and> tensors (snd (ActorNet_init al draw (fst (module_level al dg sg)) s))
             (fst (encoder_parameters (fst (module_level al dg sg)) ! i))
           = Some (draw (draws s + 10 + i) (snd (encoder_parameters (fst (module_level al dg sg)) ! i)))
       \<and> tensors (snd (CriticNet_init al draw (fst (module_level al dg sg)) s))
             (fst (encoder_parameters (fst (module_level al dg sg)) ! i))
           = Some (draw (draws s + 12 + i) (snd (encoder_parameters (fst (module_level al dg sg)) ! i)))
       \<and> tensors (snd (fst (actor_then_critic al draw))) (fst (encoder_parameters (fst (loaded al draw)) ! i))
           = Some (draw (20 + i) (snd (encoder_parameters (fst (loaded al draw)) ! i)))
       \<and> tensors (snd (snd (actor_then_critic al draw))) (fst (encoder_parameters (fst (loaded al draw)) ! i))
           = Some (draw (52 + i) (snd (encoder_parameters (fst (loaded al draw)) ! i)))
       \<and> tensors (snd (fst (critic_then_actor al draw))) (fst (encoder_parameters (fst (loaded al draw)) ! i))
           = Some (draw (22 + i) (snd (encoder_parameters (fst (loaded al draw)) ! i)))
       \<and> tensors (snd (snd (critic_then_actor al draw))) (fst (encoder_parameters (fst (loaded al draw)) ! i))
           = Some (draw (54 + i) (snd (encoder_parameters (fst (loaded al draw)) ! i)))"
proof -
  let ?g = "fst (module_level al dg sg)"
  have len: "length (encoder_parameters ?g) = 10" by (simp add: encoder_parameters_loaded)
  have "i < length (encoder_parameters ?g)" using assms(2) len by simp
  then have "fst (encoder_parameters ?g ! i) \<in> set (map fst (encoder_parameters ?g))"
    by (metis length_map nth_map nth_mem)
  then have mem: "fst (encoder_parameters ?g ! i)
           \<in> set (parameters (fst (ActorNet_init al draw ?g s)))
               \<inter> set (parameters (fst (CriticNet_init al draw ?g s)))"
    using encoders_in_both [of al dg sg draw s draw s] by blast
  note a = ActorNet_init_shared_lookup [folded encoder_parameters_def]
  note c = CriticNet_init_shared_lookup [folded encoder_parameters_def]
  let ?l = "fst (module_level al draw empty_heap)"
  let ?s0 = "snd (module_level al draw empty_heap)"
  have e0: "next_addr empty_heap = 0" by (simp add: empty_heap_def)
  have n0: "next_addr ?s0 = 10" "draws ?s0 = 10" by (rule loaded_counters)+
  have le0: "next_addr empty_heap + 10 \<le> next_addr ?s0" by (simp add: e0 n0)
  have na: "next_addr (snd (ActorNet_init al draw ?l ?s0)) = 20"
    "draws (snd (ActorNet_init al draw ?l ?s0)) = 40"
    by (simp_all add: ActorNet_init_counters n0)
  have nc: "next_addr (snd (CriticNet_init al draw ?l ?s0)) = 22"
    "draws (snd (CriticNet_init al draw ?l ?s0)) = 44"
    by (simp_all add: CriticNet_init_counters n0)
  have lea: "next_addr empty_heap + 10 \<le> next_addr (snd (ActorNet_init al draw ?l ?s0))"
    by (simp add: e0 na)
  have lec: "next_addr empty_heap + 10 \<le> next_addr (snd (CriticNet_init al draw ?l ?s0))"
    by (simp add: e0 nc)
  have t1: "tensors (snd (fst (actor_then_critic al draw))) (fst (encoder_parameters (fst (loaded al draw)) ! i))
           = Some (draw (20 + i) (snd (encoder_parameters (fst (loaded al draw)) ! i)))"
    unfolding actor_then_critic_unfold loaded_def fst_conv snd_conv
    using a [OF le0 assms(2), of al draw draw] by (simp add: n0)
  have t2: "tensors (snd (snd (actor_then_critic al draw))) (fst (encoder_parameters (fst (loaded al draw)) ! i))
           = Some (draw (52 + i) (snd (encoder_parameters (fst (loaded al draw)) ! i)))"
    unfolding actor_then_critic_unfold loaded_def fst_conv snd_conv
    using c [OF lea assms(2), of al draw draw] by (simp add: na)
  have t3: "tensors (snd (fst (critic_then_actor al draw))) (fst (encoder_parameters (fst (loaded al draw)) ! i))
           = Some (draw (22 + i) (snd (encoder_parameters (fst (loaded al draw)) ! i)))"
    unfolding critic_then_actor_unfold loaded_def fst_conv snd_conv
    using c [OF le0 assms(2), of al draw draw] by (simp add: n0)
  have t4: "tensors (snd (snd (critic_then_actor al draw))) (fst (encoder_parameters (fst (loaded al draw)) ! i))
           = Some (draw (54 + i) (snd (encoder_parameters (fst (loaded al draw)) ! i)))"
    unfolding critic_then_actor_unfold loaded_def fst_conv snd_conv
    using a [OF lec assms(2), of al draw draw] by (simp add: nc)
  from mem a [OF assms, of al draw dg] c [OF assms, of al draw dg] t1 t2 t3 t4
  show ?thesis by blast
qed

theorem construction_reinitializes_shared_encoders_witness:
  "tensors (snd (fst (actor_then_critic example_arglist index_draw))) 0
     = Some (fill (Fin 20) [16, 7, 5, 5])
   \<and> tensors (snd (snd (actor_then_critic example_arglist index_draw))) 0
     = Some (fill (Fin 52) [16, 7, 5, 5])
   \<and> tensors (snd (fst (critic_then_actor example_arglist index_draw))) 0
     = Some (fill (Fin 22) [16, 7, 5, 5])
   \<and> tensors (snd (snd (critic_then_actor example_arglist index_draw))) 0
     = Some (fill (Fin 54) [16, 7, 5, 5])"
proof -
  have e0: "next_addr empty_heap = 0" by (simp add: empty_heap_def)
  show ?thesis
    using construction_reinitializes_shared_encoders
      [where sg = empty_heap and s = "snd (module_level example_arglist index_draw empty_heap)"
         and i = 0 and al = example_arglist and dg = index_draw and draw = index_draw]
    by (simp add: loaded_counters e0 loaded_def encoder_parameters_loaded index_draw_def)
qed
subsection \<open>Claims about the masked categorical output\<close>

text \<open>
  The masking step on a raw output of batch size 1.  The masked output is the list of
  the rounded products; when the raw outputs are values of the arithmetic and the mask
  is binary, the products are exact.  The divisor is the sum that the runtime computes
  for the masked output, and every entry of the result is the rounded quotient.
\<close>

lemma mask_batch1_binary:
  assumes len: "length rv = length rp"
    and bin: "set rv \<subseteq> {0, 1}"
    and m: "m = T1 (map Fin rv) \<or> m = T2 [map Fin rv]"
    and r0: "rounded ar 0 = Fin 0"
    and val: "\<forall>x \<in> set rp. rounded ar x = Fin x"
  shows "mask_unavailable_actions ar (T2 [map Fin rp]) m =
    Inr (T2 [map (\<lambda>p. fdiv (rounded ar) (Fin p) (summed ar (map Fin (zip_with (*) rp rv))))
               (zip_with (*) rp rv)])"
proof -
  have l: "length (map Fin rv) = length (map Fin rp)" using len by simp
  have p: "zip_with (fmul (rounded ar)) (map Fin rp) (map Fin rv) = map Fin (zip_with (*) rp rv)"
    using r0 val bin by (rule masked_binary)
  show ?thesis
    using mask_batch1 [OF l m, of ar] unfolding p by (simp add: comp_def)
qed

lemma sum_list_abs_diff:
  fixes f g :: "'a \<Rightarrow> real"
  assumes "\<forall>x \<in> set xs. \<bar>f x - g x\<bar> \<le> e x"
  shows "\<bar>sum_list (map f xs) - sum_list (map g xs)\<bar> \<le> sum_list (map e xs)"
  using assms
proof (induction xs)
  case Nil
  then show ?case by simp
next
  case (Cons a xs)
  have "\<bar>f a - g a\<bar> \<le> e a" using Cons.prems by simp
  moreover have "\<bar>sum_list (map f xs) - sum_list (map g xs)\<bar> \<le> sum_list (map e xs)"
    using Cons by simp
  ultimately show ?case by simp
qed

lemma sum_list_affine:
  fixes u :: real
  shows "sum_list (map (\<lambda>p. u * \<bar>p / s\<bar> + c) ps) =
           u * (sum_list (map abs ps) / \<bar>s\<bar>) + real (length ps) * c"
  by (induction ps) (simp_all add: algebra_simps add_divide_distrib)

lemma sum_list_le_abs: "\<bar>sum_list ps\<bar> \<le> sum_list (map abs (ps :: real list))"
  by (induction ps) auto

lemma sum_list_abs_nonneg: "\<forall>p \<in> set ps. 0 \<le> p \<Longrightarrow> sum_list (map abs ps) = sum_list (ps :: real list)"
  by (induction ps) auto

text \<open>
  Claim C3 (amended).  Let the raw categorical output of the actor path (the output of
  \<^verbatim>\<open>layer_action\<close>) have shape \<open>(1, n)\<close> and finite entries \<open>rp\<close>, values of the arithmetic, and
  let the validity mask \<open>rv\<close> be binary, of shape \<open>(n)\<close> or \<open>(1, n)\<close>.  Let the divisor \<open>s\<close> that
  the runtime computes, the sum of the masked raw output, be finite and non-zero, and
  differ from the exact sum by at most \<open>\<gamma>\<close> times the sum of the magnitudes of the masked
  raw outputs, with \<open>\<gamma> < 1\<close>; let every quotient be rounded to a finite value with a
  relative error of at most \<open>u\<close> and an absolute error of at most \<open>\<eta>\<close>, keeping its sign.  Then the categorical output of the actor path is
  finite, and its entries sum to 1 up to rounding: their sum differs from 1 by at most
  \<open>(\<gamma> + u)\<close> times the sum of the magnitudes of the masked raw outputs over \<open>\<bar>s\<bar>\<close>, plus
  \<open>n \<eta>\<close>.  When every masked raw output is non-negative, the entries are all non-negative
  and their sum differs from 1 by at most \<open>(\<gamma> + u) / (1 - \<gamma>) + n \<eta>\<close>.  (The categorical
  head ends in a dense layer, so a raw output may be negative, and the sum is 1 only as
  far as the arithmetic of the runtime is exact.)
\<close>

theorem categorical_sums_to_one:
  assumes raw: "ActorNet_forward_raw ar al h self obs = Inr (state_h, T2 [map Fin rp])"
    and len: "length rv = length rp"
    and bin: "set rv \<subseteq> {0, 1}"
    and m: "m = T1 (map Fin rv) \<or> m = T2 [map Fin rv]"
    and r0: "rounded ar 0 = Fin 0"
    and val: "\<forall>x \<in> set rp. rounded ar x = Fin x"
    and div: "summed ar (map Fin (zip_with (*) rp rv)) = Fin s" "s \<noteq> 0"
    and acc: "\<bar>s - sum_list (zip_with (*) rp rv)\<bar> \<le> \<gamma> * sum_list (map abs (zip_with (*) rp rv))"
    and quo: "\<forall>p \<in> set (zip_with (*) rp rv).
                \<exists>q. rounded ar (p / s) = Fin q \<and> \<bar>q - p / s\<bar> \<le> u * \<bar>p / s\<bar> + \<eta>
                     \<and> (0 \<le> p / s \<longrightarrow> 0 \<le> q)"
    and tol: "0 \<le> \<gamma>" "\<gamma> < 1" "0 \<le> u"
  shows "\<exists>out. ActorNet_forward_categorical ar al h self obs m = Inr (state_h, T2 [map Fin out])
           \<and> length out = length rp
           \<and> \<bar>sum_list out - 1\<bar> \<le>
                (\<gamma> + u) * (sum_list (map abs (zip_with (*) rp rv)) / \<bar>s\<bar>)
                  + real (length rp) * \<eta>
           \<and> ((\<forall>p \<in> set (zip_with (*) rp rv). 0 \<le> p) \<longrightarrow>
                 (\<forall>q \<in> set out. 0 \<le> q)
                 \<and> \<bar>sum_list out - 1\<bar> \<le> (\<gamma> + u) / (1 - \<gamma>) + real (length rp) * \<eta>)"
proof -
  define ps where "ps = zip_with (*) rp rv"
  define A where "A = sum_list (map abs ps)"
  have "\<forall>p \<in> set ps. \<exists>q. rounded ar (p / s) = Fin q \<and> \<bar>q - p / s\<bar> \<le> u * \<bar>p / s\<bar> + \<eta>
                     \<and> (0 \<le> p / s \<longrightarrow> 0 \<le> q)"
    using quo by (simp add: ps_def)
  then obtain qf where qf: "\<forall>p \<in> set ps. rounded ar (p / s) = Fin (qf p)
      \<and> \<bar>qf p - p / s\<bar> \<le> u * \<bar>p / s\<bar> + \<eta> \<and> (0 \<le> p / s \<longrightarrow> 0 \<le> qf p)"
    using bchoice [of "set ps" "\<lambda>p q. rounded ar (p / s) = Fin q \<and> \<bar>q - p / s\<bar> \<le> u * \<bar>p / s\<bar> + \<eta>
                     \<and> (0 \<le> p / s \<longrightarrow> 0 \<le> q)"] by blast
  define out where "out = map qf ps"
  have lps: "length ps = length rp" using len by (simp add: ps_def)
  have q: "rounded ar (p / s) = Fin (qf p)" "\<bar>qf p - p / s\<bar> \<le> u * \<bar>p / s\<bar> + \<eta>"
    "0 \<le> p / s \<longrightarrow> 0 \<le> qf p" if "p \<in> set ps" for p
    using qf that by blast+
  have "mask_unavailable_actions ar (T2 [map Fin rp]) m =
      Inr (T2 [map (\<lambda>p. fdiv (rounded ar) (Fin p) (Fin s)) ps])"
    using mask_batch1_binary [OF len bin m r0 val] unfolding ps_def div(1) .
  moreover have "map (\<lambda>p. fdiv (rounded ar) (Fin p) (Fin s)) ps = map Fin out"
    unfolding out_def using q(1) div(2) by simp
  ultimately have res: "ActorNet_forward_categorical ar al h self obs m = Inr (state_h, T2 [map Fin out])"
    unfolding ActorNet_forward_categorical_def by (simp only: raw ebind_Inr prod.case)
  have lo: "length out = length rp" using lps by (simp add: out_def)
  have d1: "\<bar>sum_list out - sum_list (map (\<lambda>p. p / s) ps)\<bar> \<le> u * (A / \<bar>s\<bar>) + real (length rp) * \<eta>"
  proof -
    have "\<bar>sum_list (map qf ps) - sum_list (map (\<lambda>p. p / s) ps)\<bar>
        \<le> sum_list (map (\<lambda>p. u * \<bar>p / s\<bar> + \<eta>) ps)"
      using q(2) by (intro sum_list_abs_diff) blast
    then show ?thesis unfolding out_def A_def sum_list_affine lps .
  qed
  have d2: "\<bar>sum_list (map (\<lambda>p. p / s) ps) - 1\<bar> \<le> \<gamma> * (A / \<bar>s\<bar>)"
  proof -
    have "sum_list (map (\<lambda>p. p / s) ps) - 1 = (sum_list ps - s) / s"
      using div(2) by (simp add: sum_list_div diff_divide_distrib)
    then have "\<bar>sum_list (map (\<lambda>p. p / s) ps) - 1\<bar> = \<bar>s - sum_list ps\<bar> / \<bar>s\<bar>"
      by (simp add: abs_minus_commute)
    also have "\<dots> \<le> (\<gamma> * A) / \<bar>s\<bar>"
      using acc div(2) unfolding ps_def [symmetric] A_def [symmetric]
      by (intro divide_right_mono) simp_all
    finally show ?thesis by simp
  qed
  have "(\<gamma> + u) * (A / \<bar>s\<bar>) = \<gamma> * (A / \<bar>s\<bar>) + u * (A / \<bar>s\<bar>)"
    by (rule distrib_right)
  then have gen: "\<bar>sum_list out - 1\<bar> \<le> (\<gamma> + u) * (A / \<bar>s\<bar>) + real (length rp) * \<eta>"
    using d1 d2 by linarith
  have nn: "(\<forall>q \<in> set out. 0 \<le> q)
      \<and> \<bar>sum_list out - 1\<bar> \<le> (\<gamma> + u) / (1 - \<gamma>) + real (length rp) * \<eta>"
    if pos: "\<forall>p \<in> set ps. 0 \<le> p"
  proof -
    have As: "A = sum_list ps" unfolding A_def using pos by (rule sum_list_abs_nonneg)
    have A0: "0 \<le> A" unfolding As using pos by (simp add: sum_list_nonneg)
    have "A - s \<le> \<gamma> * A" using acc unfolding ps_def [symmetric] A_def [symmetric] As by linarith
    then have low: "(1 - \<gamma>) * A \<le> s" by (simp add: algebra_simps)
    have "0 \<le> (1 - \<gamma>) * A" using tol(2) A0 by simp
    then have s0: "0 < s" using low div(2) by linarith
    have "0 \<le> qf p" if "p \<in> set ps" for p
    proof -
      have "0 \<le> p / s" using pos that s0 by simp
      then show ?thesis using q(3) [OF that] by simp
    qed
    then have o: "\<forall>q \<in> set out. 0 \<le> q" by (auto simp: out_def)
    have "A \<le> s / (1 - \<gamma>)" using low tol(2) by (simp add: pos_le_divide_eq mult.commute)
    then have "A / s \<le> 1 / (1 - \<gamma>)" using s0 by (simp add: pos_divide_le_eq mult.commute)
    then have "(\<gamma> + u) * (A / s) \<le> (\<gamma> + u) * (1 / (1 - \<gamma>))"
      using tol(1,3) by (intro mult_left_mono) simp_all
    then have "(\<gamma> + u) * (A / \<bar>s\<bar>) \<le> (\<gamma> + u) / (1 - \<gamma>)" using s0 by simp
    then show ?thesis using gen o by linarith
  qed
  from res lo gen nn show ?thesis unfolding ps_def [symmetric] A_def [symmetric] by blast
qed

text \<open>
  An instance in the fixed-point arithmetic \<open>eighths\<close>, whose rounding has no relative error
  and an absolute error of at most \<open>1/16\<close>, and whose sums of multiples of \<open>1/8\<close> are exact:
  the ActorNet with two actions, zero weights and the bias \<open>(1, 15)\<close> in the dense layer of
  the categorical head, with the mask \<open>(1, 1)\<close>.  The divisor is 16 and the categorical
  output is \<open>(1/8, 1)\<close>: both quotients are rounded up, and the entries sum to \<open>9/8\<close>.
\<close>

theorem categorical_sums_to_one_witness:
  "\<exists>state_h out.
      ActorNet_forward_categorical eighths example_arglist
        (snd (fst (actor_then_critic example_arglist (biased_draw [Fin 1, Fin 15]))))
        (fst (fst (actor_then_critic example_arglist (biased_draw [Fin 1, Fin 15]))))
        example_obs (T1 [Fin 1, Fin 1]) = Inr (T4 state_h, T2 [map Fin out])
    \<and> out = [1 / 8, 1] \<and> \<bar>sum_list out - 1\<bar> \<le> 1 / 8 \<and> (\<forall>q \<in> set out. 0 \<le> q)"
proof -
  have v: "list_all (value_of eighths) [Fin 1, Fin 15]" by (simp add: round_eighths_def)
  obtain state_h where raw: "ActorNet_forward_raw eighths example_arglist
        (snd (fst (actor_then_critic example_arglist (biased_draw [Fin 1, Fin 15]))))
        (fst (fst (actor_then_critic example_arglist (biased_draw [Fin 1, Fin 15]))))
        example_obs = Inr (T4 state_h, T2 [map Fin [1, 15]])"
    using example_actor_raw [OF _ _ finite_arith_eighths zero_arith_eighths v] by auto
  have quo: "\<forall>p \<in> set (zip_with (*) [1, 15] [1, 1 :: real]).
       \<exists>q. rounded eighths (p / 16) = Fin q \<and> \<bar>q - p / 16\<bar> \<le> 0 * \<bar>p / 16\<bar> + 1 / 16
            \<and> (0 \<le> p / 16 \<longrightarrow> 0 \<le> q)"
  proof (intro ballI)
    fix p :: real assume "p \<in> set (zip_with (*) [1, 15] [1, 1])"
    then consider "p = 1" | "p = 15" by (auto simp: zip_with_def)
    then show "\<exists>q. rounded eighths (p / 16) = Fin q \<and> \<bar>q - p / 16\<bar> \<le> 0 * \<bar>p / 16\<bar> + 1 / 16
            \<and> (0 \<le> p / 16 \<longrightarrow> 0 \<le> q)"
    proof cases
      case 1
      then show ?thesis by (intro exI [of _ "1 / 8"]) (simp add: round_eighths_def)
    next
      case 2
      then show ?thesis by (intro exI [of _ 1]) (simp add: round_eighths_def)
    qed
  qed
  have "\<exists>out. ActorNet_forward_categorical eighths example_arglist
        (snd (fst (actor_then_critic example_arglist (biased_draw [Fin 1, Fin 15]))))
        (fst (fst (actor_then_critic example_arglist (biased_draw [Fin 1, Fin 15]))))
        example_obs (T1 (map Fin [1, 1])) = Inr (T4 state_h, T2 [map Fin out])
      \<and> length out = length [1, 15 :: real]
      \<and> \<bar>sum_list out - 1\<bar> \<le>
           (0 + 0) * (sum_list (map abs (zip_with (*) [1, 15] [1, 1 :: real])) / \<bar>16\<bar>)
             + real (length [1, 15 :: real]) * (1 / 16)
      \<and> ((\<forall>p \<in> set (zip_with (*) [1, 15] [1, 1 :: real]). 0 \<le> p) \<longrightarrow>
            (\<forall>q \<in> set out. 0 \<le> q)
            \<and> \<bar>sum_list out - 1\<bar> \<le> (0 + 0) / (1 - 0) + real (length [1, 15 :: real]) * (1 / 16))"
    using raw _ _ _ _ _ _ _ _ quo
  proof (rule categorical_sums_to_one)
    show "length [1, 1 :: real] = length [1, 15 :: real]" by simp
    show "set [1, 1 :: real] \<subseteq> {0, 1}" by simp
    show "T1 (map Fin [1, 1]) = T1 (map Fin [1, 1]) \<or> T1 (map Fin [1, 1]) = T2 [map Fin [1, 1]]"
      by simp
    show "rounded eighths 0 = Fin 0" by simp
    show "\<forall>x \<in> set [1, 15 :: real]. rounded eighths x = Fin x" by (simp add: round_eighths_def)
    show "summed eighths (map Fin (zip_with (*) [1, 15] [1, 1])) = Fin 16"
      by (simp add: zip_with_def seq_sum_def round_eighths_def)
    show "(16 :: real) \<noteq> 0" by simp
    show "\<bar>16 - sum_list (zip_with (*) [1, 15] [1, 1 :: real])\<bar>
        \<le> 0 * sum_list (map abs (zip_with (*) [1, 15] [1, 1 :: real]))"
      by (simp add: zip_with_def)
  qed simp_all
  then obtain out where o: "ActorNet_forward_categorical eighths example_arglist
        (snd (fst (actor_then_critic example_arglist (biased_draw [Fin 1, Fin 15]))))
        (fst (fst (actor_then_critic example_arglist (biased_draw [Fin 1, Fin 15]))))
        example_obs (T1 [Fin 1, Fin 1]) = Inr (T4 state_h, T2 [map Fin out])"
    and b: "\<bar>sum_list out - 1\<bar> \<le> 1 / 8" and n: "\<forall>q \<in> set out. 0 \<le> q"
    by (auto simp: zip_with_def)
  have "mask_unavailable_actions eighths (T2 [[Fin 1, Fin 15]]) (T1 [Fin 1, Fin 1]) =
      Inr (T2 [[Fin (1 / 8), Fin 1]])"
    by (simp add: mask_unavailable_actions_def broadcast2_def broadcast2_inplace_def bdim_def
        rows_def cols_def expand2_def expand_dim_def zip_with_def seq_sum_def round_eighths_def)
  then have "map_sum id snd (ActorNet_forward_categorical eighths example_arglist
        (snd (fst (actor_then_critic example_arglist (biased_draw [Fin 1, Fin 15]))))
        (fst (fst (actor_then_critic example_arglist (biased_draw [Fin 1, Fin 15]))))
        example_obs (T1 [Fin 1, Fin 1])) = Inr (T2 [[Fin (1 / 8), Fin 1]])"
    using example_actor_categorical [OF _ _ finite_arith_eighths zero_arith_eighths v,
        where valid_actions = "T1 [Fin 1, Fin 1]"] by simp
  then have "map Fin out = [Fin (1 / 8), Fin 1]" unfolding o by simp
  then have "out = [1 / 8, 1]" by (auto simp: map_eq_Cons_conv)
  with o b n show ?thesis by blast
qed

text \<open>
  Claim C3 as stated fails.  Take two actions, a grid of one cell, and an ActorNet whose
  parameters are all zero but the bias of the dense layer of the categorical head,
  which is \<open>(-1, 3)\<close>.  For the all-zero observation of batch size 1 and the mask
  \<open>(1, 1)\<close>, whose sum is 2, the categorical output is \<open>(-1/2, 3/2)\<close>, in exact arithmetic as
  in every binary floating-point arithmetic: its first entry is negative.
\<close>

theorem actor_categorical_negative_entry:
  "map_sum id snd
     (ActorNet_forward_categorical exact example_arglist
        (snd (fst (actor_then_critic example_arglist (biased_draw [Fin (- 1), Fin 3]))))
        (fst (fst (actor_then_critic example_arglist (biased_draw [Fin (- 1), Fin 3]))))
        example_obs (T1 [Fin 1, Fin 1]))
   = Inr (T2 [[Fin (- (1 / 2)), Fin (3 / 2)]])
   \<and> summed exact [Fin 1, Fin 1] = Fin 2 \<and> \<not> (0::real) \<le> - (1 / 2)"
proof -
  have "mask_unavailable_actions exact (T2 [[Fin (- 1), Fin 3]]) (T1 [Fin 1, Fin 1]) =
     Inr (T2 [[Fin (- (1 / 2)), Fin (3 / 2)]])"
    by (simp add: mask_unavailable_actions_def broadcast2_def broadcast2_inplace_def bdim_def
        rows_def cols_def expand2_def expand_dim_def zip_with_def seq_sum_def)
  moreover have "summed exact [Fin 1, Fin 1] = Fin 2" by (simp add: seq_sum_def)
  moreover have "list_all (value_of exact) [Fin (- 1), Fin 3]" by simp
  ultimately show ?thesis
    using example_actor_categorical [OF _ _ finite_arith_exact zero_arith_exact,
        where bias = "[Fin (- 1), Fin 3]" and valid_actions = "T1 [Fin 1, Fin 1]"] by simp
qed

text \<open>
  Claim C4 (amended).  For a finite raw categorical output of shape \<open>(1, n)\<close> and a validity
  mask of shape \<open>(n)\<close> or \<open>(1, n)\<close>, in an arithmetic in which zero is a value: when the
  divisor that the runtime computes, the sum of the masked output, is neither zero nor
  NaN, every position where the mask entry is 0 has categorical output exactly 0.
\<close>

theorem masked_positions_zero:
  assumes len: "length rv = length rp"
    and m: "m = T1 (map Fin rv) \<or> m = T2 [map Fin rv]"
    and r0: "rounded ar 0 = Fin 0"
    and d0: "summed ar (zip_with (fmul (rounded ar)) (map Fin rp) (map Fin rv)) \<noteq> Fin 0"
    and dn: "summed ar (zip_with (fmul (rounded ar)) (map Fin rp) (map Fin rv)) \<noteq> NaN"
  shows "\<exists>out. mask_unavailable_actions ar (T2 [map Fin rp]) m = Inr (T2 [out])
           \<and> length out = length rp
           \<and> (\<forall>i < length rp. rv ! i = 0 \<longrightarrow> out ! i = Fin 0)"
proof -
  let ?masked = "zip_with (fmul (rounded ar)) (map Fin rp) (map Fin rv)"
  let ?d = "summed ar ?masked"
  let ?out = "map (\<lambda>x. fdiv (rounded ar) x ?d) ?masked"
  have l: "length (map Fin rv) = length (map Fin rp)" using len by simp
  have r: "mask_unavailable_actions ar (T2 [map Fin rp]) m = Inr (T2 [?out])"
    using mask_batch1 [OF l m] .
  have lo: "length ?out = length rp" using len by simp
  have z: "fdiv (rounded ar) (Fin 0) ?d = Fin 0"
    using d0 dn r0 by (cases ?d) simp_all
  have "?out ! i = Fin 0" if i: "i < length rp" and v: "rv ! i = 0" for i
  proof -
    have "?masked ! i = fmul (rounded ar) (Fin (rp ! i)) (Fin (rv ! i))"
      using i len by (simp add: zip_with_nth)
    then have "?masked ! i = Fin 0" using v r0 by simp
    then show ?thesis using i len z by simp
  qed
  with r lo show ?thesis by blast
qed

theorem masked_positions_zero_witness:
  "\<exists>out. mask_unavailable_actions eighths (T2 [map Fin [2, 4, 1]]) (T1 (map Fin [1, 1, 0])) =
            Inr (T2 [out])
         \<and> length out = 3 \<and> out ! 2 = Fin 0"
proof -
  have d: "summed eighths (zip_with (fmul (rounded eighths)) (map Fin [2, 4, 1]) (map Fin [1, 1, 0]))
      = Fin 6"
    by (simp add: zip_with_def seq_sum_def round_eighths_def)
  show ?thesis
    using masked_positions_zero [of "[1, 1, 0]" "[2, 4, 1]" "T1 (map Fin [1, 1, 0])" eighths]
    unfolding d by auto
qed

text \<open>
  Claim C4 as stated fails.  Take the ActorNet with zero weights and the bias \<open>(0, 3)\<close> in
  the dense layer of the categorical head.  With the mask \<open>(1, 0)\<close>, whose sum is 1, the
  masked output sums to zero, and position 1, where the mask is 0, holds NaN.
\<close>

theorem masked_position_nan:
  "map_sum id snd
     (ActorNet_forward_categorical exact example_arglist
        (snd (fst (actor_then_critic example_arglist (biased_draw [Fin 0, Fin 3]))))
        (fst (fst (actor_then_critic example_arglist (biased_draw [Fin 0, Fin 3]))))
        example_obs (T1 [Fin 1, Fin 0]))
   = Inr (T2 [[NaN, NaN]])
   \<and> mask_unavailable_actions exact (T2 [[Fin 0, Fin 3]]) (T1 [Fin 1, Fin 0]) = Inr (T2 [[NaN, NaN]])
   \<and> summed exact [Fin 1, Fin 0] = Fin 1 \<and> NaN \<noteq> Fin 0"
proof -
  have "mask_unavailable_actions exact (T2 [[Fin 0, Fin 3]]) (T1 [Fin 1, Fin 0]) = Inr (T2 [[NaN, NaN]])"
    by (simp add: mask_unavailable_actions_def broadcast2_def broadcast2_inplace_def bdim_def
        rows_def cols_def expand2_def expand_dim_def zip_with_def seq_sum_def)
  moreover have "summed exact [Fin 1, Fin 0] = Fin 1" by (simp add: seq_sum_def)
  moreover have "list_all (value_of exact) [Fin 0, Fin 3]" by simp
  ultimately show ?thesis
    using example_actor_categorical [OF _ _ finite_arith_exact zero_arith_exact,
        where bias = "[Fin 0, Fin 3]" and valid_actions = "T1 [Fin 1, Fin 0]"] by simp
qed

text \<open>
  Claim C5 as stated fails for a batch of more than one example.  For a policy of shape
  \<open>(2, 3)\<close> and the all-zero mask of shape \<open>(3)\<close>, every example has a validity mask that
  sums to zero and a masked output that is all zero, and the masking step raises the
  shape error of the in-place division instead of returning a result.
\<close>

theorem zero_mask_batch_two_raises:
  "summed exact [Fin 0, Fin 0, Fin 0] = Fin 0
   \<and> tmul exact (T2 [[Fin 1, Fin 2, Fin 3], [Fin 4, Fin 5, Fin 6]]) (T1 [Fin 0, Fin 0, Fin 0]) =
       Inr (T2 [[Fin 0, Fin 0, Fin 0], [Fin 0, Fin 0, Fin 0]])
   \<and> mask_unavailable_actions exact (T2 [[Fin 1, Fin 2, Fin 3], [Fin 4, Fin 5, Fin 6]])
       (T1 [Fin 0, Fin 0, Fin 0]) = Inl ShapeError"
  by (simp add: mask_unavailable_actions_def broadcast2_def broadcast2_inplace_def bdim_def
      rows_def cols_def expand2_def expand_dim_def zip_with_def seq_sum_def)

text \<open>
  Claim C5 (amended).  For a finite raw categorical output of batch size 1, shape
  \<open>(1, n)\<close>, and a binary validity mask that sums to zero, in an arithmetic in which zero
  is a value and a sum of zeros is zero: the masked output is all zero, the divisor of
  the renormalization is zero, and the masking step returns, without an error, the
  output whose every entry is NaN.
\<close>

theorem zero_mask_degenerate:
  assumes len: "length rv = length rp"
    and bin: "set rv \<subseteq> {0, 1}"
    and z: "sum_list rv = 0"
    and m: "m = T1 (map Fin rv) \<or> m = T2 [map Fin rv]"
    and r0: "rounded ar 0 = Fin 0"
    and s0: "summed ar (replicate (length rp) (Fin 0)) = Fin 0"
  shows "tmul ar (T2 [map Fin rp]) m = Inr (T2 [replicate (length rp) (Fin 0)])
       \<and> tsum1 ar (T2 [replicate (length rp) (Fin 0)]) = Inr (T1 [Fin 0])
       \<and> mask_unavailable_actions ar (T2 [map Fin rp]) m = Inr (T2 [replicate (length rp) NaN])"
proof -
  have rv: "rv = replicate (length rp) 0" using binary_zero_sum [OF bin z] len by simp
  have mrv: "map Fin rv = replicate (length rp) (Fin 0)" by (subst rv) simp
  have zw: "zip_with (fmul (rounded ar)) (map Fin rp) (map Fin rv) = replicate (length rp) (Fin 0)"
    unfolding mrv using r0 by (rule masked_zero)
  have mul: "tmul ar (T2 [map Fin rp]) m = Inr (T2 [replicate (length rp) (Fin 0)])"
  proof -
    have "tmul ar (T2 [map Fin rp]) m =
        Inr (T2 [zip_with (fmul (rounded ar)) (map Fin rp) (map Fin rv)])"
      using m len
      by (auto simp: broadcast2_def bdim_def rows_def cols_def expand2_def expand_dim_def)
    then show ?thesis by (simp only: zw)
  qed
  have sm: "tsum1 ar (T2 [replicate (length rp) (Fin 0)]) = Inr (T1 [Fin 0])" using s0 by simp
  have l: "length (map Fin rv) = length (map Fin rp)" using len by simp
  have "mask_unavailable_actions ar (T2 [map Fin rp]) m =
      Inr (T2 [map (\<lambda>x. fdiv (rounded ar) x (Fin 0)) (replicate (length rp) (Fin 0))])"
    using mask_batch1 [OF l m, of ar] unfolding zw s0 .
  then have "mask_unavailable_actions ar (T2 [map Fin rp]) m = Inr (T2 [replicate (length rp) NaN])"
    by simp
  with mul sm show ?thesis by blast
qed

theorem zero_mask_degenerate_witness:
  "tmul eighths (T2 [map Fin [3, - 2]]) (T1 (map Fin [0, 0])) = Inr (T2 [[Fin 0, Fin 0]])
   \<and> tsum1 eighths (T2 [[Fin 0, Fin 0]]) = Inr (T1 [Fin 0])
   \<and> mask_unavailable_actions eighths (T2 [map Fin [3, - 2]]) (T1 (map Fin [0, 0])) =
       Inr (T2 [[NaN, NaN]])"
  using zero_mask_degenerate [of "[0, 0]" "[3, - 2]" "T1 (map Fin [0, 0])" eighths]
  by (simp add: numeral_2_eq_2 seq_sum_def)

lemma mask_one_hot:
  assumes "length rp = n" and "k < n" and "rp ! k \<noteq> 0"
    and r0: "rounded ar 0 = Fin 0" and r1: "rounded ar 1 = Fin 1"
    and val: "\<forall>x \<in> set rp. rounded ar x = Fin x"
    and sm: "summed ar (map Fin (map (\<lambda>i. if i = k then rp ! k else 0) [0..<n])) = Fin (rp ! k)"
  shows "mask_unavailable_actions ar (T2 [map Fin rp]) (T1 (map Fin (one_hot n k))) =
           Inr (T2 [map Fin (one_hot n k)])
       \<and> mask_unavailable_actions ar (T2 [map Fin rp]) (T2 [map Fin (one_hot n k)]) =
           Inr (T2 [map Fin (one_hot n k)])"
proof -
  have len: "length (one_hot n k) = length rp" using assms(1) by (simp add: one_hot_def)
  have bin: "set (one_hot n k) \<subseteq> {0, 1}" by (auto simp: one_hot_def)
  have z: "zip_with (*) rp (one_hot n k) = map (\<lambda>i. if i = k then rp ! k else 0) [0..<n]"
    using assms(1) by (rule zip_with_one_hot)
  have d: "map (\<lambda>p. fdiv (rounded ar) (Fin p) (Fin (rp ! k)))
             (map (\<lambda>i. if i = k then rp ! k else 0) [0..<n]) = map Fin (one_hot n k)"
    using assms(3) r0 r1 by (simp add: one_hot_def)
  have "mask_unavailable_actions ar (T2 [map Fin rp]) m = Inr (T2 [map Fin (one_hot n k)])"
    if "m = T1 (map Fin (one_hot n k)) \<or> m = T2 [map Fin (one_hot n k)]" for m
    using mask_batch1_binary [OF len bin that r0 val] unfolding z sm d .
  then show ?thesis by simp
qed

text \<open>Without rounding, the hypotheses on the arithmetic hold for all raw outputs.\<close>

lemma mask_one_hot_exact:
  assumes "length rp = n" and "k < n" and "rp ! k \<noteq> 0"
  shows "mask_unavailable_actions exact (T2 [map Fin rp]) (T1 (map Fin (one_hot n k))) =
           Inr (T2 [map Fin (one_hot n k)])
       \<and> mask_unavailable_actions exact (T2 [map Fin rp]) (T2 [map Fin (one_hot n k)]) =
           Inr (T2 [map Fin (one_hot n k)])"
proof -
  have "summed exact (map Fin (map (\<lambda>i. if i = k then rp ! k else 0) [0..<n])) = Fin (rp ! k)"
    using seq_sum_Fin [of "map (\<lambda>i. if i = k then rp ! k else 0) [0..<n]"] sum_list_spike [OF assms(2)]
    by (simp del: map_map)
  then show ?thesis using assms by (intro mask_one_hot) simp_all
qed

text \<open>
  Claim C6 (amended).  For a finite raw categorical output of shape \<open>(1, n)\<close> whose entry at
  index \<open>k\<close> is non-zero, masking with the one-hot validity mask at \<open>k\<close> and renormalizing
  gives exactly the one-hot vector at \<open>k\<close>, whatever the other raw outputs are.  This holds
  in every arithmetic in which 0, 1 and the raw outputs are values and the sum of a list
  whose only non-zero entry is \<open>x\<close> is \<open>x\<close>: with the rounding of the runtime as without it.
\<close>

theorem one_hot_mask_gives_one_hot:
  assumes "length rp = n" and "k < n" and "rp ! k \<noteq> 0"
    and "rounded ar 0 = Fin 0" and "rounded ar 1 = Fin 1"
    and "\<forall>x \<in> set rp. rounded ar x = Fin x"
    and "summed ar (map Fin (map (\<lambda>i. if i = k then rp ! k else 0) [0..<n])) = Fin (rp ! k)"
  shows "mask_unavailable_actions ar (T2 [map Fin rp]) (T1 (map Fin (one_hot n k))) =
           Inr (T2 [map Fin (one_hot n k)])
       \<and> mask_unavailable_actions ar (T2 [map Fin rp]) (T2 [map Fin (one_hot n k)]) =
           Inr (T2 [map Fin (one_hot n k)])"
  using assms by (rule mask_one_hot)

theorem one_hot_mask_gives_one_hot_witness:
  "mask_unavailable_actions exact (T2 [map Fin [1, 2, 3, 4, 5, 7]]) (T1 (map Fin (one_hot 6 5))) =
     Inr (T2 [map Fin [0, 0, 0, 0, 0, 1]])"
proof -
  have oh: "one_hot 6 5 = [0, 0, 0, 0, 0, 1]"
    by (simp add: one_hot_def upt_conv_Cons)
  have sm: "summed exact (map Fin (map (\<lambda>i. if i = 5 then [1, 2, 3, 4, 5, 7] ! 5 else 0) [0..<6]))
      = Fin ([1, 2, 3, 4, 5, 7] ! 5)"
    by (simp add: upt_conv_Cons seq_sum_def)
  show ?thesis
    using one_hot_mask_gives_one_hot [of "[1, 2, 3, 4, 5, 7]" 6 5 exact, OF _ _ _ _ _ _ sm]
    by (simp add: oh)
qed

text \<open>
  Claim C6 as stated fails: when the raw output at the index of the one-hot mask is 0,
  the masked output sums to zero and every entry of the result is NaN.  So it is for
  the raw output \<open>(1, 2, 3, 4, 5, 0)\<close> and the one-hot mask at index 5, and for the
  ActorNet with two actions, zero weights and the bias \<open>(3, 0)\<close> in the dense layer of the
  categorical head, with the one-hot mask at index 1.
\<close>

theorem one_hot_zero_logit_nan:
  "mask_unavailable_actions exact (T2 [[Fin 1, Fin 2, Fin 3, Fin 4, Fin 5, Fin 0]])
     (T1 (map Fin (one_hot 6 5))) = Inr (T2 [[NaN, NaN, NaN, NaN, NaN, NaN]])
   \<and> map_sum id snd
     (ActorNet_forward_categorical exact example_arglist
        (snd (fst (actor_then_critic example_arglist (biased_draw [Fin 3, Fin 0]))))
        (fst (fst (actor_then_critic example_arglist (biased_draw [Fin 3, Fin 0]))))
        example_obs (T1 (map Fin (one_hot 2 1))))
     = Inr (T2 [[NaN, NaN]])"
proof -
  have "mask_unavailable_actions exact (T2 [[Fin 1, Fin 2, Fin 3, Fin 4, Fin 5, Fin 0]])
     (T1 (map Fin (one_hot 6 5))) = Inr (T2 [[NaN, NaN, NaN, NaN, NaN, NaN]])"
    by (simp add: mask_unavailable_actions_def broadcast2_def broadcast2_inplace_def bdim_def
        rows_def cols_def expand2_def expand_dim_def zip_with_def seq_sum_def one_hot_def
        upt_conv_Cons)
  moreover have "mask_unavailable_actions exact (T2 [[Fin 3, Fin 0]]) (T1 (map Fin (one_hot 2 1)))
      = Inr (T2 [[NaN, NaN]])"
    by (simp add: mask_unavailable_actions_def broadcast2_def broadcast2_inplace_def bdim_def
        rows_def cols_def expand2_def expand_dim_def zip_with_def seq_sum_def one_hot_def
        upt_conv_Cons)
  moreover have "list_all (value_of exact) [Fin 3, Fin 0]" by simp
  ultimately show ?thesis
    using example_actor_categorical [OF _ _ finite_arith_exact zero_arith_exact,
        where bias = "[Fin 3, Fin 0]" and valid_actions = "T1 (map Fin (one_hot 2 1))"] by simp
qed

text \<open>
  Claim C9.  For a policy of shape \<open>(B, N)\<close> and a mask of shape \<open>(N)\<close> or \<open>(B, N)\<close>, in every
  arithmetic: with batch size 1 the step divides the masked row by that row's sum (every
  entry is the quotient, as the arithmetic rounds it, by the sum that the arithmetic
  computes); with a batch size greater than 1 and different from \<open>N\<close> the in-place
  division by the rank-1 vector of row sums does not broadcast, and the step ends in a
  shape error.
\<close>

theorem renormalization_needs_batch_one:
  assumes p: "is_shape2 B N p"
    and m: "(\<exists>v. m = T1 v \<and> length v = N) \<or> (\<exists>w. m = T2 w \<and> is_shape2 B N w)"
  shows "(B = 1 \<longrightarrow> (\<exists>row. tmul ar (T2 p) m = Inr (T2 [row]) \<and>
            mask_unavailable_actions ar (T2 p) m =
              Inr (T2 [map (\<lambda>x. fdiv (rounded ar) x (summed ar row)) row])))
       \<and> (1 < B \<and> B \<noteq> N \<longrightarrow> mask_unavailable_actions ar (T2 p) m = Inl ShapeError)"
proof (intro conjI impI)
  assume B1: "B = 1"
  then obtain r where r: "p = [r]" "length r = N"
    using p by (cases p) (auto simp: is_shape2_def)
  from m obtain v where v: "m = T1 v \<or> m = T2 [v]" "length v = N"
  proof
    assume "\<exists>v. m = T1 v \<and> length v = N"
    then show ?thesis using that by blast
  next
    assume "\<exists>w. m = T2 w \<and> is_shape2 B N w"
    then obtain w where w: "m = T2 w" "is_shape2 B N w" by blast
    then obtain v where "w = [v]" "length v = N"
      using B1 by (cases w) (auto simp: is_shape2_def)
    then show ?thesis using that w by blast
  qed
  have l: "length v = length r" using r v by simp
  have mul: "tmul ar (T2 p) m = Inr (T2 [zip_with (fmul (rounded ar)) r v])"
    using v r
    by (auto simp: broadcast2_def bdim_def rows_def cols_def expand2_def expand_dim_def)
  have "mask_unavailable_actions ar (T2 p) m =
      Inr (T2 [map (\<lambda>x. fdiv (rounded ar) x (summed ar (zip_with (fmul (rounded ar)) r v)))
                 (zip_with (fmul (rounded ar)) r v)])"
    using v(1) mask_batch1_rank1 [OF l] mask_batch1_rank2 [OF l] r(1) by blast
  with mul show "\<exists>row. tmul ar (T2 p) m = Inr (T2 [row]) \<and>
            mask_unavailable_actions ar (T2 p) m =
              Inr (T2 [map (\<lambda>x. fdiv (rounded ar) x (summed ar row)) row])"
    by blast
next
  assume a: "1 < B \<and> B \<noteq> N"
  then have B: "1 < B" and ne: "B \<noteq> N" by auto
  obtain masked where mk: "tmul ar (T2 p) m = Inr (T2 masked)" "is_shape2 B N masked"
    using tmul_batch_shape [OF p B m] by blast
  show "mask_unavailable_actions ar (T2 p) m = Inl ShapeError"
    unfolding mask_unavailable_actions_def
    using tdiv_inplace_batch_error [OF mk(2) B ne]
    by (simp only: mk(1) sum.case tsum1.simps)
qed

theorem renormalization_needs_batch_one_witness:
  "(\<exists>row. tmul exact (T2 [[Fin 2, Fin 4, Fin 2]]) (T1 [Fin 1, Fin 1, Fin 0]) = Inr (T2 [row]) \<and>
      mask_unavailable_actions exact (T2 [[Fin 2, Fin 4, Fin 2]]) (T1 [Fin 1, Fin 1, Fin 0]) =
        Inr (T2 [map (\<lambda>x. fdiv (rounded exact) x (summed exact row)) row]))
   \<and> mask_unavailable_actions exact (T2 [[Fin 1, Fin 1, Fin 2], [Fin 1, Fin 3, Fin 4]])
        (T1 [Fin 1, Fin 1, Fin 1]) = Inl ShapeError"
  using renormalization_needs_batch_one
      [of 1 3 "[[Fin 2, Fin 4, Fin 2]]" "T1 [Fin 1, Fin 1, Fin 0]" exact]
    renormalization_needs_batch_one
      [of 2 3 "[[Fin 1, Fin 1, Fin 2], [Fin 1, Fin 3, Fin 4]]" "T1 [Fin 1, Fin 1, Fin 1]" exact]
  by (simp add: is_shape2_def)

text \<open>
  With batch size equal to the number of actions the division does broadcast, along the
  wrong axis: entry \<open>(i, j)\<close> is divided by the sum of example \<open>j\<close>.
\<close>

lemma square_batch_divides_by_column_sum:
  "mask_unavailable_actions exact (T2 [[Fin 1, Fin 1], [Fin 1, Fin 3]]) (T1 [Fin 1, Fin 1]) =
     Inr (T2 [[Fin (1 / 2), Fin (1 / 4)], [Fin (1 / 2), Fin (3 / 4)]])"
  by (simp add: mask_unavailable_actions_def broadcast2_def broadcast2_inplace_def bdim_def
      rows_def cols_def expand2_def expand_dim_def zip_with_def seq_sum_def)

end
